theory Spec2Isabelle
  imports Complex_Main "HOL-Library.Word"
begin

unbundle bit_operations_syntax

section \<open>The NX platform layer of raylib (src/platforms/rcore\_nx.c)\<close>

text \<open>
  The file binds raylib's window, input and timing interface to libnx and EGL. It works on
  two process-wide structures: \<open>CORE\<close> (raylib's \<open>CoreData\<close>, declared in rcore.c) and
  the file's own \<open>platform\<close> (\<open>PlatformData\<close>). Both are modelled as records and passed
  explicitly, together with what \<open>TRACELOG\<close> has printed.

  Conventions of the embedding:
  \<^item> a C array is a function from the index to the cell; only indices below the declared
    size are cells of the array, and an access the code does not bound by a constant
    (the touch count, the exit key) is checked and yields a fault, the model's reading of
    undefined behaviour;
  \<^item> \<open>unsigned int\<close>, \<open>u32\<close>, \<open>u64\<close> are words; \<open>int\<close> fields that only hold small
    counts are \<open>int\<close>; \<open>char\<close> state cells are 8-bit words;
  \<^item> \<open>float\<close> and \<open>double\<close> values are reals, and every operation that rounds in C
    applies an explicit rounding function, a parameter of the operation (infinities and
    NaN have no counterpart: a division by a zero scale is written out where it occurs);
  \<^item> a call into libnx or EGL is modelled by its answer, read from a record of the
    answers of one call of the function under study.
\<close>

subsection \<open>Constants of raylib and libnx used by the file\<close>

text \<open>
  The headers that declare these constants (raylib.h, config.h, rcore.c, EGL/egl.h and
  libnx's switch/services/hid.h) are not part of the source tree under study; the values
  below are the ones of those headers.
\<close>

definition MAX_KEYBOARD_KEYS :: nat where "MAX_KEYBOARD_KEYS = 512"
definition MAX_MOUSE_BUTTONS :: nat where "MAX_MOUSE_BUTTONS = 8"
definition MAX_GAMEPADS :: nat where "MAX_GAMEPADS = 4"
definition MAX_GAMEPAD_AXIS :: nat where "MAX_GAMEPAD_AXIS = 8"
definition MAX_GAMEPAD_BUTTONS :: nat where "MAX_GAMEPAD_BUTTONS = 32"
definition MAX_TOUCH_POINTS :: nat where "MAX_TOUCH_POINTS = 8"

definition KEY_SPACE :: nat where "KEY_SPACE = 32"
definition KEY_A :: nat where "KEY_A = 65"
definition KEY_D :: nat where "KEY_D = 68"
definition KEY_E :: nat where "KEY_E = 69"
definition KEY_F :: nat where "KEY_F = 70"
definition KEY_Q :: nat where "KEY_Q = 81"
definition KEY_R :: nat where "KEY_R = 82"
definition KEY_S :: nat where "KEY_S = 83"
definition KEY_W :: nat where "KEY_W = 87"
definition KEY_ESCAPE :: nat where "KEY_ESCAPE = 256"
definition KEY_ENTER :: nat where "KEY_ENTER = 257"
definition KEY_RIGHT :: nat where "KEY_RIGHT = 262"
definition KEY_LEFT :: nat where "KEY_LEFT = 263"
definition KEY_DOWN :: nat where "KEY_DOWN = 264"
definition KEY_UP :: nat where "KEY_UP = 265"
definition KEY_LEFT_SHIFT :: nat where "KEY_LEFT_SHIFT = 340"

definition MOUSE_BUTTON_LEFT :: nat where "MOUSE_BUTTON_LEFT = 0"
definition MOUSE_BUTTON_RIGHT :: nat where "MOUSE_BUTTON_RIGHT = 1"
definition MOUSE_BUTTON_MIDDLE :: nat where "MOUSE_BUTTON_MIDDLE = 2"

definition GAMEPAD_BUTTON_LEFT_FACE_UP :: nat where "GAMEPAD_BUTTON_LEFT_FACE_UP = 1"
definition GAMEPAD_BUTTON_LEFT_FACE_RIGHT :: nat where "GAMEPAD_BUTTON_LEFT_FACE_RIGHT = 2"
definition GAMEPAD_BUTTON_LEFT_FACE_DOWN :: nat where "GAMEPAD_BUTTON_LEFT_FACE_DOWN = 3"
definition GAMEPAD_BUTTON_LEFT_FACE_LEFT :: nat where "GAMEPAD_BUTTON_LEFT_FACE_LEFT = 4"
definition GAMEPAD_BUTTON_RIGHT_FACE_UP :: nat where "GAMEPAD_BUTTON_RIGHT_FACE_UP = 5"
definition GAMEPAD_BUTTON_RIGHT_FACE_RIGHT :: nat where "GAMEPAD_BUTTON_RIGHT_FACE_RIGHT = 6"
definition GAMEPAD_BUTTON_RIGHT_FACE_DOWN :: nat where "GAMEPAD_BUTTON_RIGHT_FACE_DOWN = 7"
definition GAMEPAD_BUTTON_RIGHT_FACE_LEFT :: nat where "GAMEPAD_BUTTON_RIGHT_FACE_LEFT = 8"
definition GAMEPAD_BUTTON_LEFT_TRIGGER_1 :: nat where "GAMEPAD_BUTTON_LEFT_TRIGGER_1 = 9"
definition GAMEPAD_BUTTON_LEFT_TRIGGER_2 :: nat where "GAMEPAD_BUTTON_LEFT_TRIGGER_2 = 10"
definition GAMEPAD_BUTTON_RIGHT_TRIGGER_1 :: nat where "GAMEPAD_BUTTON_RIGHT_TRIGGER_1 = 11"
definition GAMEPAD_BUTTON_RIGHT_TRIGGER_2 :: nat where "GAMEPAD_BUTTON_RIGHT_TRIGGER_2 = 12"
definition GAMEPAD_BUTTON_MIDDLE_LEFT :: nat where "GAMEPAD_BUTTON_MIDDLE_LEFT = 13"
definition GAMEPAD_BUTTON_MIDDLE_RIGHT :: nat where "GAMEPAD_BUTTON_MIDDLE_RIGHT = 15"
definition GAMEPAD_BUTTON_LEFT_THUMB :: nat where "GAMEPAD_BUTTON_LEFT_THUMB = 16"
definition GAMEPAD_BUTTON_RIGHT_THUMB :: nat where "GAMEPAD_BUTTON_RIGHT_THUMB = 17"

definition GAMEPAD_AXIS_LEFT_X :: nat where "GAMEPAD_AXIS_LEFT_X = 0"
definition GAMEPAD_AXIS_LEFT_Y :: nat where "GAMEPAD_AXIS_LEFT_Y = 1"
definition GAMEPAD_AXIS_RIGHT_X :: nat where "GAMEPAD_AXIS_RIGHT_X = 2"
definition GAMEPAD_AXIS_RIGHT_Y :: nat where "GAMEPAD_AXIS_RIGHT_Y = 3"
definition GAMEPAD_AXIS_LEFT_TRIGGER :: nat where "GAMEPAD_AXIS_LEFT_TRIGGER = 4"
definition GAMEPAD_AXIS_RIGHT_TRIGGER :: nat where "GAMEPAD_AXIS_RIGHT_TRIGGER = 5"

definition FLAG_FULLSCREEN_MODE :: "32 word" where "FLAG_FULLSCREEN_MODE = 2"

text \<open>\<open>HidNpadButton\<close>: one bit of the 64-bit button mask each (\<open>BIT(n)\<close> in hid.h).\<close>

definition HidNpadButton_A :: "64 word" where "HidNpadButton_A = push_bit 0 1"
definition HidNpadButton_B :: "64 word" where "HidNpadButton_B = push_bit 1 1"
definition HidNpadButton_X :: "64 word" where "HidNpadButton_X = push_bit 2 1"
definition HidNpadButton_Y :: "64 word" where "HidNpadButton_Y = push_bit 3 1"
definition HidNpadButton_StickL :: "64 word" where "HidNpadButton_StickL = push_bit 4 1"
definition HidNpadButton_StickR :: "64 word" where "HidNpadButton_StickR = push_bit 5 1"
definition HidNpadButton_L :: "64 word" where "HidNpadButton_L = push_bit 6 1"
definition HidNpadButton_R :: "64 word" where "HidNpadButton_R = push_bit 7 1"
definition HidNpadButton_ZL :: "64 word" where "HidNpadButton_ZL = push_bit 8 1"
definition HidNpadButton_ZR :: "64 word" where "HidNpadButton_ZR = push_bit 9 1"
definition HidNpadButton_Plus :: "64 word" where "HidNpadButton_Plus = push_bit 10 1"
definition HidNpadButton_Minus :: "64 word" where "HidNpadButton_Minus = push_bit 11 1"
definition HidNpadButton_Left :: "64 word" where "HidNpadButton_Left = push_bit 12 1"
definition HidNpadButton_Up :: "64 word" where "HidNpadButton_Up = push_bit 13 1"
definition HidNpadButton_Right :: "64 word" where "HidNpadButton_Right = push_bit 14 1"
definition HidNpadButton_Down :: "64 word" where "HidNpadButton_Down = push_bit 15 1"
definition HidNpadButton_StickLLeft :: "64 word" where "HidNpadButton_StickLLeft = push_bit 16 1"
definition HidNpadButton_StickLUp :: "64 word" where "HidNpadButton_StickLUp = push_bit 17 1"
definition HidNpadButton_StickLRight :: "64 word" where "HidNpadButton_StickLRight = push_bit 18 1"
definition HidNpadButton_StickLDown :: "64 word" where "HidNpadButton_StickLDown = push_bit 19 1"

text \<open>\<open>HidNpadStyleTag\<close>: one bit of the 32-bit style set each.\<close>

definition HidNpadStyleTag_NpadFullKey :: "32 word" where "HidNpadStyleTag_NpadFullKey = push_bit 0 1"
definition HidNpadStyleTag_NpadHandheld :: "32 word" where "HidNpadStyleTag_NpadHandheld = push_bit 1 1"
definition HidNpadStyleTag_NpadJoyDual :: "32 word" where "HidNpadStyleTag_NpadJoyDual = push_bit 2 1"
definition HidNpadStyleTag_NpadJoyLeft :: "32 word" where "HidNpadStyleTag_NpadJoyLeft = push_bit 3 1"
definition HidNpadStyleTag_NpadJoyRight :: "32 word" where "HidNpadStyleTag_NpadJoyRight = push_bit 4 1"
definition HidNpadStyleTag_NpadGc :: "32 word" where "HidNpadStyleTag_NpadGc = push_bit 5 1"
definition HidNpadStyleTag_NpadPalma :: "32 word" where "HidNpadStyleTag_NpadPalma = push_bit 6 1"
definition HidNpadStyleTag_NpadLark :: "32 word" where "HidNpadStyleTag_NpadLark = push_bit 7 1"
definition HidNpadStyleTag_NpadHandheldLark :: "32 word" where "HidNpadStyleTag_NpadHandheldLark = push_bit 8 1"
definition HidNpadStyleTag_NpadLucia :: "32 word" where "HidNpadStyleTag_NpadLucia = push_bit 9 1"
definition HidNpadStyleTag_NpadLagon :: "32 word" where "HidNpadStyleTag_NpadLagon = push_bit 10 1"
definition HidNpadStyleTag_NpadLager :: "32 word" where "HidNpadStyleTag_NpadLager = push_bit 11 1"
definition HidNpadStyleTag_NpadSystemExt :: "32 word" where "HidNpadStyleTag_NpadSystemExt = push_bit 29 1"

text \<open>The analog stick range of libnx (\<open>JOYSTICK_MAX\<close> is \<open>0x7FFF\<close>, \<open>JOYSTICK_MIN\<close> its negation).\<close>

definition JOYSTICK_MAX :: int where "JOYSTICK_MAX = 32767"
definition JOYSTICK_MIN :: int where "JOYSTICK_MIN = - 32767"

text \<open>EGL handles are pointers; the three "no object" sentinels are the null pointer.\<close>

type_synonym EGLDisplay = nat
type_synonym EGLSurface = nat
type_synonym EGLContext = nat
type_synonym EGLConfig = nat

definition EGL_NO_DISPLAY :: EGLDisplay where "EGL_NO_DISPLAY = 0"
definition EGL_NO_SURFACE :: EGLSurface where "EGL_NO_SURFACE = 0"
definition EGL_NO_CONTEXT :: EGLContext where "EGL_NO_CONTEXT = 0"

subsection \<open>The shared state: CORE, platform and the trace log\<close>

type_synonym Vector2 = "real \<times> real"
type_synonym cchar = "8 word"

record Size =
  width :: "32 word"
  height :: "32 word"

record WindowData =
  title :: string
  flags :: "32 word"
  ready :: bool
  fullscreen :: bool
  shouldClose :: bool
  screen :: Size
  display :: Size
  render :: Size
  currentFbo :: Size
  screenMin :: Size
  screenMax :: Size

record KeyboardData =
  exitKey :: int
  currentKeyState :: "nat \<Rightarrow> cchar"
  previousKeyState :: "nat \<Rightarrow> cchar"
  keyRepeatInFrame :: "nat \<Rightarrow> cchar"
  keyPressedQueueCount :: int
  charPressedQueueCount :: int

record MouseData =
  currentPosition :: Vector2
  previousPosition :: Vector2
  mouseScale :: Vector2
  cursorHidden :: bool
  currentButtonState :: "nat \<Rightarrow> cchar"
  previousButtonState :: "nat \<Rightarrow> cchar"
  currentWheelMove :: Vector2
  previousWheelMove :: Vector2

record TouchData =
  pointCount :: int
  pointId :: "nat \<Rightarrow> int"
  position :: "nat \<Rightarrow> Vector2"
  currentTouchState :: "nat \<Rightarrow> cchar"
  previousTouchState :: "nat \<Rightarrow> cchar"

text \<open>
  The gamepad block. Its \<open>ready\<close>, \<open>name\<close>, \<open>currentButtonState\<close> and
  \<open>previousButtonState\<close> fields carry the prefix \<open>pad\<close> here, the names being taken by
  the window and mouse blocks.
\<close>

record GamepadData =
  lastButtonPressed :: int
  axisCount :: "nat \<Rightarrow> int"
  padReady :: "nat \<Rightarrow> bool"
  padName :: "nat \<Rightarrow> string"
  padCurrentButtonState :: "nat \<Rightarrow> nat \<Rightarrow> cchar"
  padPreviousButtonState :: "nat \<Rightarrow> nat \<Rightarrow> cchar"
  axisState :: "nat \<Rightarrow> nat \<Rightarrow> real"

text \<open>
  \<open>CoreData\<close>, restricted to the fields the platform file reads or writes. The
  \<open>Input\<close> level of the C structure is flattened: \<open>CORE.Input.Keyboard\<close> is the field
  \<open>Keyboard\<close>.
\<close>

record CoreData =
  Window :: WindowData
  Keyboard :: KeyboardData
  Mouse :: MouseData
  Touch :: TouchData
  Gamepad :: GamepadData
  Time_base :: "64 word"
  Storage_basePath :: string

text \<open>
  The part of libnx's \<open>PadState\<close> that the file reads through \<open>padIsConnected\<close>,
  \<open>padGetStyleSet\<close>, \<open>padGetButtons\<close> and \<open>padGetStickPos\<close>. A stick position is a
  pair of signed 32-bit values.
\<close>

type_synonym HidAnalogStickState = "32 word \<times> 32 word"

record PadState =
  padIsConnected :: bool
  padGetStyleSet :: "32 word"
  padGetButtons :: "64 word"
  padGetStickPos :: "nat \<Rightarrow> HidAnalogStickState"

record PlatformData =
  gbmSurface :: nat
  touchDeltaTime :: "nat \<Rightarrow> int"
  prevTouchCount :: int
  nxPad :: "nat \<Rightarrow> PadState"
  nxPadStyle :: "nat \<Rightarrow> 32 word"
  device :: EGLDisplay
  surface :: EGLSurface
  eglContext :: EGLContext
  config :: EGLConfig

datatype TraceLogLevel = LOG_INFO | LOG_WARNING | LOG_FATAL

record nx_state =
  CORE :: CoreData
  platform :: PlatformData
  tracelog :: "(TraceLogLevel \<times> string) list"

text \<open>\<open>TRACELOG(level, text)\<close> prints one line; the model appends it to the log.\<close>

definition TRACELOG :: "TraceLogLevel \<Rightarrow> string \<Rightarrow> nx_state \<Rightarrow> nx_state" where
  "TRACELOG lvl msg s = s\<lparr>tracelog := tracelog s @ [(lvl, msg)]\<rparr>"


text \<open>
  Statements run one after another: \<open>run [a, b, c] s\<close> is \<open>c (b (a s))\<close>. A counted
  loop \<open>for (int i = 0; i < n; i++) body\<close> is \<open>for_upto n body\<close>.
\<close>

definition run :: "('s \<Rightarrow> 's) list \<Rightarrow> 's \<Rightarrow> 's" where
  "run stmts s = fold (\<lambda>stmt. stmt) stmts s"

primrec for_upto :: "nat \<Rightarrow> (nat \<Rightarrow> 's \<Rightarrow> 's) \<Rightarrow> 's \<Rightarrow> 's" where
  "for_upto 0 body s = s"
| "for_upto (Suc n) body s = body n (for_upto n body s)"

text \<open>Assignments to a member of one of the nested structures.\<close>

definition upd_Window :: "(WindowData \<Rightarrow> WindowData) \<Rightarrow> nx_state \<Rightarrow> nx_state" where
  "upd_Window f s = s\<lparr>CORE := (CORE s)\<lparr>Window := f (Window (CORE s))\<rparr>\<rparr>"

definition upd_Keyboard :: "(KeyboardData \<Rightarrow> KeyboardData) \<Rightarrow> nx_state \<Rightarrow> nx_state" where
  "upd_Keyboard f s = s\<lparr>CORE := (CORE s)\<lparr>Keyboard := f (Keyboard (CORE s))\<rparr>\<rparr>"

definition upd_Mouse :: "(MouseData \<Rightarrow> MouseData) \<Rightarrow> nx_state \<Rightarrow> nx_state" where
  "upd_Mouse f s = s\<lparr>CORE := (CORE s)\<lparr>Mouse := f (Mouse (CORE s))\<rparr>\<rparr>"

definition upd_Touch :: "(TouchData \<Rightarrow> TouchData) \<Rightarrow> nx_state \<Rightarrow> nx_state" where
  "upd_Touch f s = s\<lparr>CORE := (CORE s)\<lparr>Touch := f (Touch (CORE s))\<rparr>\<rparr>"

definition upd_Gamepad :: "(GamepadData \<Rightarrow> GamepadData) \<Rightarrow> nx_state \<Rightarrow> nx_state" where
  "upd_Gamepad f s = s\<lparr>CORE := (CORE s)\<lparr>Gamepad := f (Gamepad (CORE s))\<rparr>\<rparr>"

definition upd_platform :: "(PlatformData \<Rightarrow> PlatformData) \<Rightarrow> nx_state \<Rightarrow> nx_state" where
  "upd_platform f s = s\<lparr>platform := f (platform s)\<rparr>"

subsection \<open>Window and graphics device functions\<close>

text \<open>\<open>appletMainLoop()\<close> is a libnx call; its answer is the first argument.\<close>

definition WindowShouldClose :: "bool \<Rightarrow> nx_state \<Rightarrow> bool" where
  "WindowShouldClose appletMainLoop s =
     (if \<not> appletMainLoop then True
      else if ready (Window (CORE s)) then shouldClose (Window (CORE s))
      else True)"

text \<open>\<open>Image\<close> of raylib.h: a data pointer and four integers.\<close>

record Image =
  image_data :: nat
  image_width :: int
  image_height :: int
  image_mipmaps :: int
  image_format :: int

definition ToggleFullscreen :: "nx_state \<Rightarrow> nx_state" where
  "ToggleFullscreen s =
     TRACELOG LOG_WARNING ''ToggleFullscreen() not available on target platform'' s"

definition ToggleBorderlessWindowed :: "nx_state \<Rightarrow> nx_state" where
  "ToggleBorderlessWindowed s =
     TRACELOG LOG_WARNING ''ToggleBorderlessWindowed() not available on target platform'' s"

definition MaximizeWindow :: "nx_state \<Rightarrow> nx_state" where
  "MaximizeWindow s =
     TRACELOG LOG_WARNING ''MaximizeWindow() not available on target platform'' s"

definition MinimizeWindow :: "nx_state \<Rightarrow> nx_state" where
  "MinimizeWindow s =
     TRACELOG LOG_WARNING ''MinimizeWindow() not available on target platform'' s"

definition RestoreWindow :: "nx_state \<Rightarrow> nx_state" where
  "RestoreWindow s =
     TRACELOG LOG_WARNING ''RestoreWindow() not available on target platform'' s"

definition SetWindowState :: "32 word \<Rightarrow> nx_state \<Rightarrow> nx_state" where
  "SetWindowState flgs s =
     TRACELOG LOG_WARNING ''SetWindowState() not available on target platform'' s"

definition ClearWindowState :: "32 word \<Rightarrow> nx_state \<Rightarrow> nx_state" where
  "ClearWindowState flgs s =
     TRACELOG LOG_WARNING ''ClearWindowState() not available on target platform'' s"

definition SetWindowIcon :: "Image \<Rightarrow> nx_state \<Rightarrow> nx_state" where
  "SetWindowIcon img s =
     TRACELOG LOG_WARNING ''SetWindowIcon() not available on target platform'' s"

definition SetWindowIcons :: "Image list \<Rightarrow> int \<Rightarrow> nx_state \<Rightarrow> nx_state" where
  "SetWindowIcons images cnt s =
     TRACELOG LOG_WARNING ''SetWindowIcons() not available on target platform'' s"

definition SetWindowTitle :: "string \<Rightarrow> nx_state \<Rightarrow> nx_state" where
  "SetWindowTitle ttl s = upd_Window (\<lambda>w. w\<lparr>title := ttl\<rparr>) s"

definition SetWindowPosition :: "int \<Rightarrow> int \<Rightarrow> nx_state \<Rightarrow> nx_state" where
  "SetWindowPosition px py s =
     TRACELOG LOG_WARNING ''SetWindowPosition() not available on target platform'' s"

definition SetWindowMonitor :: "int \<Rightarrow> nx_state \<Rightarrow> nx_state" where
  "SetWindowMonitor monitor s =
     TRACELOG LOG_WARNING ''SetWindowMonitor() not available on target platform'' s"

definition SetWindowMinSize :: "int \<Rightarrow> int \<Rightarrow> nx_state \<Rightarrow> nx_state" where
  "SetWindowMinSize w h s =
     upd_Window (\<lambda>wd. wd\<lparr>screenMin := \<lparr>width = word_of_int w, height = word_of_int h\<rparr>\<rparr>) s"

definition SetWindowMaxSize :: "int \<Rightarrow> int \<Rightarrow> nx_state \<Rightarrow> nx_state" where
  "SetWindowMaxSize w h s =
     upd_Window (\<lambda>wd. wd\<lparr>screenMax := \<lparr>width = word_of_int w, height = word_of_int h\<rparr>\<rparr>) s"

definition SetWindowSize :: "int \<Rightarrow> int \<Rightarrow> nx_state \<Rightarrow> nx_state" where
  "SetWindowSize w h s =
     TRACELOG LOG_WARNING ''SetWindowSize() not available on target platform'' s"

definition SetWindowOpacity :: "real \<Rightarrow> nx_state \<Rightarrow> nx_state" where
  "SetWindowOpacity opacity s =
     TRACELOG LOG_WARNING ''SetWindowOpacity() not available on target platform'' s"

definition SetWindowFocused :: "nx_state \<Rightarrow> nx_state" where
  "SetWindowFocused s =
     TRACELOG LOG_WARNING ''SetWindowFocused() not available on target platform'' s"

text \<open>
  The queries return their value together with the state. A \<open>void *\<close> is an address with
  \<open>NULL\<close> the address 0; a \<open>const char *\<close> result is \<open>None\<close> for \<open>NULL\<close> and \<open>Some\<close> of
  the text otherwise.
\<close>

definition NULL :: nat where "NULL = 0"

definition GetWindowHandle :: "nx_state \<Rightarrow> nat \<times> nx_state" where
  "GetWindowHandle s =
     (NULL, TRACELOG LOG_WARNING ''GetWindowHandle() not implemented on target platform'' s)"

definition GetMonitorCount :: "nx_state \<Rightarrow> int \<times> nx_state" where
  "GetMonitorCount s =
     (1, TRACELOG LOG_WARNING ''GetMonitorCount() not implemented on target platform'' s)"

definition GetCurrentMonitor :: "nx_state \<Rightarrow> int \<times> nx_state" where
  "GetCurrentMonitor s =
     (0, TRACELOG LOG_WARNING ''GetCurrentMonitor() not implemented on target platform'' s)"

definition GetMonitorPosition :: "int \<Rightarrow> nx_state \<Rightarrow> Vector2 \<times> nx_state" where
  "GetMonitorPosition monitor s =
     ((0, 0), TRACELOG LOG_WARNING ''GetMonitorPosition() not implemented on target platform'' s)"

definition GetMonitorWidth :: "int \<Rightarrow> nx_state \<Rightarrow> int \<times> nx_state" where
  "GetMonitorWidth monitor s =
     (0, TRACELOG LOG_WARNING ''GetMonitorWidth() not implemented on target platform'' s)"

definition GetMonitorHeight :: "int \<Rightarrow> nx_state \<Rightarrow> int \<times> nx_state" where
  "GetMonitorHeight monitor s =
     (0, TRACELOG LOG_WARNING ''GetMonitorHeight() not implemented on target platform'' s)"

definition GetMonitorPhysicalWidth :: "int \<Rightarrow> nx_state \<Rightarrow> int \<times> nx_state" where
  "GetMonitorPhysicalWidth monitor s =
     (0, TRACELOG LOG_WARNING ''GetMonitorPhysicalWidth() not implemented on target platform'' s)"

definition GetMonitorPhysicalHeight :: "int \<Rightarrow> nx_state \<Rightarrow> int \<times> nx_state" where
  "GetMonitorPhysicalHeight monitor s =
     (0, TRACELOG LOG_WARNING ''GetMonitorPhysicalHeight() not implemented on target platform'' s)"

definition GetMonitorRefreshRate :: "int \<Rightarrow> nx_state \<Rightarrow> int \<times> nx_state" where
  "GetMonitorRefreshRate monitor s =
     (0, TRACELOG LOG_WARNING ''GetMonitorRefreshRate() not implemented on target platform'' s)"

definition GetMonitorName :: "int \<Rightarrow> nx_state \<Rightarrow> string option \<times> nx_state" where
  "GetMonitorName monitor s =
     (Some [], TRACELOG LOG_WARNING ''GetMonitorName() not implemented on target platform'' s)"

definition GetWindowPosition :: "nx_state \<Rightarrow> Vector2 \<times> nx_state" where
  "GetWindowPosition s =
     ((0, 0), TRACELOG LOG_WARNING ''GetWindowPosition() not implemented on target platform'' s)"

definition GetWindowScaleDPI :: "nx_state \<Rightarrow> Vector2 \<times> nx_state" where
  "GetWindowScaleDPI s =
     ((1, 1), TRACELOG LOG_WARNING ''GetWindowScaleDPI() not implemented on target platform'' s)"

definition SetClipboardText :: "string \<Rightarrow> nx_state \<Rightarrow> nx_state" where
  "SetClipboardText txt s =
     TRACELOG LOG_WARNING ''SetClipboardText() not implemented on target platform'' s"

definition GetClipboardText :: "nx_state \<Rightarrow> string option \<times> nx_state" where
  "GetClipboardText s =
     (None, TRACELOG LOG_WARNING ''GetClipboardText() not implemented on target platform'' s)"

text \<open>
  \<open>SetMousePosition\<close> converts its two \<open>int\<close> arguments to \<open>float\<close> (rounding \<open>rf\<close>).
\<close>

definition SetMousePosition :: "(real \<Rightarrow> real) \<Rightarrow> int \<Rightarrow> int \<Rightarrow> nx_state \<Rightarrow> nx_state" where
  "SetMousePosition rf px py s =
     run [upd_Mouse (\<lambda>m. m\<lparr>currentPosition := (rf (real_of_int px), rf (real_of_int py))\<rparr>),
          upd_Mouse (\<lambda>m. m\<lparr>previousPosition := currentPosition m\<rparr>)] s"

definition ShowCursor :: "nx_state \<Rightarrow> nx_state" where
  "ShowCursor s = upd_Mouse (\<lambda>m. m\<lparr>cursorHidden := False\<rparr>) s"

definition HideCursor :: "nx_state \<Rightarrow> nx_state" where
  "HideCursor s = upd_Mouse (\<lambda>m. m\<lparr>cursorHidden := True\<rparr>) s"

definition EnableCursor :: "(real \<Rightarrow> real) \<Rightarrow> nx_state \<Rightarrow> nx_state" where
  "EnableCursor rf s =
     run [SetMousePosition rf (sint (width (screen (Window (CORE s))) div 2))
                              (sint (height (screen (Window (CORE s))) div 2)),
          upd_Mouse (\<lambda>m. m\<lparr>cursorHidden := False\<rparr>)] s"

definition DisableCursor :: "(real \<Rightarrow> real) \<Rightarrow> nx_state \<Rightarrow> nx_state" where
  "DisableCursor rf s =
     run [SetMousePosition rf (sint (width (screen (Window (CORE s))) div 2))
                              (sint (height (screen (Window (CORE s))) div 2)),
          upd_Mouse (\<lambda>m. m\<lparr>cursorHidden := True\<rparr>)] s"

subsection \<open>Misc functions\<close>

text \<open>
  \<open>GetTime\<close> reads the monotonic clock (the \<open>timespec\<close> argument is what
  \<open>clock_gettime\<close> stored), computes the reading in nanoseconds in
  \<open>unsigned long long\<close> arithmetic, subtracts the time base in the same arithmetic, and
  multiplies the difference, converted to \<open>double\<close>, by the \<open>double\<close> constant \<open>1e-9\<close>.
  \<open>rd\<close> rounds a real to a \<open>double\<close>.
\<close>

record timespec =
  tv_sec :: "64 word"
  tv_nsec :: "64 word"

definition GetTime :: "(real \<Rightarrow> real) \<Rightarrow> timespec \<Rightarrow> nx_state \<Rightarrow> real" where
  "GetTime rd ts s =
     (let nanoSeconds = tv_sec ts * 1000000000 + tv_nsec ts
      in rd (rd (real (unat (nanoSeconds - Time_base (CORE s)))) * rd (1 / 1000000000)))"

text \<open>
  \<open>OpenURL\<close> warns about a URL that holds the character \<open>'\<close>; for any other URL its
  body is empty (a \<open>TODO\<close> of the source).
\<close>

definition OpenURL :: "string \<Rightarrow> nx_state \<Rightarrow> nx_state" where
  "OpenURL url s =
     (if CHR 0x27 \<in> set url
      then TRACELOG LOG_WARNING
             (''SYSTEM: Provided URL could be potentially malicious, avoid ['' @ [CHR 0x27] @
              ''] character'') s
      else s)"

subsection \<open>Input functions\<close>

definition GetNxGamePadName :: "nx_state \<Rightarrow> nat \<Rightarrow> string" where
  "GetNxGamePadName s gamepad =
     (let style = nxPadStyle (platform s) gamepad in
      if style = HidNpadStyleTag_NpadFullKey then ''Nintendo Switch Pro Controller''
      else if style = HidNpadStyleTag_NpadHandheld then ''Handheld Joy-Con controller''
      else if style = HidNpadStyleTag_NpadJoyDual then ''Dual Joy-Con controller''
      else if style = HidNpadStyleTag_NpadJoyLeft then ''Single Joy-Con left controller''
      else if style = HidNpadStyleTag_NpadJoyRight then ''Single Joy-Con right controller''
      else if style = HidNpadStyleTag_NpadGc then ''GameCube controller''
      else if style = HidNpadStyleTag_NpadPalma
        then ''Pok'' @ [CHR 0xC3, CHR 0xA9] @ '' Ball Plus controller''
      else if style = HidNpadStyleTag_NpadLark then ''NES/Famicom controller''
      else if style = HidNpadStyleTag_NpadHandheldLark then ''Handheld NES/Famicom controller''
      else if style = HidNpadStyleTag_NpadLucia then ''SNES controller''
      else if style = HidNpadStyleTag_NpadLagon then ''N64 controller''
      else if style = HidNpadStyleTag_NpadLager then ''Sega Genesis controller''
      else if style = HidNpadStyleTag_NpadSystemExt then ''Generic external controller''
      else ''Generic controller'')"

definition SetGamepadMappings :: "string \<Rightarrow> nx_state \<Rightarrow> int \<times> nx_state" where
  "SetGamepadMappings mappings s =
     (0, TRACELOG LOG_WARNING ''SetGamepadMappings() not implemented on target platform'' s)"

definition SetMouseCursor :: "int \<Rightarrow> nx_state \<Rightarrow> nx_state" where
  "SetMouseCursor cursor s =
     TRACELOG LOG_WARNING ''SetMouseCursor() not implemented on target platform'' s"


subsection \<open>Per-frame input polling\<close>

text \<open>
  What libnx answers during one call of \<open>PollInputEvents\<close>:
  \<open>hidGetTouchScreenStates(&state, 1)\<close> either stores nothing and returns 0 (\<open>None\<close>) or
  stores one touch screen state and returns 1; \<open>padUpdate\<close> stores the current reading
  of pad \<open>i\<close> in \<open>platform.nxPad[i]\<close>.
\<close>

record HidTouchState =
  delta_time :: "64 word"
  finger_id :: "32 word"
  touch_x :: "32 word"
  touch_y :: "32 word"

record HidTouchScreenState =
  count :: int
  touches :: "nat \<Rightarrow> HidTouchState"

record PollInputEvents_calls =
  hidGetTouchScreenStates :: "HidTouchScreenState option"
  padUpdate :: "nat \<Rightarrow> PadState"

text \<open>
  One thing leaves the model: an array index past the declared size, where C leaves the
  behaviour undefined.
\<close>

datatype nx_fault = IndexOutOfBounds

definition bind_f :: "'e + 's \<Rightarrow> ('s \<Rightarrow> 'e + 't) \<Rightarrow> 'e + 't" where
  "bind_f r f = (case r of Inl e \<Rightarrow> Inl e | Inr s \<Rightarrow> f s)"

primrec for_upto_e :: "nat \<Rightarrow> (nat \<Rightarrow> 's \<Rightarrow> 'e + 's) \<Rightarrow> 's \<Rightarrow> 'e + 's" where
  "for_upto_e 0 body s = Inr s"
| "for_upto_e (Suc n) body s = bind_f (for_upto_e n body s) (body n)"

text \<open>\<open>kHeld & button\<close> used as a condition.\<close>

definition held :: "64 word \<Rightarrow> 64 word \<Rightarrow> bool" where
  "held kHeld btn = (kHeld AND btn \<noteq> 0)"

definition upd2 :: "(nat \<Rightarrow> nat \<Rightarrow> 'a) \<Rightarrow> nat \<Rightarrow> nat \<Rightarrow> 'a \<Rightarrow> nat \<Rightarrow> nat \<Rightarrow> 'a" where
  "upd2 a i k v = a(i := (a i)(k := v))"

text \<open>One iteration of the touch loop (lines 450 to 454), for touch point \<open>i\<close>.\<close>

definition touch_step ::
  "(real \<Rightarrow> real) \<Rightarrow> HidTouchScreenState \<Rightarrow> nat \<Rightarrow> nx_state \<Rightarrow> nx_fault + nx_state" where
  "touch_step rf st i s =
     (if i < MAX_TOUCH_POINTS then
        Inr (run [
          upd_Touch (\<lambda>t. t\<lparr>position := (position t)
            (i := (rf (real (unat (touch_x (touches st i)))), snd (position t i)))\<rparr>),
          upd_Touch (\<lambda>t. t\<lparr>position := (position t)
            (i := (fst (position t i), rf (real (unat (touch_y (touches st i))))))\<rparr>),
          upd_Touch (\<lambda>t. t\<lparr>pointId := (pointId t)(i := sint (finger_id (touches st i)))\<rparr>),
          upd_platform (\<lambda>p. p\<lparr>touchDeltaTime := (touchDeltaTime p)
            (i := sint (delta_time (touches st i)))\<rparr>)] s)
      else Inl IndexOutOfBounds)"

definition poll_touch ::
  "(real \<Rightarrow> real) \<Rightarrow> PollInputEvents_calls \<Rightarrow> nx_state \<Rightarrow> nx_fault + nx_state" where
  "poll_touch rf c s =
     (case hidGetTouchScreenStates c of
        None \<Rightarrow> Inr s
      | Some st \<Rightarrow>
          (let s1 = (if count st \<noteq> prevTouchCount (platform s)
                     then upd_platform (\<lambda>p. p\<lparr>prevTouchCount := count st\<rparr>) s else s)
           in bind_f (for_upto_e (nat (count st)) (touch_step rf st) s1)
                (\<lambda>s2. Inr (upd_Touch (\<lambda>t. t\<lparr>pointCount := count st\<rparr>) s2))))"

text \<open>The \<open>switch (k)\<close> of the button loop: the libnx mask of raylib button \<open>k\<close>.\<close>

definition kButton_of :: "nat \<Rightarrow> 64 word" where
  "kButton_of k =
     (if k = GAMEPAD_BUTTON_LEFT_FACE_UP then HidNpadButton_Up
      else if k = GAMEPAD_BUTTON_LEFT_FACE_RIGHT then HidNpadButton_Right
      else if k = GAMEPAD_BUTTON_LEFT_FACE_DOWN then HidNpadButton_Down
      else if k = GAMEPAD_BUTTON_LEFT_FACE_LEFT then HidNpadButton_Left
      else if k = GAMEPAD_BUTTON_RIGHT_FACE_UP then HidNpadButton_X
      else if k = GAMEPAD_BUTTON_RIGHT_FACE_RIGHT then HidNpadButton_A
      else if k = GAMEPAD_BUTTON_RIGHT_FACE_DOWN then HidNpadButton_B
      else if k = GAMEPAD_BUTTON_RIGHT_FACE_LEFT then HidNpadButton_Y
      else if k = GAMEPAD_BUTTON_LEFT_TRIGGER_1 then HidNpadButton_L
      else if k = GAMEPAD_BUTTON_LEFT_TRIGGER_2 then HidNpadButton_ZL
      else if k = GAMEPAD_BUTTON_RIGHT_TRIGGER_1 then HidNpadButton_R
      else if k = GAMEPAD_BUTTON_RIGHT_TRIGGER_2 then HidNpadButton_ZR
      else if k = GAMEPAD_BUTTON_MIDDLE_LEFT then HidNpadButton_Minus
      else if k = GAMEPAD_BUTTON_MIDDLE_RIGHT then HidNpadButton_Plus
      else if k = GAMEPAD_BUTTON_LEFT_THUMB then HidNpadButton_StickL
      else if k = GAMEPAD_BUTTON_RIGHT_THUMB then HidNpadButton_StickR
      else 0)"

text \<open>One iteration of the button loop (lines 480 to 509), for pad \<open>i\<close> and button \<open>k\<close>.\<close>

definition poll_button :: "nat \<Rightarrow> 64 word \<Rightarrow> nat \<Rightarrow> nx_state \<Rightarrow> nx_state" where
  "poll_button i kHeld k s =
     run [
       upd_Gamepad (\<lambda>g. g\<lparr>padPreviousButtonState :=
         upd2 (padPreviousButtonState g) i k (padCurrentButtonState g i k)\<rparr>),
       (if held kHeld (kButton_of k) then
          run [upd_Gamepad (\<lambda>g. g\<lparr>padCurrentButtonState := upd2 (padCurrentButtonState g) i k 1\<rparr>),
               upd_Gamepad (\<lambda>g. g\<lparr>lastButtonPressed := int k\<rparr>)]
        else
          upd_Gamepad (\<lambda>g. g\<lparr>padCurrentButtonState := upd2 (padCurrentButtonState g) i k 0\<rparr>))] s"

text \<open>The four assignment shapes of the keyboard and mouse emulation.\<close>

definition key_previous :: "nat \<Rightarrow> nx_state \<Rightarrow> nx_state" where
  "key_previous k =
     upd_Keyboard (\<lambda>kb. kb\<lparr>previousKeyState := (previousKeyState kb)(k := currentKeyState kb k)\<rparr>)"

definition key_current :: "nat \<Rightarrow> cchar \<Rightarrow> nx_state \<Rightarrow> nx_state" where
  "key_current k v =
     upd_Keyboard (\<lambda>kb. kb\<lparr>currentKeyState := (currentKeyState kb)(k := v)\<rparr>)"

definition mouse_previous :: "nat \<Rightarrow> nx_state \<Rightarrow> nx_state" where
  "mouse_previous b =
     upd_Mouse (\<lambda>m. m\<lparr>previousButtonState := (previousButtonState m)(b := currentButtonState m b)\<rparr>)"

definition mouse_current :: "nat \<Rightarrow> cchar \<Rightarrow> nx_state \<Rightarrow> nx_state" where
  "mouse_current b v =
     upd_Mouse (\<lambda>m. m\<lparr>currentButtonState := (currentButtonState m)(b := v)\<rparr>)"

text \<open>
  Lines 524 to 617: the keyboard emulation of one connected pad. The last two conditions
  use the raylib button numbers 16 and 17 as masks, as the source does.
\<close>

definition emulate_keys :: "64 word \<Rightarrow> nx_state \<Rightarrow> nx_state" where
  "emulate_keys kHeld s =
     run [
       key_previous KEY_RIGHT,
       key_previous KEY_D,
       (if held kHeld HidNpadButton_Right \<or> held kHeld HidNpadButton_StickLRight
        then run [key_current KEY_RIGHT 1, key_current KEY_D 1]
        else run [key_current KEY_RIGHT 0, key_current KEY_D 0]),
       key_previous KEY_LEFT,
       key_previous KEY_A,
       (if held kHeld HidNpadButton_Left \<or> held kHeld HidNpadButton_StickLLeft
        then run [key_current KEY_LEFT 1, key_current KEY_A 1]
        else run [key_current KEY_LEFT 0, key_current KEY_A 0]),
       key_previous KEY_DOWN,
       key_previous KEY_S,
       (if held kHeld HidNpadButton_Down \<or> held kHeld HidNpadButton_StickLDown
        then run [key_current KEY_DOWN 1, key_current KEY_S 1]
        else run [key_current KEY_DOWN 0, key_current KEY_S 0]),
       key_previous KEY_UP,
       key_previous KEY_W,
       (if held kHeld HidNpadButton_Up \<or> held kHeld HidNpadButton_StickLUp
        then run [key_current KEY_UP 1, key_current KEY_W 1]
        else run [key_current KEY_UP 0, key_current KEY_W 0]),
       key_previous KEY_Q,
       (if held kHeld HidNpadButton_Y then key_current KEY_Q 1 else key_current KEY_Q 0),
       key_previous KEY_E,
       (if held kHeld HidNpadButton_A then key_current KEY_E 1 else key_current KEY_E 0),
       key_previous KEY_R,
       (if held kHeld HidNpadButton_X then key_current KEY_R 1 else key_current KEY_R 0),
       key_previous KEY_F,
       (if held kHeld HidNpadButton_B then key_current KEY_F 1 else key_current KEY_F 0),
       key_previous KEY_ENTER,
       key_previous KEY_SPACE,
       key_previous KEY_ESCAPE,
       (if held kHeld HidNpadButton_Plus \<and> held kHeld HidNpadButton_Minus
        then run [key_current KEY_ENTER 0, key_current KEY_SPACE 0, key_current KEY_ESCAPE 1]
        else run [
          (if held kHeld HidNpadButton_Plus
           then key_current KEY_ENTER 1 else key_current KEY_ENTER 0),
          (if held kHeld HidNpadButton_Minus
           then key_current KEY_SPACE 1 else key_current KEY_SPACE 0)]),
       key_previous KEY_LEFT_SHIFT,
       (if held kHeld (of_nat GAMEPAD_BUTTON_LEFT_THUMB)
        then key_current KEY_LEFT_SHIFT 1 else key_current KEY_LEFT_SHIFT 0)] s"

text \<open>Lines 619 to 638: the mouse button emulation of one connected pad.\<close>

definition emulate_mouse_buttons :: "64 word \<Rightarrow> nx_state \<Rightarrow> nx_state" where
  "emulate_mouse_buttons kHeld s =
     run [
       mouse_previous MOUSE_BUTTON_LEFT,
       (if held kHeld HidNpadButton_ZL
        then mouse_current MOUSE_BUTTON_RIGHT 1 else mouse_current MOUSE_BUTTON_RIGHT 0),
       mouse_previous MOUSE_BUTTON_MIDDLE,
       (if held kHeld (of_nat GAMEPAD_BUTTON_RIGHT_THUMB)
        then mouse_current MOUSE_BUTTON_MIDDLE 1 else mouse_current MOUSE_BUTTON_MIDDLE 0),
       mouse_previous MOUSE_BUTTON_RIGHT,
       (if held kHeld HidNpadButton_ZR
        then mouse_current MOUSE_BUTTON_LEFT 1 else mouse_current MOUSE_BUTTON_LEFT 0)] s"

text \<open>Lines 640 to 653: wheel and pointer movement (\<open>float\<close> arithmetic, rounding \<open>rf\<close>).\<close>

definition emulate_mouse_move :: "(real \<Rightarrow> real) \<Rightarrow> nat \<Rightarrow> 64 word \<Rightarrow> nx_state \<Rightarrow> nx_state" where
  "emulate_mouse_move rf i kHeld s =
     run [
       upd_Mouse (\<lambda>m. m\<lparr>previousWheelMove := currentWheelMove m\<rparr>),
       (if held kHeld HidNpadButton_L then upd_Mouse (\<lambda>m. m\<lparr>currentWheelMove := (0, - 1)\<rparr>)
        else if held kHeld HidNpadButton_R then upd_Mouse (\<lambda>m. m\<lparr>currentWheelMove := (0, 1)\<rparr>)
        else upd_Mouse (\<lambda>m. m\<lparr>currentWheelMove := (0, 0)\<rparr>)),
       upd_Mouse (\<lambda>m. m\<lparr>previousPosition := (fst (currentPosition m), snd (previousPosition m))\<rparr>),
       upd_Mouse (\<lambda>m. m\<lparr>previousPosition := (fst (previousPosition m), snd (currentPosition m))\<rparr>),
       (\<lambda>s. upd_Mouse (\<lambda>m. m\<lparr>currentPosition :=
          (rf (fst (currentPosition m)
                 + rf (axisState (Gamepad (CORE s)) i GAMEPAD_AXIS_RIGHT_X * 10)),
           snd (currentPosition m))\<rparr>) s),
       (\<lambda>s. upd_Mouse (\<lambda>m. m\<lparr>currentPosition :=
          (fst (currentPosition m),
           rf (snd (currentPosition m)
                 - rf (axisState (Gamepad (CORE s)) i GAMEPAD_AXIS_RIGHT_Y * 10)))\<rparr>) s)] s"

text \<open>
  Lines 655 to 659: the pointer is kept inside the screen. The upper bound divides the
  screen size, converted to \<open>float\<close>, by the mouse scale. When the scale is zero the
  \<open>float\<close> quotient of the unsigned screen size is an infinity or NaN: the comparison
  with it is false, nothing is written and the code goes on. (The reals have one zero;
  the sign of a \<open>float\<close> zero is not modelled.)
\<close>

definition clamp_mouse_x :: "(real \<Rightarrow> real) \<Rightarrow> nx_state \<Rightarrow> nx_state" where
  "clamp_mouse_x rf s =
     (let m = Mouse (CORE s) in
      if fst (currentPosition m) < 0
      then upd_Mouse (\<lambda>m. m\<lparr>currentPosition := (0, snd (currentPosition m))\<rparr>) s
      else if fst (mouseScale m) = 0 then s
      else
        (let bound = rf (rf (real (unat (width (screen (Window (CORE s))))))
                           / fst (mouseScale m))
         in if fst (currentPosition m) > bound
            then upd_Mouse (\<lambda>m. m\<lparr>currentPosition := (bound, snd (currentPosition m))\<rparr>) s
            else s))"

definition clamp_mouse_y :: "(real \<Rightarrow> real) \<Rightarrow> nx_state \<Rightarrow> nx_state" where
  "clamp_mouse_y rf s =
     (let m = Mouse (CORE s) in
      if snd (currentPosition m) < 0
      then upd_Mouse (\<lambda>m. m\<lparr>currentPosition := (fst (currentPosition m), 0)\<rparr>) s
      else if snd (mouseScale m) = 0 then s
      else
        (let bound = rf (rf (real (unat (height (screen (Window (CORE s))))))
                           / snd (mouseScale m))
         in if snd (currentPosition m) > bound
            then upd_Mouse (\<lambda>m. m\<lparr>currentPosition := (fst (currentPosition m), bound)\<rparr>) s
            else s))"

text \<open>Line 661: the exit key, read at an index that the code does not bound.\<close>

definition check_exit_key :: "nx_state \<Rightarrow> nx_fault + nx_state" where
  "check_exit_key s =
     (let ek = exitKey (Keyboard (CORE s)) in
      if 0 \<le> ek \<and> ek < int MAX_KEYBOARD_KEYS then
        (if currentKeyState (Keyboard (CORE s)) (nat ek) = 1
         then Inr (upd_Window (\<lambda>w. w\<lparr>shouldClose := True\<rparr>) s) else Inr s)
      else Inl IndexOutOfBounds)"

text \<open>
  The emulation block as a whole. It is compiled unless \<open>NX_DISABLE_GAMEPAD_EMULATION\<close>
  is defined; the model is the default build.
\<close>

definition gamepad_emulation ::
  "(real \<Rightarrow> real) \<Rightarrow> nat \<Rightarrow> 64 word \<Rightarrow> nx_state \<Rightarrow> nx_fault + nx_state" where
  "gamepad_emulation rf i kHeld s =
     check_exit_key
       (run [emulate_keys kHeld, emulate_mouse_buttons kHeld, emulate_mouse_move rf i kHeld,
             clamp_mouse_x rf, clamp_mouse_y rf] s)"

text \<open>Lines 516 to 521: the six axes of pad \<open>i\<close>.\<close>

definition poll_axes :: "(real \<Rightarrow> real) \<Rightarrow> nat \<Rightarrow> 64 word \<Rightarrow> nx_state \<Rightarrow> nx_state" where
  "poll_axes rf i kHeld s =
     (let kAxisL = padGetStickPos (nxPad (platform s) i) 0;
          kAxisR = padGetStickPos (nxPad (platform s) i) 1
      in run [
        upd_Gamepad (\<lambda>g. g\<lparr>axisState := upd2 (axisState g) i GAMEPAD_AXIS_LEFT_X
          (rf (rf (real_of_int (sint (fst kAxisL))) / 32767))\<rparr>),
        upd_Gamepad (\<lambda>g. g\<lparr>axisState := upd2 (axisState g) i GAMEPAD_AXIS_LEFT_Y
          (rf (rf (real_of_int (sint (snd kAxisL))) / 32767))\<rparr>),
        upd_Gamepad (\<lambda>g. g\<lparr>axisState := upd2 (axisState g) i GAMEPAD_AXIS_RIGHT_X
          (rf (rf (real_of_int (sint (fst kAxisR))) / 32767))\<rparr>),
        upd_Gamepad (\<lambda>g. g\<lparr>axisState := upd2 (axisState g) i GAMEPAD_AXIS_RIGHT_Y
          (rf (rf (real_of_int (sint (snd kAxisR))) / 32767))\<rparr>),
        upd_Gamepad (\<lambda>g. g\<lparr>axisState := upd2 (axisState g) i GAMEPAD_AXIS_LEFT_TRIGGER
          (if held kHeld HidNpadButton_ZL then 1 else 0)\<rparr>),
        upd_Gamepad (\<lambda>g. g\<lparr>axisState := upd2 (axisState g) i GAMEPAD_AXIS_RIGHT_TRIGGER
          (if held kHeld HidNpadButton_ZR then 1 else 0)\<rparr>)] s)"

text \<open>
  Lines 465 to 521: the style, the axis count, the buttons and the axes of a connected
  pad \<open>i\<close>.
\<close>

definition scan_gamepad :: "(real \<Rightarrow> real) \<Rightarrow> nat \<Rightarrow> nx_state \<Rightarrow> nx_state" where
  "scan_gamepad rf i s =
     (let styleTag = padGetStyleSet (nxPad (platform s) i);
          kHeld = padGetButtons (nxPad (platform s) i)
      in run [
        (if styleTag \<noteq> nxPadStyle (platform s) i then
           run [upd_platform (\<lambda>p. p\<lparr>nxPadStyle := (nxPadStyle p)(i := styleTag)\<rparr>),
                (\<lambda>s. upd_Gamepad (\<lambda>g. g\<lparr>padName := (padName g)
                   (i := GetNxGamePadName s i)\<rparr>) s)]
         else run []),
        upd_Gamepad (\<lambda>g. g\<lparr>axisCount := (axisCount g)(i := 6)\<rparr>),
        for_upto MAX_GAMEPAD_BUTTONS (poll_button i kHeld),
        poll_axes rf i kHeld] s)"

text \<open>One iteration of the pad loop (lines 461 to 663), for pad \<open>i\<close>.\<close>

definition poll_gamepad ::
  "(real \<Rightarrow> real) \<Rightarrow> PollInputEvents_calls \<Rightarrow> nat \<Rightarrow> nx_state \<Rightarrow> nx_fault + nx_state" where
  "poll_gamepad rf c i s0 =
     (let s1 = run [
            upd_platform (\<lambda>p. p\<lparr>nxPad := (nxPad p)(i := padUpdate c i)\<rparr>),
            (\<lambda>s. upd_Gamepad (\<lambda>g. g\<lparr>padReady := (padReady g)
               (i := padIsConnected (nxPad (platform s) i))\<rparr>) s)] s0
      in if padReady (Gamepad (CORE s1)) i
         then gamepad_emulation rf i (padGetButtons (nxPad (platform s1) i))
                (scan_gamepad rf i s1)
         else Inr s1)"

text \<open>
  Lines 418 to 439: the resets at the start of a frame and the registration of the previous
  touch and key states. The key loop stops at 260, a constant of the source, while the key
  arrays have \<open>MAX_KEYBOARD_KEYS\<close> cells.
\<close>

definition poll_reset :: "nx_state \<Rightarrow> nx_state" where
  "poll_reset s =
     run [
       upd_Keyboard (\<lambda>kb. kb\<lparr>keyPressedQueueCount := 0\<rparr>),
       upd_Keyboard (\<lambda>kb. kb\<lparr>charPressedQueueCount := 0\<rparr>),
       for_upto MAX_KEYBOARD_KEYS (\<lambda>i.
         upd_Keyboard (\<lambda>kb. kb\<lparr>keyRepeatInFrame := (keyRepeatInFrame kb)(i := 0)\<rparr>)),
       upd_Gamepad (\<lambda>g. g\<lparr>lastButtonPressed := 0\<rparr>),
       for_upto MAX_TOUCH_POINTS (\<lambda>i.
         upd_Touch (\<lambda>t. t\<lparr>previousTouchState := (previousTouchState t)
           (i := currentTouchState t i)\<rparr>)),
       for_upto 260 (\<lambda>i. run [
         key_previous i,
         upd_Keyboard (\<lambda>kb. kb\<lparr>keyRepeatInFrame := (keyRepeatInFrame kb)(i := 0)\<rparr>)])] s"

text \<open>
  \<open>PollInputEvents\<close> (lines 410 to 665): the resets, the touch screen, then the pads in
  turn. \<open>UpdateGestures\<close>, called first when the gestures system is compiled in, works on
  the gestures module's own state and is not part of the file.
\<close>

definition PollInputEvents ::
  "(real \<Rightarrow> real) \<Rightarrow> PollInputEvents_calls \<Rightarrow> nx_state \<Rightarrow> nx_fault + nx_state" where
  "PollInputEvents rf c s =
     bind_f (poll_touch rf c (poll_reset s)) (for_upto_e MAX_GAMEPADS (poll_gamepad rf c))"

subsection \<open>Platform initialisation and teardown\<close>

text \<open>
  What EGL, libnx and the rest of raylib answer during one call of \<open>InitPlatform\<close>.
  \<open>eglChooseConfig\<close> stores a configuration or leaves \<open>platform.config\<close> as it is
  (\<open>None\<close>); \<open>padInitialized i\<close> is the state of pad \<open>i\<close> after \<open>padInitialize\<close> and
  \<open>padUpdate\<close>.
\<close>

record InitPlatform_calls =
  eglGetDisplay :: EGLDisplay
  eglInitialize :: bool
  eglChooseConfig :: "EGLConfig option"
  eglCreateContext :: EGLContext
  nwindowGetDefault :: nat
  eglCreateWindowSurface :: EGLSurface
  eglMakeCurrent :: bool
  padInitialized :: "nat \<Rightarrow> PadState"
  clock_at_InitTimer :: "64 word"
  GetWorkingDirectory :: string

text \<open>
  Modelled from the spec: \<open>InitTimer\<close> is a function of rcore.c, which is not part of
  the source tree; the spec speaks of "a stored time base", and the model stores the
  clock reading of the call as \<open>CORE.Time.base\<close>.
\<close>

definition InitTimer :: "64 word \<Rightarrow> nx_state \<Rightarrow> nx_state" where
  "InitTimer now s = s\<lparr>CORE := (CORE s)\<lparr>Time_base := now\<rparr>\<rparr>"

text \<open>
  Lines 748 to 759 and again 768 to 777: the render and framebuffer sizes follow the
  screen size, and five lines are logged.
\<close>

definition report_sizes :: "nx_state \<Rightarrow> nx_state" where
  "report_sizes s =
     run [
       upd_Window (\<lambda>w. w\<lparr>render := (render w)\<lparr>width := width (screen w)\<rparr>\<rparr>),
       upd_Window (\<lambda>w. w\<lparr>render := (render w)\<lparr>height := height (screen w)\<rparr>\<rparr>),
       upd_Window (\<lambda>w. w\<lparr>currentFbo := (currentFbo w)\<lparr>width := width (render w)\<rparr>\<rparr>),
       upd_Window (\<lambda>w. w\<lparr>currentFbo := (currentFbo w)\<lparr>height := height (render w)\<rparr>\<rparr>),
       TRACELOG LOG_INFO ''DISPLAY: Device initialized successfully'',
       TRACELOG LOG_INFO ''    > Display size: %i x %i'',
       TRACELOG LOG_INFO ''    > Screen size:  %i x %i'',
       TRACELOG LOG_INFO ''    > Render size:  %i x %i'',
       TRACELOG LOG_INFO ''    > Viewport offsets: %i, %i''] s"

text \<open>Lines 785 to 798: one iteration of the pad initialisation loop.\<close>

definition init_gamepad :: "InitPlatform_calls \<Rightarrow> nat \<Rightarrow> nx_state \<Rightarrow> nx_state" where
  "init_gamepad c i s =
     run [
       upd_platform (\<lambda>p. p\<lparr>nxPad := (nxPad p)(i := padInitialized c i)\<rparr>),
       upd_platform (\<lambda>p. p\<lparr>nxPadStyle := (nxPadStyle p)(i := padGetStyleSet (nxPad p i))\<rparr>),
       (\<lambda>s. upd_Gamepad (\<lambda>g. g\<lparr>padName := (padName g)(i := GetNxGamePadName s i)\<rparr>) s)] s"

text \<open>
  \<open>InitPlatform\<close> (lines 673 to 811) returns an \<open>int\<close>. The two \<open>return false\<close>
  statements return the \<open>int\<close> 0, the value of \<open>false\<close>.
\<close>

definition InitPlatform :: "InitPlatform_calls \<Rightarrow> nx_state \<Rightarrow> int \<times> nx_state" where
  "InitPlatform c s0 =
     (let s1 = run [
            upd_Window (\<lambda>w. w\<lparr>screen := (screen w)\<lparr>width := 1280\<rparr>\<rparr>),
            upd_Window (\<lambda>w. w\<lparr>screen := (screen w)\<lparr>height := 720\<rparr>\<rparr>),
            upd_Window (\<lambda>w. w\<lparr>display := (display w)\<lparr>width := width (screen w)\<rparr>\<rparr>),
            upd_Window (\<lambda>w. w\<lparr>display := (display w)\<lparr>height := height (screen w)\<rparr>\<rparr>),
            upd_Window (\<lambda>w. w\<lparr>fullscreen := True\<rparr>),
            upd_Window (\<lambda>w. w\<lparr>flags := flags w OR FLAG_FULLSCREEN_MODE\<rparr>),
            upd_platform (\<lambda>p. p\<lparr>device := eglGetDisplay c\<rparr>)] s0
      in if device (platform s1) = EGL_NO_DISPLAY
         then (0, TRACELOG LOG_WARNING ''DISPLAY: Failed to initialize EGL device'' s1)
         else if \<not> eglInitialize c
         then (0, TRACELOG LOG_WARNING ''DISPLAY: Failed to initialize EGL device'' s1)
         else
           (let s2 = run [
                  upd_platform (\<lambda>p. case eglChooseConfig c of
                                       None \<Rightarrow> p | Some cfg \<Rightarrow> p\<lparr>config := cfg\<rparr>),
                  upd_platform (\<lambda>p. p\<lparr>eglContext := eglCreateContext c\<rparr>)] s1
            in if eglContext (platform s2) = EGL_NO_CONTEXT
               then (- 1, TRACELOG LOG_WARNING ''DISPLAY: Failed to create EGL context'' s2)
               else
                 (let s3 = run [
                        upd_platform (\<lambda>p. p\<lparr>gbmSurface := nwindowGetDefault c\<rparr>),
                        upd_platform (\<lambda>p. p\<lparr>surface := eglCreateWindowSurface c\<rparr>)] s2
                  in if eglMakeCurrent c
                     then (0, run [
                            upd_Window (\<lambda>w. w\<lparr>ready := True\<rparr>),
                            report_sizes,
                            report_sizes,
                            for_upto MAX_GAMEPADS (init_gamepad c),
                            InitTimer (clock_at_InitTimer c),
                            (\<lambda>s. s\<lparr>CORE := (CORE s)\<lparr>Storage_basePath := GetWorkingDirectory c\<rparr>\<rparr>),
                            TRACELOG LOG_INFO ''PLATFORM: NX: Initialized successfully''] s3)
                     else (- 1, TRACELOG LOG_FATAL
                                  ''PLATFORM: Failed to initialize graphics device'' s3))))"

text \<open>
  \<open>ClosePlatform\<close> (lines 814 to 840). The EGL calls (\<open>eglMakeCurrent\<close>,
  \<open>eglDestroySurface\<close>, \<open>eglDestroyContext\<close>, \<open>eglTerminate\<close>) and \<open>romfsExit\<close> act
  outside the two structures; what the function does to \<open>platform\<close> is the resetting of
  the three handles.
\<close>

definition ClosePlatform :: "nx_state \<Rightarrow> nx_state" where
  "ClosePlatform s =
     (if device (platform s) \<noteq> EGL_NO_DISPLAY then
        run [
          (\<lambda>s. if surface (platform s) \<noteq> EGL_NO_SURFACE
                then upd_platform (\<lambda>p. p\<lparr>surface := EGL_NO_SURFACE\<rparr>) s else s),
          (\<lambda>s. if eglContext (platform s) \<noteq> EGL_NO_CONTEXT
                then upd_platform (\<lambda>p. p\<lparr>eglContext := EGL_NO_CONTEXT\<rparr>) s else s),
          upd_platform (\<lambda>p. p\<lparr>device := EGL_NO_DISPLAY\<rparr>)] s
      else s)"


subsection \<open>Concrete states and the vocabulary of the properties\<close>

text \<open>
  Both structures are zero-initialised (\<open>platform = { 0 }\<close> in the file, \<open>CORE = { 0 }\<close>
  in rcore.c). \<open>nx_started\<close> is the zero state after the two assignments of raylib's
  \<open>InitWindow\<close> that matter to polling: the exit key is \<open>KEY_ESCAPE\<close> and the mouse
  scale is \<open>(1, 1)\<close>.
\<close>

definition Size_zero :: Size where
  "Size_zero = \<lparr>width = 0, height = 0\<rparr>"

definition CORE_zero :: CoreData where
  "CORE_zero =
     \<lparr>Window = \<lparr>title = [], flags = 0, ready = False, fullscreen = False,
                 shouldClose = False, screen = Size_zero, display = Size_zero,
                 render = Size_zero, currentFbo = Size_zero, screenMin = Size_zero,
                 screenMax = Size_zero\<rparr>,
      Keyboard = \<lparr>exitKey = 0, currentKeyState = (\<lambda>_. 0), previousKeyState = (\<lambda>_. 0),
                   keyRepeatInFrame = (\<lambda>_. 0), keyPressedQueueCount = 0,
                   charPressedQueueCount = 0\<rparr>,
      Mouse = \<lparr>currentPosition = (0, 0), previousPosition = (0, 0), mouseScale = (0, 0),
                cursorHidden = False, currentButtonState = (\<lambda>_. 0),
                previousButtonState = (\<lambda>_. 0), currentWheelMove = (0, 0),
                previousWheelMove = (0, 0)\<rparr>,
      Touch = \<lparr>pointCount = 0, pointId = (\<lambda>_. 0), position = (\<lambda>_. (0, 0)),
                currentTouchState = (\<lambda>_. 0), previousTouchState = (\<lambda>_. 0)\<rparr>,
      Gamepad = \<lparr>lastButtonPressed = 0, axisCount = (\<lambda>_. 0), padReady = (\<lambda>_. False),
                  padName = (\<lambda>_. []), padCurrentButtonState = (\<lambda>_ _. 0),
                  padPreviousButtonState = (\<lambda>_ _. 0), axisState = (\<lambda>_ _. 0)\<rparr>,
      Time_base = 0,
      Storage_basePath = []\<rparr>"

definition PadState_zero :: PadState where
  "PadState_zero =
     \<lparr>padIsConnected = False, padGetStyleSet = 0, padGetButtons = 0,
      padGetStickPos = (\<lambda>_. (0, 0))\<rparr>"

definition platform_zero :: PlatformData where
  "platform_zero =
     \<lparr>gbmSurface = 0, touchDeltaTime = (\<lambda>_. 0), prevTouchCount = 0,
      nxPad = (\<lambda>_. PadState_zero), nxPadStyle = (\<lambda>_. 0),
      device = 0, surface = 0, eglContext = 0, config = 0\<rparr>"

definition nx_zero :: nx_state where
  "nx_zero = \<lparr>CORE = CORE_zero, platform = platform_zero, tracelog = []\<rparr>"

definition nx_started :: nx_state where
  "nx_started =
     run [upd_Keyboard (\<lambda>kb. kb\<lparr>exitKey := int KEY_ESCAPE\<rparr>),
          upd_Mouse (\<lambda>m. m\<lparr>mouseScale := (1, 1)\<rparr>)] nx_zero"

text \<open>
  A call \<open>logs_one_warning\<close> when the log after it is the log before it and one more
  line, of level \<open>LOG_WARNING\<close>.
\<close>

definition logs_one_warning :: "nx_state \<Rightarrow> nx_state \<Rightarrow> bool" where
  "logs_one_warning s s' \<longleftrightarrow>
     take (length (tracelog s)) (tracelog s') = tracelog s \<and>
     map fst (drop (length (tracelog s)) (tracelog s')) = [LOG_WARNING]"

text \<open>
  What the proofs use of a rounding function (to \<open>float\<close> or to \<open>double\<close>): it is
  monotone, and exact on the integers of magnitude up to \<open>2^24\<close>. Rounding to nearest
  has both properties in either format; so has the identity, the reading with exact
  arithmetic.
\<close>

definition rounding :: "(real \<Rightarrow> real) \<Rightarrow> bool" where
  "rounding r \<longleftrightarrow> mono r \<and> (\<forall>n::int. \<bar>n\<bar> \<le> 2 ^ 24 \<longrightarrow> r (of_int n) = of_int n)"

text \<open>
  The clock reading of a \<open>timespec\<close> in nanoseconds, as a number (both members taken as
  the unsigned values that \<open>GetTime\<close> converts them to).
\<close>

definition reading_in_nanoseconds :: "timespec \<Rightarrow> nat" where
  "reading_in_nanoseconds ts = unat (tv_sec ts) * 1000000000 + unat (tv_nsec ts)"

text \<open>
  A sufficient condition for \<open>PollInputEvents\<close> to stay inside the arrays: the touch
  screen reports at most \<open>MAX_TOUCH_POINTS\<close> touches and the exit key is a key index.
\<close>

definition poll_defined :: "PollInputEvents_calls \<Rightarrow> nx_state \<Rightarrow> bool" where
  "poll_defined c s \<longleftrightarrow>
     (case hidGetTouchScreenStates c of
        None \<Rightarrow> True | Some st \<Rightarrow> count st \<le> int MAX_TOUCH_POINTS) \<and>
     0 \<le> exitKey (Keyboard (CORE s)) \<and>
     exitKey (Keyboard (CORE s)) < int MAX_KEYBOARD_KEYS"

text \<open>Pad \<open>p\<close> is connected in this call.\<close>

definition pad_connected :: "PollInputEvents_calls \<Rightarrow> nat \<Rightarrow> bool" where
  "pad_connected c p = padIsConnected (padUpdate c p)"

text \<open>Both sticks of a pad reading lie in the range that libnx documents.\<close>

definition sticks_in_range :: "PadState \<Rightarrow> bool" where
  "sticks_in_range pad \<longleftrightarrow>
     (let in_range = (\<lambda>v. JOYSTICK_MIN \<le> sint v \<and> sint v \<le> JOYSTICK_MAX)
      in in_range (fst (padGetStickPos pad 0)) \<and> in_range (snd (padGetStickPos pad 0)) \<and>
         in_range (fst (padGetStickPos pad 1)) \<and> in_range (snd (padGetStickPos pad 1)))"

text \<open>The keys that the gamepad emulation writes.\<close>

definition emulated_keys :: "nat set" where
  "emulated_keys =
     {KEY_RIGHT, KEY_D, KEY_LEFT, KEY_A, KEY_DOWN, KEY_S, KEY_UP, KEY_W, KEY_Q, KEY_E,
      KEY_R, KEY_F, KEY_ENTER, KEY_SPACE, KEY_ESCAPE, KEY_LEFT_SHIFT}"


subsection \<open>Closed forms of the polling loops\<close>

text \<open>
  Three states in closed form, the vocabulary of the loop lemmas below: \<open>touched\<close> is
  the state after \<open>n\<close> iterations of the touch loop; \<open>polled_axes\<close> is the axis row of
  a pad after lines 516 to 521; \<open>scanned\<close> is the state after the scan of a connected
  pad \<open>i\<close>, where \<open>l\<close> is the last button found pressed and \<open>nm\<close> the name of the pad.
\<close>

definition touched ::
  "(real \<Rightarrow> real) \<Rightarrow> HidTouchScreenState \<Rightarrow> nat \<Rightarrow> nx_state \<Rightarrow> nx_state" where
  "touched rf st n s =
     s\<lparr>CORE := (CORE s)\<lparr>Touch := (Touch (CORE s))\<lparr>
          position := (\<lambda>i. if i < n
             then (rf (real (unat (touch_x (touches st i)))),
                   rf (real (unat (touch_y (touches st i)))))
             else position (Touch (CORE s)) i),
          pointId := (\<lambda>i. if i < n then sint (finger_id (touches st i))
                           else pointId (Touch (CORE s)) i)\<rparr>\<rparr>,
       platform := (platform s)\<lparr>
          touchDeltaTime := (\<lambda>i. if i < n then sint (delta_time (touches st i))
                                  else touchDeltaTime (platform s) i)\<rparr>\<rparr>"

definition polled_axes :: "(real \<Rightarrow> real) \<Rightarrow> PadState \<Rightarrow> (nat \<Rightarrow> real) \<Rightarrow> nat \<Rightarrow> real" where
  "polled_axes rf pad row =
     row(GAMEPAD_AXIS_LEFT_X :=
           rf (rf (real_of_int (sint (fst (padGetStickPos pad 0)))) / 32767),
         GAMEPAD_AXIS_LEFT_Y :=
           rf (rf (real_of_int (sint (snd (padGetStickPos pad 0)))) / 32767),
         GAMEPAD_AXIS_RIGHT_X :=
           rf (rf (real_of_int (sint (fst (padGetStickPos pad 1)))) / 32767),
         GAMEPAD_AXIS_RIGHT_Y :=
           rf (rf (real_of_int (sint (snd (padGetStickPos pad 1)))) / 32767),
         GAMEPAD_AXIS_LEFT_TRIGGER :=
           (if held (padGetButtons pad) HidNpadButton_ZL then 1 else 0),
         GAMEPAD_AXIS_RIGHT_TRIGGER :=
           (if held (padGetButtons pad) HidNpadButton_ZR then 1 else 0))"

definition scanned :: "(real \<Rightarrow> real) \<Rightarrow> nat \<Rightarrow> int \<Rightarrow> string \<Rightarrow> nx_state \<Rightarrow> nx_state" where
  "scanned rf i l nm s =
     upd_Gamepad (\<lambda>g. g\<lparr>
       axisCount := (axisCount g)(i := 6),
       padName := (padName g)(i := nm),
       padPreviousButtonState := (padPreviousButtonState g)
         (i := (\<lambda>k. if k < MAX_GAMEPAD_BUTTONS then padCurrentButtonState g i k
                     else padPreviousButtonState g i k)),
       padCurrentButtonState := (padCurrentButtonState g)
         (i := (\<lambda>k. if k < MAX_GAMEPAD_BUTTONS
                     then (if held (padGetButtons (nxPad (platform s) i)) (kButton_of k)
                           then 1 else 0)
                     else padCurrentButtonState g i k)),
       lastButtonPressed := l,
       axisState := (axisState g)
         (i := polled_axes rf (nxPad (platform s) i) (axisState g i))\<rparr>)
      (upd_platform (\<lambda>p. p\<lparr>nxPadStyle := (nxPadStyle p)
         (i := padGetStyleSet (nxPad p i))\<rparr>) s)"

text \<open>
  Two sets of answers for \<open>InitPlatform\<close>: one where \<open>eglGetDisplay\<close> finds no display,
  one where every call succeeds.
\<close>

definition calls_no_display :: InitPlatform_calls where
  "calls_no_display =
     \<lparr>eglGetDisplay = EGL_NO_DISPLAY, eglInitialize = False, eglChooseConfig = None,
      eglCreateContext = EGL_NO_CONTEXT, nwindowGetDefault = 0,
      eglCreateWindowSurface = EGL_NO_SURFACE, eglMakeCurrent = False,
      padInitialized = (\<lambda>_. PadState_zero), clock_at_InitTimer = 0,
      GetWorkingDirectory = []\<rparr>"

definition calls_all_succeed :: InitPlatform_calls where
  "calls_all_succeed =
     \<lparr>eglGetDisplay = 1, eglInitialize = True, eglChooseConfig = Some 2,
      eglCreateContext = 3, nwindowGetDefault = 4,
      eglCreateWindowSurface = 5, eglMakeCurrent = True,
      padInitialized = (\<lambda>_. PadState_zero), clock_at_InitTimer = 1000,
      GetWorkingDirectory = ''/''\<rparr>"


text \<open>
  Concrete inputs of \<open>PollInputEvents\<close>. \<open>calls_one_touch\<close>: the touch screen reports
  one touch and no pad is connected. \<open>nx_two_fingers\<close>: the state that a frame with two
  touches has left. \<open>calls_pad0\<close>: no touch state, pad 0 connected with \<open>ZL\<close> held, the
  left stick at \<open>(JOYSTICK_MAX, JOYSTICK_MIN)\<close>, the other pads not connected.
  \<open>nx_pressed\<close>: a state in which the last frame has set, as current values, the keys
  \<open>E\<close>, 48 and \<open>RIGHT\<close>, touch point 0, button 5 of pads 0 and 1 and the left mouse
  button, all previous values being 0.
\<close>

definition calls_nine_touches :: PollInputEvents_calls where
  "calls_nine_touches =
     \<lparr>hidGetTouchScreenStates =
        Some \<lparr>count = 9,
              touches = (\<lambda>_. \<lparr>delta_time = 5, finger_id = 3, touch_x = 100, touch_y = 200\<rparr>)\<rparr>,
      padUpdate = (\<lambda>_. PadState_zero)\<rparr>"

definition calls_one_touch :: PollInputEvents_calls where
  "calls_one_touch =
     \<lparr>hidGetTouchScreenStates =
        Some \<lparr>count = 1,
              touches = (\<lambda>_. \<lparr>delta_time = 5, finger_id = 3, touch_x = 100, touch_y = 200\<rparr>)\<rparr>,
      padUpdate = (\<lambda>_. PadState_zero)\<rparr>"

definition nx_two_fingers :: nx_state where
  "nx_two_fingers =
     run [upd_Touch (\<lambda>t. t\<lparr>pointCount := 2,
            position := (position t)(0 := (1, 2), 1 := (7, 9)),
            pointId := (pointId t)(1 := 4)\<rparr>),
          upd_platform (\<lambda>p. p\<lparr>prevTouchCount := 2,
            touchDeltaTime := (touchDeltaTime p)(1 := 8)\<rparr>)] nx_started"

definition pad_full_tilt :: PadState where
  "pad_full_tilt =
     \<lparr>padIsConnected = True, padGetStyleSet = HidNpadStyleTag_NpadHandheld,
      padGetButtons = HidNpadButton_ZL,
      padGetStickPos = (\<lambda>stick. if stick = 0 then (32767, - 32767) else (0, 100))\<rparr>"

definition calls_pad0 :: PollInputEvents_calls where
  "calls_pad0 =
     \<lparr>hidGetTouchScreenStates = None,
      padUpdate = (\<lambda>i. if i = 0 then pad_full_tilt else PadState_zero)\<rparr>"

definition nx_pressed :: nx_state where
  "nx_pressed =
     run [upd_Keyboard (\<lambda>kb. kb\<lparr>currentKeyState :=
            (currentKeyState kb)(KEY_E := 1, 48 := 1, KEY_RIGHT := 1)\<rparr>),
          upd_Touch (\<lambda>t. t\<lparr>currentTouchState := (currentTouchState t)(0 := 1)\<rparr>),
          upd_Gamepad (\<lambda>g. g\<lparr>padCurrentButtonState :=
            upd2 (upd2 (padCurrentButtonState g) 0 5 1) 1 5 1\<rparr>),
          upd_Mouse (\<lambda>m. m\<lparr>currentButtonState :=
            (currentButtonState m)(MOUSE_BUTTON_LEFT := 1)\<rparr>)] nx_started"

text \<open>A clock: the time base is one second; two readings, at 2.5 and at 3 seconds.\<close>

definition nx_timed :: nx_state where
  "nx_timed = InitTimer 1000000000 nx_zero"

definition ts_2500ms :: timespec where
  "ts_2500ms = \<lparr>tv_sec = 2, tv_nsec = 500000000\<rparr>"

definition ts_3000ms :: timespec where
  "ts_3000ms = \<lparr>tv_sec = 3, tv_nsec = 0\<rparr>"

section \<open>Properties\<close>

lemmas upd_defs =
  upd_Window_def upd_Keyboard_def upd_Mouse_def upd_Touch_def upd_Gamepad_def upd_platform_def

lemmas stub_defs =
  ToggleFullscreen_def ToggleBorderlessWindowed_def MaximizeWindow_def
  MinimizeWindow_def RestoreWindow_def SetWindowState_def ClearWindowState_def
  SetWindowIcon_def SetWindowIcons_def SetWindowPosition_def SetWindowMonitor_def
  SetWindowSize_def SetWindowOpacity_def SetWindowFocused_def SetClipboardText_def
  SetMouseCursor_def GetWindowHandle_def GetMonitorCount_def GetCurrentMonitor_def
  GetMonitorPosition_def GetMonitorWidth_def GetMonitorHeight_def
  GetMonitorPhysicalWidth_def GetMonitorPhysicalHeight_def GetMonitorRefreshRate_def
  GetMonitorName_def GetWindowPosition_def GetWindowScaleDPI_def GetClipboardText_def
  SetGamepadMappings_def

lemma CORE_TRACELOG: "CORE (TRACELOG lvl msg s) = CORE s"
  by (simp add: TRACELOG_def)

lemma platform_TRACELOG: "platform (TRACELOG lvl msg s) = platform s"
  by (simp add: TRACELOG_def)

lemma logs_one_warning_TRACELOG: "logs_one_warning s (TRACELOG LOG_WARNING msg s)"
  by (simp add: logs_one_warning_def TRACELOG_def)

subsection \<open>WindowShouldClose\<close>

text \<open>
  C9. \<open>WindowShouldClose\<close> returns true whenever the applet main loop has ended or
  \<open>CORE.Window.ready\<close> is false; when the main loop runs and the window is ready it
  returns \<open>CORE.Window.shouldClose\<close>.
\<close>

theorem WindowShouldClose_spec:
  "(\<not> appletMainLoop \<or> \<not> ready (Window (CORE s)) \<longrightarrow>
      WindowShouldClose appletMainLoop s = True) \<and>
   (appletMainLoop \<and> ready (Window (CORE s)) \<longrightarrow>
      WindowShouldClose appletMainLoop s = shouldClose (Window (CORE s)))"
  by (simp add: WindowShouldClose_def)

text \<open>
  The three cases at concrete states: the main loop has ended; it runs but the window is
  not ready; it runs, the window is ready and \<open>shouldClose\<close> is false.
\<close>

theorem WindowShouldClose_spec_witness:
  "WindowShouldClose False nx_zero = True \<and>
   WindowShouldClose True nx_zero = True \<and>
   ready (Window (CORE (upd_Window (\<lambda>w. w\<lparr>ready := True\<rparr>) nx_zero))) \<and>
   WindowShouldClose True (upd_Window (\<lambda>w. w\<lparr>ready := True\<rparr>) nx_zero) = False"
  using WindowShouldClose_spec [of False nx_zero] WindowShouldClose_spec [of True nx_zero]
    WindowShouldClose_spec [of True "upd_Window (\<lambda>w. w\<lparr>ready := True\<rparr>) nx_zero"]
  by (simp add: nx_zero_def CORE_zero_def upd_Window_def)

subsection \<open>The unsupported operations\<close>

text \<open>
  C6. Every unsupported stub, setter or query, leaves \<open>CORE\<close> unchanged, whatever its
  arguments and the state; it leaves \<open>platform\<close> unchanged as well.
\<close>

theorem unsupported_stubs_frame:
  "CORE (ToggleFullscreen s) = CORE s \<and> platform (ToggleFullscreen s) = platform s \<and>
   CORE (ToggleBorderlessWindowed s) = CORE s \<and> platform (ToggleBorderlessWindowed s) = platform s \<and>
   CORE (MaximizeWindow s) = CORE s \<and> platform (MaximizeWindow s) = platform s \<and>
   CORE (MinimizeWindow s) = CORE s \<and> platform (MinimizeWindow s) = platform s \<and>
   CORE (RestoreWindow s) = CORE s \<and> platform (RestoreWindow s) = platform s \<and>
   CORE (SetWindowState flgs s) = CORE s \<and> platform (SetWindowState flgs s) = platform s \<and>
   CORE (ClearWindowState flgs s) = CORE s \<and> platform (ClearWindowState flgs s) = platform s \<and>
   CORE (SetWindowIcon img s) = CORE s \<and> platform (SetWindowIcon img s) = platform s \<and>
   CORE (SetWindowIcons imgs cnt s) = CORE s \<and> platform (SetWindowIcons imgs cnt s) = platform s \<and>
   CORE (SetWindowPosition px py s) = CORE s \<and> platform (SetWindowPosition px py s) = platform s \<and>
   CORE (SetWindowMonitor monitor s) = CORE s \<and> platform (SetWindowMonitor monitor s) = platform s \<and>
   CORE (SetWindowSize w h s) = CORE s \<and> platform (SetWindowSize w h s) = platform s \<and>
   CORE (SetWindowOpacity opacity s) = CORE s \<and> platform (SetWindowOpacity opacity s) = platform s \<and>
   CORE (SetWindowFocused s) = CORE s \<and> platform (SetWindowFocused s) = platform s \<and>
   CORE (SetClipboardText txt s) = CORE s \<and> platform (SetClipboardText txt s) = platform s \<and>
   CORE (SetMouseCursor cursor s) = CORE s \<and> platform (SetMouseCursor cursor s) = platform s \<and>
   CORE (snd (GetWindowHandle s)) = CORE s \<and>
   platform (snd (GetWindowHandle s)) = platform s \<and>
   CORE (snd (GetMonitorCount s)) = CORE s \<and>
   platform (snd (GetMonitorCount s)) = platform s \<and>
   CORE (snd (GetCurrentMonitor s)) = CORE s \<and>
   platform (snd (GetCurrentMonitor s)) = platform s \<and>
   CORE (snd (GetMonitorPosition monitor s)) = CORE s \<and>
   platform (snd (GetMonitorPosition monitor s)) = platform s \<and>
   CORE (snd (GetMonitorWidth monitor s)) = CORE s \<and>
   platform (snd (GetMonitorWidth monitor s)) = platform s \<and>
   CORE (snd (GetMonitorHeight monitor s)) = CORE s \<and>
   platform (snd (GetMonitorHeight monitor s)) = platform s \<and>
   CORE (snd (GetMonitorPhysicalWidth monitor s)) = CORE s \<and>
   platform (snd (GetMonitorPhysicalWidth monitor s)) = platform s \<and>
   CORE (snd (GetMonitorPhysicalHeight monitor s)) = CORE s \<and>
   platform (snd (GetMonitorPhysicalHeight monitor s)) = platform s \<and>
   CORE (snd (GetMonitorRefreshRate monitor s)) = CORE s \<and>
   platform (snd (GetMonitorRefreshRate monitor s)) = platform s \<and>
   CORE (snd (GetMonitorName monitor s)) = CORE s \<and>
   platform (snd (GetMonitorName monitor s)) = platform s \<and>
   CORE (snd (GetWindowPosition s)) = CORE s \<and>
   platform (snd (GetWindowPosition s)) = platform s \<and>
   CORE (snd (GetWindowScaleDPI s)) = CORE s \<and>
   platform (snd (GetWindowScaleDPI s)) = platform s \<and>
   CORE (snd (GetClipboardText s)) = CORE s \<and>
   platform (snd (GetClipboardText s)) = platform s \<and>
   CORE (snd (SetGamepadMappings mappings s)) = CORE s \<and>
   platform (snd (SetGamepadMappings mappings s)) = platform s"
  by (simp add: stub_defs CORE_TRACELOG platform_TRACELOG)

text \<open>
  C5, as the code has it. Each of the thirty stubs named below logs exactly one warning,
  and those with a result return a fixed default: \<open>NULL\<close> for the window handle and the
  clipboard text, the empty string for the monitor name, zero or the zero vector for the
  other queries, except that \<open>GetMonitorCount\<close> returns 1 and \<open>GetWindowScaleDPI\<close>
  returns \<open>(1, 1)\<close>. \<open>OpenURL\<close> logs one warning for a URL that holds the character \<open>'\<close>
  and does nothing at all for any other URL. The functions are total and their results
  carry no error.
\<close>

theorem unsupported_defaults:
  "fst (GetWindowHandle s) = NULL \<and>
   logs_one_warning s (snd (GetWindowHandle s)) \<and>
   fst (GetMonitorCount s) = 1 \<and>
   logs_one_warning s (snd (GetMonitorCount s)) \<and>
   fst (GetCurrentMonitor s) = 0 \<and>
   logs_one_warning s (snd (GetCurrentMonitor s)) \<and>
   fst (GetMonitorPosition monitor s) = (0, 0) \<and>
   logs_one_warning s (snd (GetMonitorPosition monitor s)) \<and>
   fst (GetMonitorWidth monitor s) = 0 \<and>
   logs_one_warning s (snd (GetMonitorWidth monitor s)) \<and>
   fst (GetMonitorHeight monitor s) = 0 \<and>
   logs_one_warning s (snd (GetMonitorHeight monitor s)) \<and>
   fst (GetMonitorPhysicalWidth monitor s) = 0 \<and>
   logs_one_warning s (snd (GetMonitorPhysicalWidth monitor s)) \<and>
   fst (GetMonitorPhysicalHeight monitor s) = 0 \<and>
   logs_one_warning s (snd (GetMonitorPhysicalHeight monitor s)) \<and>
   fst (GetMonitorRefreshRate monitor s) = 0 \<and>
   logs_one_warning s (snd (GetMonitorRefreshRate monitor s)) \<and>
   fst (GetMonitorName monitor s) = Some [] \<and>
   logs_one_warning s (snd (GetMonitorName monitor s)) \<and>
   fst (GetWindowPosition s) = (0, 0) \<and>
   logs_one_warning s (snd (GetWindowPosition s)) \<and>
   fst (GetWindowScaleDPI s) = (1, 1) \<and>
   logs_one_warning s (snd (GetWindowScaleDPI s)) \<and>
   fst (GetClipboardText s) = None \<and>
   logs_one_warning s (snd (GetClipboardText s)) \<and>
   fst (SetGamepadMappings mappings s) = 0 \<and>
   logs_one_warning s (snd (SetGamepadMappings mappings s)) \<and>
   logs_one_warning s (ToggleFullscreen s) \<and>
   logs_one_warning s (ToggleBorderlessWindowed s) \<and>
   logs_one_warning s (MaximizeWindow s) \<and>
   logs_one_warning s (MinimizeWindow s) \<and>
   logs_one_warning s (RestoreWindow s) \<and>
   logs_one_warning s (SetWindowState flgs s) \<and>
   logs_one_warning s (ClearWindowState flgs s) \<and>
   logs_one_warning s (SetWindowIcon img s) \<and>
   logs_one_warning s (SetWindowIcons imgs cnt s) \<and>
   logs_one_warning s (SetWindowPosition px py s) \<and>
   logs_one_warning s (SetWindowMonitor monitor s) \<and>
   logs_one_warning s (SetWindowSize w h s) \<and>
   logs_one_warning s (SetWindowOpacity opacity s) \<and>
   logs_one_warning s (SetWindowFocused s) \<and>
   logs_one_warning s (SetClipboardText txt s) \<and>
   logs_one_warning s (SetMouseCursor cursor s) \<and>
   (CHR 0x27 \<in> set url \<longrightarrow> logs_one_warning s (OpenURL url s)) \<and>
   (CHR 0x27 \<notin> set url \<longrightarrow> OpenURL url s = s)"
  by (simp add: stub_defs OpenURL_def logs_one_warning_TRACELOG)

text \<open>A URL with the character \<open>'\<close> and one without.\<close>

theorem unsupported_defaults_witness:
  "CHR 0x27 \<in> set (''a'' @ [CHR 0x27] @ ''b'') \<and>
   logs_one_warning nx_zero (OpenURL (''a'' @ [CHR 0x27] @ ''b'') nx_zero) \<and>
   CHR 0x27 \<notin> set ''https://www.raylib.com'' \<and>
   OpenURL ''https://www.raylib.com'' nx_zero = nx_zero"
  using unsupported_defaults [where s = nx_zero and url = "''a'' @ [CHR 0x27] @ ''b''"]
    unsupported_defaults [where s = nx_zero and url = "''https://www.raylib.com''"]
  by simp

text \<open>
  C5 as stated fails: the monitor count is not zero, the DPI scale is not the zero
  vector, and \<open>OpenURL\<close> with a URL free of \<open>'\<close> logs nothing.
\<close>

theorem unsupported_defaults_counterexample:
  "fst (GetMonitorCount nx_zero) \<noteq> 0 \<and> fst (GetWindowScaleDPI nx_zero) \<noteq> (0, 0) \<and>
   tracelog (OpenURL ''https://www.raylib.com'' nx_zero) = tracelog nx_zero"
  by (simp add: GetMonitorCount_def GetWindowScaleDPI_def OpenURL_def)

subsection \<open>InitPlatform\<close>

lemma InitPlatform_codes:
  "fst (InitPlatform c s) =
     (if eglGetDisplay c = EGL_NO_DISPLAY then 0
      else if \<not> eglInitialize c then 0
      else if eglCreateContext c = EGL_NO_CONTEXT then - 1
      else if eglMakeCurrent c then 0 else - 1)"
  by (simp add: InitPlatform_def run_def upd_defs Let_def)

lemma Window_for_upto_init_gamepad:
  "Window (CORE (for_upto n (init_gamepad c) s)) = Window (CORE s)"
  by (induction n) (simp_all add: init_gamepad_def run_def upd_defs)

text \<open>
  When the display and its initialisation succeed, the return value 0 does mean success:
  the window is ready and the render size is the screen size.
\<close>

lemma InitPlatform_success:
  assumes "eglGetDisplay c \<noteq> EGL_NO_DISPLAY" and "eglInitialize c"
    and "fst (InitPlatform c s) = 0"
  shows "ready (Window (CORE (snd (InitPlatform c s)))) \<and>
    render (Window (CORE (snd (InitPlatform c s)))) =
      screen (Window (CORE (snd (InitPlatform c s))))"
proof -
  from assms have ok: "eglCreateContext c \<noteq> EGL_NO_CONTEXT" "eglMakeCurrent c"
    by (auto simp: InitPlatform_codes split: if_splits)
  show ?thesis
    using assms(1,2) ok
    by (simp add: InitPlatform_def run_def Let_def upd_platform_def TRACELOG_def
        InitTimer_def Window_for_upto_init_gamepad report_sizes_def upd_Window_def)
qed

text \<open>
  C2. A failing display creation is logged, but the value returned is 0, the success
  code: the \<open>return false\<close> of line 712. (The context and surface failures return -1, see
  \<open>InitPlatform_codes\<close>.)
\<close>

theorem InitPlatform_no_display_returns_0:
  "fst (InitPlatform calls_no_display nx_zero) = 0 \<and>
   tracelog (snd (InitPlatform calls_no_display nx_zero)) =
     [(LOG_WARNING, ''DISPLAY: Failed to initialize EGL device'')]"
  by (simp add: InitPlatform_def calls_no_display_def nx_zero_def platform_zero_def
      run_def upd_defs TRACELOG_def Let_def)

text \<open>
  C3. On the same input \<open>InitPlatform\<close> returns 0 while the window is not ready and the
  render width (0) is not the screen width (1280).
\<close>

theorem InitPlatform_0_without_ready:
  "fst (InitPlatform calls_no_display nx_zero) = 0 \<and>
   \<not> ready (Window (CORE (snd (InitPlatform calls_no_display nx_zero)))) \<and>
   width (render (Window (CORE (snd (InitPlatform calls_no_display nx_zero))))) = 0 \<and>
   width (screen (Window (CORE (snd (InitPlatform calls_no_display nx_zero))))) = 1280"
  by (simp add: InitPlatform_def calls_no_display_def nx_zero_def platform_zero_def
      CORE_zero_def Size_zero_def run_def upd_defs TRACELOG_def Let_def)

subsection \<open>ClosePlatform\<close>

text \<open>
  C4, as the code has it. From every state whose display handle is not \<open>EGL_NO_DISPLAY\<close>,
  or whose surface and context handles are already null, one call of \<open>ClosePlatform\<close>
  leaves all three handles at their null sentinels; and from every state whatsoever a
  second call changes nothing.
\<close>

theorem ClosePlatform_handles:
  "(device (platform s) \<noteq> EGL_NO_DISPLAY \<or>
      (surface (platform s) = EGL_NO_SURFACE \<and> eglContext (platform s) = EGL_NO_CONTEXT) \<longrightarrow>
    surface (platform (ClosePlatform s)) = EGL_NO_SURFACE \<and>
    eglContext (platform (ClosePlatform s)) = EGL_NO_CONTEXT \<and>
    device (platform (ClosePlatform s)) = EGL_NO_DISPLAY) \<and>
   ClosePlatform (ClosePlatform s) = ClosePlatform s"
  by (simp add: ClosePlatform_def run_def upd_platform_def)

text \<open>The state that \<open>InitPlatform\<close> leaves when every call succeeds, torn down.\<close>

theorem ClosePlatform_handles_witness:
  "device (platform (snd (InitPlatform calls_all_succeed nx_zero))) \<noteq> EGL_NO_DISPLAY \<and>
   surface (platform (snd (InitPlatform calls_all_succeed nx_zero))) \<noteq> EGL_NO_SURFACE \<and>
   surface (platform (ClosePlatform (snd (InitPlatform calls_all_succeed nx_zero)))) = 0 \<and>
   eglContext (platform (ClosePlatform (snd (InitPlatform calls_all_succeed nx_zero)))) = 0 \<and>
   device (platform (ClosePlatform (snd (InitPlatform calls_all_succeed nx_zero)))) = 0 \<and>
   ClosePlatform (ClosePlatform (snd (InitPlatform calls_all_succeed nx_zero))) =
     ClosePlatform (snd (InitPlatform calls_all_succeed nx_zero))"
proof -
  have handles: "device (platform (for_upto n (init_gamepad c) s)) = device (platform s) \<and>
      surface (platform (for_upto n (init_gamepad c) s)) = surface (platform s) \<and>
      eglContext (platform (for_upto n (init_gamepad c) s)) = eglContext (platform s)"
    for n c s
    by (induction n) (simp_all add: init_gamepad_def run_def upd_defs)
  have start: "device (platform (snd (InitPlatform calls_all_succeed nx_zero))) = 1"
    "surface (platform (snd (InitPlatform calls_all_succeed nx_zero))) = 5"
    by (simp_all add: InitPlatform_def calls_all_succeed_def run_def Let_def upd_defs
        TRACELOG_def InitTimer_def report_sizes_def handles EGL_NO_DISPLAY_def
        EGL_NO_CONTEXT_def)
  show ?thesis
    using ClosePlatform_handles [of "snd (InitPlatform calls_all_succeed nx_zero)"] start
    by (simp add: EGL_NO_DISPLAY_def EGL_NO_SURFACE_def EGL_NO_CONTEXT_def)
qed

text \<open>
  C4 as stated, for every starting state, fails: with the display handle null the function
  does nothing, and a surface handle that is not null stays.
\<close>

theorem ClosePlatform_counterexample:
  "surface (platform (ClosePlatform (upd_platform (\<lambda>p. p\<lparr>surface := 5\<rparr>) nx_zero))) \<noteq>
     EGL_NO_SURFACE"
  by (simp add: ClosePlatform_def upd_platform_def nx_zero_def platform_zero_def
      EGL_NO_DISPLAY_def EGL_NO_SURFACE_def)


subsection \<open>PollInputEvents: statements, loops and frames\<close>

lemma run_Nil [simp]: "run [] s = s"
  by (simp add: run_def)

lemma run_Cons [simp]: "run (stmt # stmts) s = run stmts (stmt s)"
  by (simp add: run_def)

lemma bind_f_Inr [simp]: "bind_f (Inr s) f = f s"
  by (simp add: bind_f_def)

lemma bind_f_Inl [simp]: "bind_f (Inl e) f = Inl e"
  by (simp add: bind_f_def)

lemma bind_f_eq_Inr: "bind_f r f = Inr s' \<longleftrightarrow> (\<exists>s1. r = Inr s1 \<and> f s1 = Inr s')"
  by (cases r) simp_all

lemma proj_upd_Window [simp]:
  "Window (CORE (upd_Window f s)) = f (Window (CORE s))"
  "Keyboard (CORE (upd_Window f s)) = Keyboard (CORE s)"
  "Mouse (CORE (upd_Window f s)) = Mouse (CORE s)"
  "Touch (CORE (upd_Window f s)) = Touch (CORE s)"
  "Gamepad (CORE (upd_Window f s)) = Gamepad (CORE s)"
  "Time_base (CORE (upd_Window f s)) = Time_base (CORE s)"
  "platform (upd_Window f s) = platform s"
  "tracelog (upd_Window f s) = tracelog s"
  by (simp_all add: upd_Window_def)

lemma proj_upd_Keyboard [simp]:
  "Window (CORE (upd_Keyboard f s)) = Window (CORE s)"
  "Keyboard (CORE (upd_Keyboard f s)) = f (Keyboard (CORE s))"
  "Mouse (CORE (upd_Keyboard f s)) = Mouse (CORE s)"
  "Touch (CORE (upd_Keyboard f s)) = Touch (CORE s)"
  "Gamepad (CORE (upd_Keyboard f s)) = Gamepad (CORE s)"
  "Time_base (CORE (upd_Keyboard f s)) = Time_base (CORE s)"
  "platform (upd_Keyboard f s) = platform s"
  "tracelog (upd_Keyboard f s) = tracelog s"
  by (simp_all add: upd_Keyboard_def)

lemma proj_upd_Mouse [simp]:
  "Window (CORE (upd_Mouse f s)) = Window (CORE s)"
  "Keyboard (CORE (upd_Mouse f s)) = Keyboard (CORE s)"
  "Mouse (CORE (upd_Mouse f s)) = f (Mouse (CORE s))"
  "Touch (CORE (upd_Mouse f s)) = Touch (CORE s)"
  "Gamepad (CORE (upd_Mouse f s)) = Gamepad (CORE s)"
  "Time_base (CORE (upd_Mouse f s)) = Time_base (CORE s)"
  "platform (upd_Mouse f s) = platform s"
  "tracelog (upd_Mouse f s) = tracelog s"
  by (simp_all add: upd_Mouse_def)

lemma proj_upd_Touch [simp]:
  "Window (CORE (upd_Touch f s)) = Window (CORE s)"
  "Keyboard (CORE (upd_Touch f s)) = Keyboard (CORE s)"
  "Mouse (CORE (upd_Touch f s)) = Mouse (CORE s)"
  "Touch (CORE (upd_Touch f s)) = f (Touch (CORE s))"
  "Gamepad (CORE (upd_Touch f s)) = Gamepad (CORE s)"
  "Time_base (CORE (upd_Touch f s)) = Time_base (CORE s)"
  "platform (upd_Touch f s) = platform s"
  "tracelog (upd_Touch f s) = tracelog s"
  by (simp_all add: upd_Touch_def)

lemma proj_upd_Gamepad [simp]:
  "Window (CORE (upd_Gamepad f s)) = Window (CORE s)"
  "Keyboard (CORE (upd_Gamepad f s)) = Keyboard (CORE s)"
  "Mouse (CORE (upd_Gamepad f s)) = Mouse (CORE s)"
  "Touch (CORE (upd_Gamepad f s)) = Touch (CORE s)"
  "Gamepad (CORE (upd_Gamepad f s)) = f (Gamepad (CORE s))"
  "Time_base (CORE (upd_Gamepad f s)) = Time_base (CORE s)"
  "platform (upd_Gamepad f s) = platform s"
  "tracelog (upd_Gamepad f s) = tracelog s"
  by (simp_all add: upd_Gamepad_def)

lemma proj_upd_platform [simp]:
  "CORE (upd_platform f s) = CORE s"
  "platform (upd_platform f s) = f (platform s)"
  "tracelog (upd_platform f s) = tracelog s"
  by (simp_all add: upd_platform_def)

text \<open>What every iteration of a loop leaves alone, the loop leaves alone.\<close>

lemma for_upto_frame: "(\<And>i s. P (body i s) = P s) \<Longrightarrow> P (for_upto n body s) = P s"
  by (induction n) simp_all

lemma for_upto_e_frame:
  "for_upto_e n body s = Inr s' \<Longrightarrow> (\<And>i s s'. body i s = Inr s' \<Longrightarrow> P s' = P s)
    \<Longrightarrow> P s' = P s"
proof (induction n arbitrary: s')
  case 0
  then show ?case by simp
next
  case (Suc n)
  from Suc.prems(1) obtain s1 where s1: "for_upto_e n body s = Inr s1" "body n s1 = Inr s'"
    by (auto simp: bind_f_eq_Inr)
  from Suc.IH [OF s1(1) Suc.prems(2)] Suc.prems(2) [OF s1(2)] show ?case by simp
qed

text \<open>The three loops of the reset phase, and the phase as a whole.\<close>

lemma touch_prev_loop:
  "for_upto n (\<lambda>i. upd_Touch (\<lambda>t. t\<lparr>previousTouchState := (previousTouchState t)
       (i := currentTouchState t i)\<rparr>)) s =
   upd_Touch (\<lambda>t. t\<lparr>previousTouchState :=
       (\<lambda>i. if i < n then currentTouchState t i else previousTouchState t i)\<rparr>) s"
  by (induction n) (simp_all add: upd_Touch_def fun_eq_iff less_Suc_eq)

lemma key_repeat_loop:
  "for_upto n (\<lambda>i. upd_Keyboard (\<lambda>kb. kb\<lparr>keyRepeatInFrame :=
       (keyRepeatInFrame kb)(i := 0)\<rparr>)) s =
   upd_Keyboard (\<lambda>kb. kb\<lparr>keyRepeatInFrame :=
       (\<lambda>i. if i < n then 0 else keyRepeatInFrame kb i)\<rparr>) s"
  by (induction n) (simp_all add: upd_Keyboard_def fun_eq_iff less_Suc_eq)

lemma key_prev_loop:
  "for_upto n (\<lambda>i. run [key_previous i,
       upd_Keyboard (\<lambda>kb. kb\<lparr>keyRepeatInFrame := (keyRepeatInFrame kb)(i := 0)\<rparr>)]) s =
   upd_Keyboard (\<lambda>kb. kb\<lparr>
       previousKeyState := (\<lambda>i. if i < n then currentKeyState kb i else previousKeyState kb i),
       keyRepeatInFrame := (\<lambda>i. if i < n then 0 else keyRepeatInFrame kb i)\<rparr>) s"
  by (induction n) (simp_all add: key_previous_def upd_Keyboard_def fun_eq_iff less_Suc_eq)

lemma poll_reset_eq:
  "poll_reset s =
     s\<lparr>CORE := (CORE s)\<lparr>
       Keyboard := (Keyboard (CORE s))\<lparr>
         previousKeyState := (\<lambda>i. if i < 260 then currentKeyState (Keyboard (CORE s)) i
                                   else previousKeyState (Keyboard (CORE s)) i),
         keyRepeatInFrame := (\<lambda>i. if i < MAX_KEYBOARD_KEYS then 0
                                   else keyRepeatInFrame (Keyboard (CORE s)) i),
         keyPressedQueueCount := 0, charPressedQueueCount := 0\<rparr>,
       Touch := (Touch (CORE s))\<lparr>
         previousTouchState := (\<lambda>i. if i < MAX_TOUCH_POINTS
                                     then currentTouchState (Touch (CORE s)) i
                                     else previousTouchState (Touch (CORE s)) i)\<rparr>,
       Gamepad := (Gamepad (CORE s))\<lparr>lastButtonPressed := 0\<rparr>\<rparr>\<rparr>"
  by (simp add: poll_reset_def touch_prev_loop key_repeat_loop key_prev_loop upd_defs
      MAX_KEYBOARD_KEYS_def fun_eq_iff)

text \<open>The touch loop returns exactly when the count is within the arrays.\<close>

lemma touched_0: "touched rf st 0 s = s"
  by (simp add: touched_def)

lemma touch_step_touched:
  "n < MAX_TOUCH_POINTS \<Longrightarrow>
   touch_step rf st n (touched rf st n s) = Inr (touched rf st (Suc n) s)"
  by (simp add: touch_step_def touched_def upd_defs fun_eq_iff less_Suc_eq)

lemma touch_loop_eq:
  "for_upto_e n (touch_step rf st) s =
     (if n \<le> MAX_TOUCH_POINTS then Inr (touched rf st n s) else Inl IndexOutOfBounds)"
proof (induction n)
  case 0
  show ?case by (simp add: touched_0)
next
  case (Suc n)
  show ?case
  proof (cases "n < MAX_TOUCH_POINTS")
    case True
    with Suc show ?thesis by (simp add: touch_step_touched)
  next
    case False
    with Suc show ?thesis by (simp add: touch_step_def)
  qed
qed

lemma poll_touch_eq:
  "poll_touch rf c s =
     (case hidGetTouchScreenStates c of
        None \<Rightarrow> Inr s
      | Some st \<Rightarrow>
          if nat (count st) \<le> MAX_TOUCH_POINTS
          then Inr (upd_Touch (\<lambda>t. t\<lparr>pointCount := count st\<rparr>)
                 (touched rf st (nat (count st))
                    (upd_platform (\<lambda>p. p\<lparr>prevTouchCount := count st\<rparr>) s)))
          else Inl IndexOutOfBounds)"
proof -
  have same: "upd_platform (\<lambda>p. p\<lparr>prevTouchCount := prevTouchCount (platform s)\<rparr>) s = s"
    by (simp add: upd_platform_def)
  show ?thesis
    by (auto simp: poll_touch_def touch_loop_eq Let_def same split: option.splits)
qed

text \<open>The button loop and the axes of one pad.\<close>

lemma button_loop_eq:
  "\<exists>l. for_upto n (poll_button i kHeld) s =
     upd_Gamepad (\<lambda>g. g\<lparr>
       padPreviousButtonState := (padPreviousButtonState g)
         (i := (\<lambda>k. if k < n then padCurrentButtonState g i k else padPreviousButtonState g i k)),
       padCurrentButtonState := (padCurrentButtonState g)
         (i := (\<lambda>k. if k < n then (if held kHeld (kButton_of k) then 1 else 0)
                     else padCurrentButtonState g i k)),
       lastButtonPressed := l\<rparr>) s"
proof (induction n)
  case 0
  show ?case
    by (rule exI [of _ "lastButtonPressed (Gamepad (CORE s))"]) (simp add: upd_Gamepad_def)
next
  case (Suc n)
  then obtain l where l: "for_upto n (poll_button i kHeld) s =
     upd_Gamepad (\<lambda>g. g\<lparr>
       padPreviousButtonState := (padPreviousButtonState g)
         (i := (\<lambda>k. if k < n then padCurrentButtonState g i k else padPreviousButtonState g i k)),
       padCurrentButtonState := (padCurrentButtonState g)
         (i := (\<lambda>k. if k < n then (if held kHeld (kButton_of k) then 1 else 0)
                     else padCurrentButtonState g i k)),
       lastButtonPressed := l\<rparr>) s"
    by blast
  show ?case
  proof (cases "held kHeld (kButton_of n)")
    case True
    show ?thesis
      apply (rule exI [of _ "int n"])
      apply (simp only: for_upto.simps l)
      apply (simp add: poll_button_def True upd_Gamepad_def upd2_def fun_eq_iff less_Suc_eq)
      done
  next
    case False
    show ?thesis
      apply (rule exI [of _ l])
      apply (simp only: for_upto.simps l)
      apply (simp add: poll_button_def False upd_Gamepad_def upd2_def fun_eq_iff less_Suc_eq)
      done
  qed
qed

lemma poll_axes_eq:
  "poll_axes rf i (padGetButtons (nxPad (platform s) i)) s =
     upd_Gamepad (\<lambda>g. g\<lparr>axisState := (axisState g)
       (i := polled_axes rf (nxPad (platform s) i) (axisState g i))\<rparr>) s"
  by (simp add: poll_axes_def polled_axes_def Let_def upd_Gamepad_def upd2_def)

lemma scan_gamepad_eq: "\<exists>l nm. scan_gamepad rf i s = scanned rf i l nm s"
proof -
  define kHeld where "kHeld = padGetButtons (nxPad (platform s) i)"
  define s1 where "s1 =
    (if padGetStyleSet (nxPad (platform s) i) \<noteq> nxPadStyle (platform s) i then
       run [upd_platform (\<lambda>p. p\<lparr>nxPadStyle := (nxPadStyle p)
              (i := padGetStyleSet (nxPad (platform s) i))\<rparr>),
            (\<lambda>s. upd_Gamepad (\<lambda>g. g\<lparr>padName := (padName g)
               (i := GetNxGamePadName s i)\<rparr>) s)]
     else run []) s"
  define s2 where "s2 = upd_Gamepad (\<lambda>g. g\<lparr>axisCount := (axisCount g)(i := 6)\<rparr>) s1"
  define s3 where "s3 = for_upto MAX_GAMEPAD_BUTTONS (poll_button i kHeld) s2"
  have scan: "scan_gamepad rf i s = poll_axes rf i kHeld s3"
    by (simp add: scan_gamepad_def Let_def kHeld_def s1_def s2_def s3_def)
  obtain nm where s1: "s1 = upd_Gamepad (\<lambda>g. g\<lparr>padName := (padName g)(i := nm)\<rparr>)
      (upd_platform (\<lambda>p. p\<lparr>nxPadStyle := (nxPadStyle p)
         (i := padGetStyleSet (nxPad p i))\<rparr>) s)"
  proof (cases "padGetStyleSet (nxPad (platform s) i) \<noteq> nxPadStyle (platform s) i")
    case True
    then show ?thesis
      by (intro that [of "GetNxGamePadName (upd_platform (\<lambda>p. p\<lparr>nxPadStyle :=
            (nxPadStyle p)(i := padGetStyleSet (nxPad (platform s) i))\<rparr>) s) i"])
         (simp add: s1_def upd_defs)
  next
    case False
    then have "nxPadStyle (platform s) i = padGetStyleSet (nxPad (platform s) i)"
      by simp
    then have "(nxPadStyle (platform s))(i := padGetStyleSet (nxPad (platform s) i)) =
        nxPadStyle (platform s)"
      by (metis fun_upd_triv)
    with False show ?thesis
      by (intro that [of "padName (Gamepad (CORE s)) i"]) (simp add: s1_def upd_defs)
  qed
  obtain l where loop: "s3 =
     upd_Gamepad (\<lambda>g. g\<lparr>
       padPreviousButtonState := (padPreviousButtonState g)
         (i := (\<lambda>k. if k < MAX_GAMEPAD_BUTTONS then padCurrentButtonState g i k
                     else padPreviousButtonState g i k)),
       padCurrentButtonState := (padCurrentButtonState g)
         (i := (\<lambda>k. if k < MAX_GAMEPAD_BUTTONS
                     then (if held kHeld (kButton_of k) then 1 else 0)
                     else padCurrentButtonState g i k)),
       lastButtonPressed := l\<rparr>) s2"
    unfolding s3_def using button_loop_eq [of MAX_GAMEPAD_BUTTONS i kHeld s2] by blast
  have pad: "nxPad (platform s3) i = nxPad (platform s) i"
    by (simp add: loop s2_def s1)
  have "scan_gamepad rf i s = scanned rf i l nm s"
    unfolding scan kHeld_def pad [symmetric] poll_axes_eq
    by (simp add: loop s2_def s1 kHeld_def scanned_def upd_defs cong: if_cong
        split del: if_split)
  then show ?thesis by blast
qed

lemma proj_scanned [simp]:
  "Window (CORE (scanned rf i l nm s)) = Window (CORE s)"
  "Keyboard (CORE (scanned rf i l nm s)) = Keyboard (CORE s)"
  "Mouse (CORE (scanned rf i l nm s)) = Mouse (CORE s)"
  "Touch (CORE (scanned rf i l nm s)) = Touch (CORE s)"
  "Time_base (CORE (scanned rf i l nm s)) = Time_base (CORE s)"
  "tracelog (scanned rf i l nm s) = tracelog s"
  "touchDeltaTime (platform (scanned rf i l nm s)) = touchDeltaTime (platform s)"
  "padPreviousButtonState (Gamepad (CORE (scanned rf i l nm s))) =
     (padPreviousButtonState (Gamepad (CORE s)))
       (i := (\<lambda>k. if k < MAX_GAMEPAD_BUTTONS then padCurrentButtonState (Gamepad (CORE s)) i k
                   else padPreviousButtonState (Gamepad (CORE s)) i k))"
  "padCurrentButtonState (Gamepad (CORE (scanned rf i l nm s))) =
     (padCurrentButtonState (Gamepad (CORE s)))
       (i := (\<lambda>k. if k < MAX_GAMEPAD_BUTTONS
                   then (if held (padGetButtons (nxPad (platform s) i)) (kButton_of k)
                         then 1 else 0)
                   else padCurrentButtonState (Gamepad (CORE s)) i k))"
  "axisState (Gamepad (CORE (scanned rf i l nm s))) =
     (axisState (Gamepad (CORE s)))
       (i := polled_axes rf (nxPad (platform s) i) (axisState (Gamepad (CORE s)) i))"
  by (simp_all add: scanned_def cong: if_cong)

subsection \<open>PollInputEvents: the emulation of keyboard and mouse\<close>

lemmas key_defs =
  KEY_SPACE_def KEY_A_def KEY_D_def KEY_E_def KEY_F_def KEY_Q_def KEY_R_def KEY_S_def
  KEY_W_def KEY_ESCAPE_def KEY_ENTER_def KEY_RIGHT_def KEY_LEFT_def KEY_DOWN_def KEY_UP_def
  KEY_LEFT_SHIFT_def

lemmas mouse_button_defs =
  MOUSE_BUTTON_LEFT_def MOUSE_BUTTON_RIGHT_def MOUSE_BUTTON_MIDDLE_def

lemmas axis_defs =
  GAMEPAD_AXIS_LEFT_X_def GAMEPAD_AXIS_LEFT_Y_def GAMEPAD_AXIS_RIGHT_X_def
  GAMEPAD_AXIS_RIGHT_Y_def GAMEPAD_AXIS_LEFT_TRIGGER_def GAMEPAD_AXIS_RIGHT_TRIGGER_def

text \<open>
  A choice between two assignments to the same cell is an assignment of a chosen value;
  with these three equations the emulation is straight-line code.
\<close>

lemma if_key_current:
  "(if c then key_current K a else key_current K b) = key_current K (if c then a else b)"
  by simp

lemma if_key_current2:
  "(if c then run [key_current K a, key_current L a']
    else run [key_current K b, key_current L b'])
    = run [key_current K (if c then a else b), key_current L (if c then a' else b')]"
  by (simp add: fun_eq_iff)

lemma if_key_current3:
  "(if c then run [key_current K a, key_current L a', key_current M a'']
    else run [(if p then key_current K b1 else key_current K b2),
              (if m then key_current L b3 else key_current L b4)])
    = run [key_current K (if c then a else if p then b1 else b2),
           key_current L (if c then a' else if m then b3 else b4),
           upd_Keyboard (\<lambda>kb. kb\<lparr>currentKeyState :=
             (currentKeyState kb)(M := if c then a'' else currentKeyState kb M)\<rparr>)]"
  by (simp add: fun_eq_iff key_current_def upd_Keyboard_def)

lemma if_mouse_current:
  "(if c then mouse_current B a else mouse_current B b) = mouse_current B (if c then a else b)"
  by simp

lemmas emulate_keys_straight =
  emulate_keys_def if_key_current if_key_current2 if_key_current3

lemma proj_key_previous [simp]:
  "Window (CORE (key_previous k s)) = Window (CORE s)"
  "Mouse (CORE (key_previous k s)) = Mouse (CORE s)"
  "Touch (CORE (key_previous k s)) = Touch (CORE s)"
  "Gamepad (CORE (key_previous k s)) = Gamepad (CORE s)"
  "Time_base (CORE (key_previous k s)) = Time_base (CORE s)"
  "platform (key_previous k s) = platform s"
  "tracelog (key_previous k s) = tracelog s"
  "exitKey (Keyboard (CORE (key_previous k s))) = exitKey (Keyboard (CORE s))"
  by (simp_all add: key_previous_def)

lemma proj_key_current [simp]:
  "Window (CORE (key_current k v s)) = Window (CORE s)"
  "Mouse (CORE (key_current k v s)) = Mouse (CORE s)"
  "Touch (CORE (key_current k v s)) = Touch (CORE s)"
  "Gamepad (CORE (key_current k v s)) = Gamepad (CORE s)"
  "Time_base (CORE (key_current k v s)) = Time_base (CORE s)"
  "platform (key_current k v s) = platform s"
  "tracelog (key_current k v s) = tracelog s"
  "exitKey (Keyboard (CORE (key_current k v s))) = exitKey (Keyboard (CORE s))"
  by (simp_all add: key_current_def)

lemma proj_emulate_keys [simp]:
  "Window (CORE (emulate_keys kHeld s)) = Window (CORE s)"
  "Mouse (CORE (emulate_keys kHeld s)) = Mouse (CORE s)"
  "Touch (CORE (emulate_keys kHeld s)) = Touch (CORE s)"
  "Gamepad (CORE (emulate_keys kHeld s)) = Gamepad (CORE s)"
  "Time_base (CORE (emulate_keys kHeld s)) = Time_base (CORE s)"
  "platform (emulate_keys kHeld s) = platform s"
  "tracelog (emulate_keys kHeld s) = tracelog s"
  "exitKey (Keyboard (CORE (emulate_keys kHeld s))) = exitKey (Keyboard (CORE s))"
  by (simp_all add: emulate_keys_straight)

text \<open>
  Every emulated key has its previous state registered before its current state is
  written, so the sixteen previous cells hold the current values from before the block.
\<close>

lemma emulate_keys_previous:
  "previousKeyState (Keyboard (CORE (emulate_keys kHeld s))) =
     (previousKeyState (Keyboard (CORE s)))
       (KEY_RIGHT := currentKeyState (Keyboard (CORE s)) KEY_RIGHT,
        KEY_D := currentKeyState (Keyboard (CORE s)) KEY_D,
        KEY_LEFT := currentKeyState (Keyboard (CORE s)) KEY_LEFT,
        KEY_A := currentKeyState (Keyboard (CORE s)) KEY_A,
        KEY_DOWN := currentKeyState (Keyboard (CORE s)) KEY_DOWN,
        KEY_S := currentKeyState (Keyboard (CORE s)) KEY_S,
        KEY_UP := currentKeyState (Keyboard (CORE s)) KEY_UP,
        KEY_W := currentKeyState (Keyboard (CORE s)) KEY_W,
        KEY_Q := currentKeyState (Keyboard (CORE s)) KEY_Q,
        KEY_E := currentKeyState (Keyboard (CORE s)) KEY_E,
        KEY_R := currentKeyState (Keyboard (CORE s)) KEY_R,
        KEY_F := currentKeyState (Keyboard (CORE s)) KEY_F,
        KEY_ENTER := currentKeyState (Keyboard (CORE s)) KEY_ENTER,
        KEY_SPACE := currentKeyState (Keyboard (CORE s)) KEY_SPACE,
        KEY_ESCAPE := currentKeyState (Keyboard (CORE s)) KEY_ESCAPE,
        KEY_LEFT_SHIFT := currentKeyState (Keyboard (CORE s)) KEY_LEFT_SHIFT)"
  apply (simp add: emulate_keys_straight split del: if_split)
  apply (simp add: key_previous_def key_current_def upd_Keyboard_def key_defs
      split del: if_split)
  done

lemma emulate_keys_previous_in:
  "k \<in> emulated_keys \<Longrightarrow>
   previousKeyState (Keyboard (CORE (emulate_keys kHeld s))) k =
     currentKeyState (Keyboard (CORE s)) k"
  unfolding emulate_keys_previous emulated_keys_def
  by (elim insertE emptyE) (simp_all add: key_defs)

lemma emulate_keys_previous_out:
  "k \<notin> emulated_keys \<Longrightarrow>
   previousKeyState (Keyboard (CORE (emulate_keys kHeld s))) k =
     previousKeyState (Keyboard (CORE s)) k"
  unfolding emulate_keys_previous emulated_keys_def
  by simp

lemma proj_emulate_mouse_buttons [simp]:
  "Window (CORE (emulate_mouse_buttons kHeld s)) = Window (CORE s)"
  "Keyboard (CORE (emulate_mouse_buttons kHeld s)) = Keyboard (CORE s)"
  "Touch (CORE (emulate_mouse_buttons kHeld s)) = Touch (CORE s)"
  "Gamepad (CORE (emulate_mouse_buttons kHeld s)) = Gamepad (CORE s)"
  "Time_base (CORE (emulate_mouse_buttons kHeld s)) = Time_base (CORE s)"
  "platform (emulate_mouse_buttons kHeld s) = platform s"
  "tracelog (emulate_mouse_buttons kHeld s) = tracelog s"
  "mouseScale (Mouse (CORE (emulate_mouse_buttons kHeld s))) = mouseScale (Mouse (CORE s))"
  by (simp_all add: emulate_mouse_buttons_def if_mouse_current mouse_previous_def
      mouse_current_def)

text \<open>
  The mouse buttons: the previous left and middle cells hold the current values from
  before the block, but the right button is written (line 621) before its previous state
  is registered (line 633), so its previous cell holds the value just written.
\<close>

lemma emulate_mouse_buttons_previous:
  "previousButtonState (Mouse (CORE (emulate_mouse_buttons kHeld s))) =
     (previousButtonState (Mouse (CORE s)))
       (MOUSE_BUTTON_LEFT := currentButtonState (Mouse (CORE s)) MOUSE_BUTTON_LEFT,
        MOUSE_BUTTON_MIDDLE := currentButtonState (Mouse (CORE s)) MOUSE_BUTTON_MIDDLE,
        MOUSE_BUTTON_RIGHT := (if held kHeld HidNpadButton_ZL then 1 else 0))"
  by (simp add: emulate_mouse_buttons_def if_mouse_current mouse_previous_def
      mouse_current_def mouse_button_defs split del: if_split)

lemma emulate_mouse_buttons_current:
  "currentButtonState (Mouse (CORE (emulate_mouse_buttons kHeld s))) =
     (currentButtonState (Mouse (CORE s)))
       (MOUSE_BUTTON_RIGHT := (if held kHeld HidNpadButton_ZL then 1 else 0),
        MOUSE_BUTTON_MIDDLE :=
          (if held kHeld (of_nat GAMEPAD_BUTTON_RIGHT_THUMB) then 1 else 0),
        MOUSE_BUTTON_LEFT := (if held kHeld HidNpadButton_ZR then 1 else 0))"
  by (simp add: emulate_mouse_buttons_def if_mouse_current mouse_previous_def
      mouse_current_def mouse_button_defs split del: if_split)

lemma proj_emulate_mouse_move [simp]:
  "Window (CORE (emulate_mouse_move rf i kHeld s)) = Window (CORE s)"
  "Keyboard (CORE (emulate_mouse_move rf i kHeld s)) = Keyboard (CORE s)"
  "Touch (CORE (emulate_mouse_move rf i kHeld s)) = Touch (CORE s)"
  "Gamepad (CORE (emulate_mouse_move rf i kHeld s)) = Gamepad (CORE s)"
  "Time_base (CORE (emulate_mouse_move rf i kHeld s)) = Time_base (CORE s)"
  "platform (emulate_mouse_move rf i kHeld s) = platform s"
  "tracelog (emulate_mouse_move rf i kHeld s) = tracelog s"
  "mouseScale (Mouse (CORE (emulate_mouse_move rf i kHeld s))) = mouseScale (Mouse (CORE s))"
  "previousButtonState (Mouse (CORE (emulate_mouse_move rf i kHeld s))) =
     previousButtonState (Mouse (CORE s))"
  "currentButtonState (Mouse (CORE (emulate_mouse_move rf i kHeld s))) =
     currentButtonState (Mouse (CORE s))"
  by (simp_all add: emulate_mouse_move_def)

lemma clamp_mouse_x_props:
  "Window (CORE (clamp_mouse_x rf s)) = Window (CORE s)"
  "Keyboard (CORE (clamp_mouse_x rf s)) = Keyboard (CORE s)"
  "Touch (CORE (clamp_mouse_x rf s)) = Touch (CORE s)"
  "Gamepad (CORE (clamp_mouse_x rf s)) = Gamepad (CORE s)"
  "Time_base (CORE (clamp_mouse_x rf s)) = Time_base (CORE s)"
  "platform (clamp_mouse_x rf s) = platform s"
  "tracelog (clamp_mouse_x rf s) = tracelog s"
  "mouseScale (Mouse (CORE (clamp_mouse_x rf s))) = mouseScale (Mouse (CORE s))"
  "previousButtonState (Mouse (CORE (clamp_mouse_x rf s))) =
     previousButtonState (Mouse (CORE s))"
  "currentButtonState (Mouse (CORE (clamp_mouse_x rf s))) =
     currentButtonState (Mouse (CORE s))"
  by (simp_all add: clamp_mouse_x_def Let_def)

lemma clamp_mouse_y_props:
  "Window (CORE (clamp_mouse_y rf s)) = Window (CORE s)"
  "Keyboard (CORE (clamp_mouse_y rf s)) = Keyboard (CORE s)"
  "Touch (CORE (clamp_mouse_y rf s)) = Touch (CORE s)"
  "Gamepad (CORE (clamp_mouse_y rf s)) = Gamepad (CORE s)"
  "Time_base (CORE (clamp_mouse_y rf s)) = Time_base (CORE s)"
  "platform (clamp_mouse_y rf s) = platform s"
  "tracelog (clamp_mouse_y rf s) = tracelog s"
  "mouseScale (Mouse (CORE (clamp_mouse_y rf s))) = mouseScale (Mouse (CORE s))"
  "previousButtonState (Mouse (CORE (clamp_mouse_y rf s))) =
     previousButtonState (Mouse (CORE s))"
  "currentButtonState (Mouse (CORE (clamp_mouse_y rf s))) =
     currentButtonState (Mouse (CORE s))"
  by (simp_all add: clamp_mouse_y_def Let_def)

lemma check_exit_key_props:
  assumes "check_exit_key s = Inr s'"
  shows "Keyboard (CORE s') = Keyboard (CORE s)" "Mouse (CORE s') = Mouse (CORE s)"
    "Touch (CORE s') = Touch (CORE s)" "Gamepad (CORE s') = Gamepad (CORE s)"
    "Time_base (CORE s') = Time_base (CORE s)" "platform s' = platform s"
    "tracelog s' = tracelog s"
  using assms by (auto simp: check_exit_key_def Let_def split: if_splits)

lemma check_exit_key_returns:
  "0 \<le> exitKey (Keyboard (CORE s)) \<Longrightarrow> exitKey (Keyboard (CORE s)) < int MAX_KEYBOARD_KEYS
    \<Longrightarrow> \<exists>s'. check_exit_key s = Inr s'"
  by (simp add: check_exit_key_def Let_def)

lemma gamepad_emulation_props:
  assumes "gamepad_emulation rf i kHeld s = Inr s'"
  shows "Touch (CORE s') = Touch (CORE s)" "Gamepad (CORE s') = Gamepad (CORE s)"
    "Time_base (CORE s') = Time_base (CORE s)" "platform s' = platform s"
    "tracelog s' = tracelog s"
    "Keyboard (CORE s') = Keyboard (CORE (emulate_keys kHeld s))"
    "mouseScale (Mouse (CORE s')) = mouseScale (Mouse (CORE s))"
    "previousButtonState (Mouse (CORE s')) =
       previousButtonState (Mouse (CORE (emulate_mouse_buttons kHeld s)))"
    "currentButtonState (Mouse (CORE s')) =
       currentButtonState (Mouse (CORE (emulate_mouse_buttons kHeld s)))"
proof -
  define s0 where "s0 = emulate_mouse_move rf i kHeld
    (emulate_mouse_buttons kHeld (emulate_keys kHeld s))"
  from assms have step: "check_exit_key (clamp_mouse_y rf (clamp_mouse_x rf s0)) = Inr s'"
    by (simp add: gamepad_emulation_def s0_def)
  note p1 = clamp_mouse_x_props
  note p2 = clamp_mouse_y_props
  note p3 = check_exit_key_props [OF step]
  show "Touch (CORE s') = Touch (CORE s)" by (simp add: p1 p2 p3 s0_def)
  show "Gamepad (CORE s') = Gamepad (CORE s)" by (simp add: p1 p2 p3 s0_def)
  show "Time_base (CORE s') = Time_base (CORE s)" by (simp add: p1 p2 p3 s0_def)
  show "platform s' = platform s" by (simp add: p1 p2 p3 s0_def)
  show "tracelog s' = tracelog s" by (simp add: p1 p2 p3 s0_def)
  show "Keyboard (CORE s') = Keyboard (CORE (emulate_keys kHeld s))"
    by (simp add: p1 p2 p3 s0_def)
  show "mouseScale (Mouse (CORE s')) = mouseScale (Mouse (CORE s))"
    by (simp add: p1 p2 p3 s0_def)
  show "previousButtonState (Mouse (CORE s')) =
       previousButtonState (Mouse (CORE (emulate_mouse_buttons kHeld s)))"
    by (simp add: p1 p2 p3 s0_def emulate_mouse_buttons_previous)
  show "currentButtonState (Mouse (CORE s')) =
       currentButtonState (Mouse (CORE (emulate_mouse_buttons kHeld s)))"
    by (simp add: p1 p2 p3 s0_def emulate_mouse_buttons_current)
qed

lemma gamepad_emulation_returns:
  assumes "0 \<le> exitKey (Keyboard (CORE s))" "exitKey (Keyboard (CORE s)) < int MAX_KEYBOARD_KEYS"
  shows "\<exists>s'. gamepad_emulation rf i kHeld s = Inr s'"
proof -
  define s2 where "s2 = clamp_mouse_y rf (clamp_mouse_x rf (emulate_mouse_move rf i kHeld
    (emulate_mouse_buttons kHeld (emulate_keys kHeld s))))"
  have "exitKey (Keyboard (CORE s2)) = exitKey (Keyboard (CORE s))"
    by (simp add: clamp_mouse_y_props clamp_mouse_x_props s2_def)
  then obtain s3 where s3: "check_exit_key s2 = Inr s3"
    using check_exit_key_returns [of s2] assms by auto
  show ?thesis
    by (simp add: gamepad_emulation_def s2_def [symmetric] s3)
qed

subsection \<open>PollInputEvents: one pad, and the pad loop\<close>

lemma poll_gamepad_disconnected:
  "\<not> pad_connected c i \<Longrightarrow> poll_gamepad rf c i s =
     Inr (upd_Gamepad (\<lambda>g. g\<lparr>padReady := (padReady g)(i := False)\<rparr>)
            (upd_platform (\<lambda>p. p\<lparr>nxPad := (nxPad p)(i := padUpdate c i)\<rparr>) s))"
  by (simp add: poll_gamepad_def pad_connected_def Let_def)

lemma poll_gamepad_connected:
  "pad_connected c i \<Longrightarrow> \<exists>l nm. poll_gamepad rf c i s =
     gamepad_emulation rf i (padGetButtons (padUpdate c i))
       (scanned rf i l nm
          (upd_Gamepad (\<lambda>g. g\<lparr>padReady := (padReady g)(i := True)\<rparr>)
            (upd_platform (\<lambda>p. p\<lparr>nxPad := (nxPad p)(i := padUpdate c i)\<rparr>) s)))"
proof -
  assume con: "pad_connected c i"
  define s1 where "s1 = upd_Gamepad (\<lambda>g. g\<lparr>padReady := (padReady g)(i := True)\<rparr>)
            (upd_platform (\<lambda>p. p\<lparr>nxPad := (nxPad p)(i := padUpdate c i)\<rparr>) s)"
  obtain l nm where "scan_gamepad rf i s1 = scanned rf i l nm s1"
    using scan_gamepad_eq by blast
  with con have "poll_gamepad rf c i s =
     gamepad_emulation rf i (padGetButtons (padUpdate c i)) (scanned rf i l nm s1)"
    by (simp add: poll_gamepad_def pad_connected_def Let_def s1_def)
  then show ?thesis unfolding s1_def by blast
qed

text \<open>What one iteration leaves alone, connected or not.\<close>

lemma poll_gamepad_frame:
  assumes "poll_gamepad rf c i s = Inr s'"
  shows "Touch (CORE s') = Touch (CORE s) \<and>
      touchDeltaTime (platform s') = touchDeltaTime (platform s) \<and>
      exitKey (Keyboard (CORE s')) = exitKey (Keyboard (CORE s)) \<and>
      mouseScale (Mouse (CORE s')) = mouseScale (Mouse (CORE s)) \<and>
      (k \<notin> emulated_keys \<longrightarrow>
        previousKeyState (Keyboard (CORE s')) k = previousKeyState (Keyboard (CORE s)) k) \<and>
      (j \<noteq> i \<longrightarrow>
        padPreviousButtonState (Gamepad (CORE s')) j =
          padPreviousButtonState (Gamepad (CORE s)) j \<and>
        padCurrentButtonState (Gamepad (CORE s')) j =
          padCurrentButtonState (Gamepad (CORE s)) j \<and>
        axisState (Gamepad (CORE s')) j = axisState (Gamepad (CORE s)) j)"
proof (cases "pad_connected c i")
  case True
  from poll_gamepad_connected [OF True, of rf s] assms obtain l nm where
    "gamepad_emulation rf i (padGetButtons (padUpdate c i))
       (scanned rf i l nm
          (upd_Gamepad (\<lambda>g. g\<lparr>padReady := (padReady g)(i := True)\<rparr>)
            (upd_platform (\<lambda>p. p\<lparr>nxPad := (nxPad p)(i := padUpdate c i)\<rparr>) s))) = Inr s'"
    by auto
  note em = gamepad_emulation_props [OF this]
  show ?thesis
    by (simp add: em emulate_keys_previous_out)
next
  case False
  with assms show ?thesis
    by (auto simp: poll_gamepad_disconnected)
qed

text \<open>What the iteration of a connected pad does to the previous states and the axes.\<close>

lemma poll_gamepad_connected_effect:
  assumes "poll_gamepad rf c i s = Inr s'" and "pad_connected c i"
  shows "k \<in> emulated_keys \<Longrightarrow>
      previousKeyState (Keyboard (CORE s')) k = currentKeyState (Keyboard (CORE s)) k"
    and "previousButtonState (Mouse (CORE s')) =
       (previousButtonState (Mouse (CORE s)))
         (MOUSE_BUTTON_LEFT := currentButtonState (Mouse (CORE s)) MOUSE_BUTTON_LEFT,
          MOUSE_BUTTON_MIDDLE := currentButtonState (Mouse (CORE s)) MOUSE_BUTTON_MIDDLE,
          MOUSE_BUTTON_RIGHT :=
            (if held (padGetButtons (padUpdate c i)) HidNpadButton_ZL then 1 else 0))"
    and "currentButtonState (Mouse (CORE s')) =
       (currentButtonState (Mouse (CORE s)))
         (MOUSE_BUTTON_RIGHT :=
            (if held (padGetButtons (padUpdate c i)) HidNpadButton_ZL then 1 else 0),
          MOUSE_BUTTON_MIDDLE :=
            (if held (padGetButtons (padUpdate c i)) (of_nat GAMEPAD_BUTTON_RIGHT_THUMB)
             then 1 else 0),
          MOUSE_BUTTON_LEFT :=
            (if held (padGetButtons (padUpdate c i)) HidNpadButton_ZR then 1 else 0))"
    and "b < MAX_GAMEPAD_BUTTONS \<Longrightarrow>
      padPreviousButtonState (Gamepad (CORE s')) i b =
        padCurrentButtonState (Gamepad (CORE s)) i b"
    and "axisState (Gamepad (CORE s')) i =
       polled_axes rf (padUpdate c i) (axisState (Gamepad (CORE s)) i)"
proof -
  from poll_gamepad_connected [OF assms(2), of rf s] assms(1) obtain l nm where
    "gamepad_emulation rf i (padGetButtons (padUpdate c i))
       (scanned rf i l nm
          (upd_Gamepad (\<lambda>g. g\<lparr>padReady := (padReady g)(i := True)\<rparr>)
            (upd_platform (\<lambda>p. p\<lparr>nxPad := (nxPad p)(i := padUpdate c i)\<rparr>) s))) = Inr s'"
    by auto
  note em = gamepad_emulation_props [OF this]
  show "previousKeyState (Keyboard (CORE s')) k = currentKeyState (Keyboard (CORE s)) k"
    if "k \<in> emulated_keys"
    using that by (simp add: em emulate_keys_previous_in)
  show "previousButtonState (Mouse (CORE s')) =
       (previousButtonState (Mouse (CORE s)))
         (MOUSE_BUTTON_LEFT := currentButtonState (Mouse (CORE s)) MOUSE_BUTTON_LEFT,
          MOUSE_BUTTON_MIDDLE := currentButtonState (Mouse (CORE s)) MOUSE_BUTTON_MIDDLE,
          MOUSE_BUTTON_RIGHT :=
            (if held (padGetButtons (padUpdate c i)) HidNpadButton_ZL then 1 else 0))"
    by (simp add: em emulate_mouse_buttons_previous split del: if_split)
  show "currentButtonState (Mouse (CORE s')) =
       (currentButtonState (Mouse (CORE s)))
         (MOUSE_BUTTON_RIGHT :=
            (if held (padGetButtons (padUpdate c i)) HidNpadButton_ZL then 1 else 0),
          MOUSE_BUTTON_MIDDLE :=
            (if held (padGetButtons (padUpdate c i)) (of_nat GAMEPAD_BUTTON_RIGHT_THUMB)
             then 1 else 0),
          MOUSE_BUTTON_LEFT :=
            (if held (padGetButtons (padUpdate c i)) HidNpadButton_ZR then 1 else 0))"
    by (simp add: em emulate_mouse_buttons_current split del: if_split)
  show "padPreviousButtonState (Gamepad (CORE s')) i b =
        padCurrentButtonState (Gamepad (CORE s)) i b"
    if "b < MAX_GAMEPAD_BUTTONS"
    using that by (simp add: em)
  show "axisState (Gamepad (CORE s')) i =
       polled_axes rf (padUpdate c i) (axisState (Gamepad (CORE s)) i)"
    by (simp add: em)
qed

lemma poll_gamepad_disconnected_effect:
  assumes "poll_gamepad rf c i s = Inr s'" and "\<not> pad_connected c i"
  shows "Keyboard (CORE s') = Keyboard (CORE s)" and "Mouse (CORE s') = Mouse (CORE s)"
    and "padPreviousButtonState (Gamepad (CORE s')) = padPreviousButtonState (Gamepad (CORE s))"
    and "padCurrentButtonState (Gamepad (CORE s')) = padCurrentButtonState (Gamepad (CORE s))"
    and "axisState (Gamepad (CORE s')) = axisState (Gamepad (CORE s))"
  using assms by (auto simp: poll_gamepad_disconnected)

lemma poll_gamepad_returns:
  assumes "0 \<le> exitKey (Keyboard (CORE s))" "exitKey (Keyboard (CORE s)) < int MAX_KEYBOARD_KEYS"
  shows "\<exists>s'. poll_gamepad rf c i s = Inr s'"
proof (cases "pad_connected c i")
  case True
  from poll_gamepad_connected [OF True, of rf s] obtain l nm where eq:
    "poll_gamepad rf c i s = gamepad_emulation rf i (padGetButtons (padUpdate c i))
       (scanned rf i l nm
          (upd_Gamepad (\<lambda>g. g\<lparr>padReady := (padReady g)(i := True)\<rparr>)
            (upd_platform (\<lambda>p. p\<lparr>nxPad := (nxPad p)(i := padUpdate c i)\<rparr>) s)))"
    by auto
  show ?thesis
    unfolding eq using assms by (intro gamepad_emulation_returns) simp_all
next
  case False
  then show ?thesis by (simp add: poll_gamepad_disconnected)
qed

lemma pad_loop_frame:
  assumes "for_upto_e n (poll_gamepad rf c) s = Inr s'"
  shows "Touch (CORE s') = Touch (CORE s)"
    and "touchDeltaTime (platform s') = touchDeltaTime (platform s)"
    and "exitKey (Keyboard (CORE s')) = exitKey (Keyboard (CORE s))"
    and "mouseScale (Mouse (CORE s')) = mouseScale (Mouse (CORE s))"
    and "k \<notin> emulated_keys \<Longrightarrow>
      previousKeyState (Keyboard (CORE s')) k = previousKeyState (Keyboard (CORE s)) k"
proof -
  show "Touch (CORE s') = Touch (CORE s)"
    by (rule for_upto_e_frame [OF assms]) (simp add: poll_gamepad_frame)
  show "touchDeltaTime (platform s') = touchDeltaTime (platform s)"
    by (rule for_upto_e_frame [OF assms]) (simp add: poll_gamepad_frame)
  show "exitKey (Keyboard (CORE s')) = exitKey (Keyboard (CORE s))"
    by (rule for_upto_e_frame [OF assms]) (simp add: poll_gamepad_frame)
  show "mouseScale (Mouse (CORE s')) = mouseScale (Mouse (CORE s))"
    by (rule for_upto_e_frame [OF assms]) (simp add: poll_gamepad_frame)
  show "previousKeyState (Keyboard (CORE s')) k = previousKeyState (Keyboard (CORE s)) k"
    if "k \<notin> emulated_keys"
    by (rule for_upto_e_frame [OF assms,
          where P = "\<lambda>s. previousKeyState (Keyboard (CORE s)) k"])
      (use that poll_gamepad_frame in blast)
qed

lemma pad_loop_returns:
  assumes "0 \<le> exitKey (Keyboard (CORE s))" "exitKey (Keyboard (CORE s)) < int MAX_KEYBOARD_KEYS"
  shows "\<exists>s'. for_upto_e n (poll_gamepad rf c) s = Inr s'"
proof (induction n)
  case 0
  show ?case by simp
next
  case (Suc n)
  then obtain s1 where s1: "for_upto_e n (poll_gamepad rf c) s = Inr s1" by blast
  have "\<exists>s'. poll_gamepad rf c n s1 = Inr s'"
    using assms by (intro poll_gamepad_returns) (simp_all add: pad_loop_frame [OF s1])
  with s1 show ?case by simp
qed

text \<open>The gamepad rows after \<open>n\<close> iterations of the pad loop.\<close>

lemma pad_loop_rows:
  assumes "for_upto_e n (poll_gamepad rf c) s = Inr s'"
  shows "(n \<le> p \<or> \<not> pad_connected c p \<longrightarrow>
        padPreviousButtonState (Gamepad (CORE s')) p =
          padPreviousButtonState (Gamepad (CORE s)) p \<and>
        padCurrentButtonState (Gamepad (CORE s')) p =
          padCurrentButtonState (Gamepad (CORE s)) p \<and>
        axisState (Gamepad (CORE s')) p = axisState (Gamepad (CORE s)) p) \<and>
     (p < n \<and> pad_connected c p \<longrightarrow>
        (\<forall>b<MAX_GAMEPAD_BUTTONS. padPreviousButtonState (Gamepad (CORE s')) p b =
            padCurrentButtonState (Gamepad (CORE s)) p b) \<and>
        axisState (Gamepad (CORE s')) p =
          polled_axes rf (padUpdate c p) (axisState (Gamepad (CORE s)) p))"
  using assms
proof (induction n arbitrary: s')
  case 0
  then show ?case by simp
next
  case (Suc n)
  from Suc.prems obtain s1 where s1: "for_upto_e n (poll_gamepad rf c) s = Inr s1"
    and step: "poll_gamepad rf c n s1 = Inr s'"
    by (auto simp: bind_f_eq_Inr)
  note IH = Suc.IH [OF s1]
  show ?case
  proof (cases "p = n")
    case True
    from IH True have before:
      "padPreviousButtonState (Gamepad (CORE s1)) n = padPreviousButtonState (Gamepad (CORE s)) n"
      "padCurrentButtonState (Gamepad (CORE s1)) n = padCurrentButtonState (Gamepad (CORE s)) n"
      "axisState (Gamepad (CORE s1)) n = axisState (Gamepad (CORE s)) n"
      by simp_all
    show ?thesis
    proof (cases "pad_connected c n")
      case con: True
      have "padPreviousButtonState (Gamepad (CORE s')) n b =
          padCurrentButtonState (Gamepad (CORE s)) n b" if "b < MAX_GAMEPAD_BUTTONS" for b
        using poll_gamepad_connected_effect(4) [OF step con that] by (simp only: before)
      moreover have "axisState (Gamepad (CORE s')) n =
          polled_axes rf (padUpdate c n) (axisState (Gamepad (CORE s)) n)"
        using poll_gamepad_connected_effect(5) [OF step con] by (simp only: before)
      ultimately show ?thesis using con True by simp
    next
      case False
      with poll_gamepad_disconnected_effect(3-5) [OF step False] before True
      show ?thesis by simp
    qed
  next
    case False
    from poll_gamepad_frame [OF step, of _ p] False have same:
      "padPreviousButtonState (Gamepad (CORE s')) p =
         padPreviousButtonState (Gamepad (CORE s1)) p"
      "padCurrentButtonState (Gamepad (CORE s')) p =
         padCurrentButtonState (Gamepad (CORE s1)) p"
      "axisState (Gamepad (CORE s')) p = axisState (Gamepad (CORE s1)) p"
      by simp_all
    from False have "Suc n \<le> p \<longleftrightarrow> n \<le> p" "p < Suc n \<longleftrightarrow> p < n" by auto
    with IH show ?thesis by (simp only: same)
  qed
qed

text \<open>Keyboard and mouse after \<open>n\<close> iterations when no pad but \<open>p\<close> is connected.\<close>

lemma pad_loop_keyboard_mouse:
  assumes "for_upto_e n (poll_gamepad rf c) s = Inr s'"
    and "\<forall>q<n. q \<noteq> p \<longrightarrow> \<not> pad_connected c q"
  shows "(p < n \<and> pad_connected c p \<longrightarrow>
        (\<forall>k\<in>emulated_keys. previousKeyState (Keyboard (CORE s')) k =
            currentKeyState (Keyboard (CORE s)) k) \<and>
        previousButtonState (Mouse (CORE s')) =
          (previousButtonState (Mouse (CORE s)))
            (MOUSE_BUTTON_LEFT := currentButtonState (Mouse (CORE s)) MOUSE_BUTTON_LEFT,
             MOUSE_BUTTON_MIDDLE := currentButtonState (Mouse (CORE s)) MOUSE_BUTTON_MIDDLE,
             MOUSE_BUTTON_RIGHT :=
               (if held (padGetButtons (padUpdate c p)) HidNpadButton_ZL then 1 else 0)) \<and>
        currentButtonState (Mouse (CORE s')) =
          (currentButtonState (Mouse (CORE s)))
            (MOUSE_BUTTON_RIGHT :=
               (if held (padGetButtons (padUpdate c p)) HidNpadButton_ZL then 1 else 0),
             MOUSE_BUTTON_MIDDLE :=
               (if held (padGetButtons (padUpdate c p)) (of_nat GAMEPAD_BUTTON_RIGHT_THUMB)
                then 1 else 0),
             MOUSE_BUTTON_LEFT :=
               (if held (padGetButtons (padUpdate c p)) HidNpadButton_ZR then 1 else 0))) \<and>
     (\<not> (p < n \<and> pad_connected c p) \<longrightarrow>
        Keyboard (CORE s') = Keyboard (CORE s) \<and> Mouse (CORE s') = Mouse (CORE s))"
  using assms
proof (induction n arbitrary: s')
  case 0
  then show ?case by simp
next
  case (Suc n)
  from Suc.prems(1) obtain s1 where s1: "for_upto_e n (poll_gamepad rf c) s = Inr s1"
    and step: "poll_gamepad rf c n s1 = Inr s'"
    by (auto simp: bind_f_eq_Inr)
  from Suc.prems(2) have others: "\<forall>q<n. q \<noteq> p \<longrightarrow> \<not> pad_connected c q" by simp
  note IH = Suc.IH [OF s1 others]
  show ?case
  proof (rule conjI; rule impI)
    assume on: "p < Suc n \<and> pad_connected c p"
    show "(\<forall>k\<in>emulated_keys. previousKeyState (Keyboard (CORE s')) k =
            currentKeyState (Keyboard (CORE s)) k) \<and>
        previousButtonState (Mouse (CORE s')) =
          (previousButtonState (Mouse (CORE s)))
            (MOUSE_BUTTON_LEFT := currentButtonState (Mouse (CORE s)) MOUSE_BUTTON_LEFT,
             MOUSE_BUTTON_MIDDLE := currentButtonState (Mouse (CORE s)) MOUSE_BUTTON_MIDDLE,
             MOUSE_BUTTON_RIGHT :=
               (if held (padGetButtons (padUpdate c p)) HidNpadButton_ZL then 1 else 0)) \<and>
        currentButtonState (Mouse (CORE s')) =
          (currentButtonState (Mouse (CORE s)))
            (MOUSE_BUTTON_RIGHT :=
               (if held (padGetButtons (padUpdate c p)) HidNpadButton_ZL then 1 else 0),
             MOUSE_BUTTON_MIDDLE :=
               (if held (padGetButtons (padUpdate c p)) (of_nat GAMEPAD_BUTTON_RIGHT_THUMB)
                then 1 else 0),
             MOUSE_BUTTON_LEFT :=
               (if held (padGetButtons (padUpdate c p)) HidNpadButton_ZR then 1 else 0))"
    proof (cases "p < n")
      case True
      with on Suc.prems(2) have off: "\<not> pad_connected c n" by auto
      note same = poll_gamepad_disconnected_effect(1,2) [OF step off]
      from IH True on show ?thesis by (simp only: same) blast
    next
      case False
      with on have p: "p = n" by arith
      with on have con: "pad_connected c n" by simp
      from IH False have same: "Keyboard (CORE s1) = Keyboard (CORE s)"
          "Mouse (CORE s1) = Mouse (CORE s)"
        by blast+
      have "\<forall>k\<in>emulated_keys. previousKeyState (Keyboard (CORE s')) k =
          currentKeyState (Keyboard (CORE s)) k"
        using poll_gamepad_connected_effect(1) [OF step con] by (simp only: same) blast
      with poll_gamepad_connected_effect(2,3) [OF step con, unfolded same]
      show ?thesis unfolding p by blast
    qed
  next
    assume none: "\<not> (p < Suc n \<and> pad_connected c p)"
    then have before: "\<not> (p < n \<and> pad_connected c p)" by auto
    from none Suc.prems(2) have off: "\<not> pad_connected c n" by (cases "n = p") auto
    from IH before have same: "Keyboard (CORE s1) = Keyboard (CORE s)"
        "Mouse (CORE s1) = Mouse (CORE s)"
      by blast+
    from poll_gamepad_disconnected_effect(1,2) [OF step off]
    show "Keyboard (CORE s') = Keyboard (CORE s) \<and> Mouse (CORE s') = Mouse (CORE s)"
      by (simp only: same)
  qed
qed

subsection \<open>PollInputEvents as a whole\<close>

lemma PollInputEvents_Inr:
  "PollInputEvents rf c s = Inr s' \<longleftrightarrow>
     (\<exists>s1. poll_touch rf c (poll_reset s) = Inr s1 \<and>
           for_upto_e MAX_GAMEPADS (poll_gamepad rf c) s1 = Inr s')"
  by (simp add: PollInputEvents_def bind_f_eq_Inr)

lemma proj_touched [simp]:
  "Window (CORE (touched rf st n s)) = Window (CORE s)"
  "Keyboard (CORE (touched rf st n s)) = Keyboard (CORE s)"
  "Mouse (CORE (touched rf st n s)) = Mouse (CORE s)"
  "Gamepad (CORE (touched rf st n s)) = Gamepad (CORE s)"
  "Time_base (CORE (touched rf st n s)) = Time_base (CORE s)"
  "tracelog (touched rf st n s) = tracelog s"
  "pointCount (Touch (CORE (touched rf st n s))) = pointCount (Touch (CORE s))"
  "currentTouchState (Touch (CORE (touched rf st n s))) = currentTouchState (Touch (CORE s))"
  "previousTouchState (Touch (CORE (touched rf st n s))) = previousTouchState (Touch (CORE s))"
  by (simp_all add: touched_def)

lemma proj_poll_reset [simp]:
  "Window (CORE (poll_reset s)) = Window (CORE s)"
  "Mouse (CORE (poll_reset s)) = Mouse (CORE s)"
  "platform (poll_reset s) = platform s"
  "tracelog (poll_reset s) = tracelog s"
  "exitKey (Keyboard (CORE (poll_reset s))) = exitKey (Keyboard (CORE s))"
  "currentKeyState (Keyboard (CORE (poll_reset s))) = currentKeyState (Keyboard (CORE s))"
  "previousKeyState (Keyboard (CORE (poll_reset s))) =
     (\<lambda>i. if i < 260 then currentKeyState (Keyboard (CORE s)) i
          else previousKeyState (Keyboard (CORE s)) i)"
  "pointCount (Touch (CORE (poll_reset s))) = pointCount (Touch (CORE s))"
  "pointId (Touch (CORE (poll_reset s))) = pointId (Touch (CORE s))"
  "position (Touch (CORE (poll_reset s))) = position (Touch (CORE s))"
  "currentTouchState (Touch (CORE (poll_reset s))) = currentTouchState (Touch (CORE s))"
  "previousTouchState (Touch (CORE (poll_reset s))) =
     (\<lambda>i. if i < MAX_TOUCH_POINTS then currentTouchState (Touch (CORE s)) i
          else previousTouchState (Touch (CORE s)) i)"
  "padPreviousButtonState (Gamepad (CORE (poll_reset s))) =
     padPreviousButtonState (Gamepad (CORE s))"
  "padCurrentButtonState (Gamepad (CORE (poll_reset s))) =
     padCurrentButtonState (Gamepad (CORE s))"
  "axisState (Gamepad (CORE (poll_reset s))) = axisState (Gamepad (CORE s))"
  by (simp_all add: poll_reset_eq)

text \<open>What the touch phase leaves alone, and what it writes.\<close>

lemma poll_touch_props:
  assumes "poll_touch rf c s = Inr s'"
  shows "Window (CORE s') = Window (CORE s)" "Keyboard (CORE s') = Keyboard (CORE s)"
    "Mouse (CORE s') = Mouse (CORE s)" "Gamepad (CORE s') = Gamepad (CORE s)"
    "currentTouchState (Touch (CORE s')) = currentTouchState (Touch (CORE s))"
    "previousTouchState (Touch (CORE s')) = previousTouchState (Touch (CORE s))"
  using assms by (auto simp: poll_touch_eq split: option.splits if_splits)

lemma poll_touch_Some:
  assumes "poll_touch rf c s = Inr s'" and "hidGetTouchScreenStates c = Some st"
  shows "pointCount (Touch (CORE s')) = count st"
    and "position (Touch (CORE s')) =
      (\<lambda>i. if i < nat (count st)
           then (rf (real (unat (touch_x (touches st i)))),
                 rf (real (unat (touch_y (touches st i)))))
           else position (Touch (CORE s)) i)"
    and "pointId (Touch (CORE s')) =
      (\<lambda>i. if i < nat (count st) then sint (finger_id (touches st i))
           else pointId (Touch (CORE s)) i)"
    and "touchDeltaTime (platform s') =
      (\<lambda>i. if i < nat (count st) then sint (delta_time (touches st i))
           else touchDeltaTime (platform s) i)"
  using assms by (auto simp: poll_touch_eq touched_def split: if_splits)

lemma PollInputEvents_returns:
  assumes "poll_defined c s"
  shows "\<exists>s'. PollInputEvents rf c s = Inr s'"
proof -
  from assms have "\<exists>s1. poll_touch rf c (poll_reset s) = Inr s1"
    by (auto simp: poll_defined_def poll_touch_eq split: option.splits)
  then obtain s1 where s1: "poll_touch rf c (poll_reset s) = Inr s1" by blast
  note t = poll_touch_props [OF s1]
  from assms have "\<exists>s'. for_upto_e MAX_GAMEPADS (poll_gamepad rf c) s1 = Inr s'"
    by (intro pad_loop_returns) (simp_all add: poll_defined_def t)
  with s1 show ?thesis by (auto simp: PollInputEvents_Inr)
qed

subsection \<open>The axis values\<close>


lemma rounding_id: "rounding (\<lambda>x. x)"
  by (simp add: rounding_def mono_def)

lemma rounding_fix: "rounding r \<Longrightarrow> \<bar>n\<bar> \<le> 2 ^ 24 \<Longrightarrow> r (of_int n) = of_int n"
  by (simp add: rounding_def)

lemma rounding_mono: "rounding r \<Longrightarrow> x \<le> y \<Longrightarrow> r x \<le> r y"
  by (simp add: rounding_def mono_def)

lemma rounding_0: "rounding r \<Longrightarrow> r 0 = 0"
  using rounding_fix [of r 0] by simp

lemma rounding_1: "rounding r \<Longrightarrow> r 1 = 1"
  using rounding_fix [of r 1] by simp

lemma rounding_m1: "rounding r \<Longrightarrow> r (- 1) = - 1"
  using rounding_fix [of r "- 1"] by simp

lemma stick_axis_range:
  assumes r: "rounding rf" and lo: "JOYSTICK_MIN \<le> v" and hi: "v \<le> JOYSTICK_MAX"
  shows "- 1 \<le> rf (rf (real_of_int v) / 32767) \<and> rf (rf (real_of_int v) / 32767) \<le> 1"
proof -
  from lo hi have "\<bar>v\<bar> \<le> 2 ^ 24" by (simp add: JOYSTICK_MIN_def JOYSTICK_MAX_def)
  with r have exact: "rf (real_of_int v) = real_of_int v" by (rule rounding_fix)
  from lo hi have "- 1 \<le> real_of_int v / 32767" "real_of_int v / 32767 \<le> 1"
    by (simp_all add: JOYSTICK_MIN_def JOYSTICK_MAX_def)
  with rounding_mono [OF r] rounding_1 [OF r] rounding_m1 [OF r]
  show ?thesis unfolding exact by metis
qed

lemma polled_axes_range:
  assumes r: "rounding rf" and st: "sticks_in_range pad" and a: "a < 6"
  shows "- 1 \<le> polled_axes rf pad row a \<and> polled_axes rf pad row a \<le> 1"
proof -
  from a have "a = 0 \<or> a = 1 \<or> a = 2 \<or> a = 3 \<or> a = 4 \<or> a = 5" by arith
  moreover from st have
    "JOYSTICK_MIN \<le> sint (fst (padGetStickPos pad 0))" "sint (fst (padGetStickPos pad 0)) \<le> JOYSTICK_MAX"
    "JOYSTICK_MIN \<le> sint (snd (padGetStickPos pad 0))" "sint (snd (padGetStickPos pad 0)) \<le> JOYSTICK_MAX"
    "JOYSTICK_MIN \<le> sint (fst (padGetStickPos pad 1))" "sint (fst (padGetStickPos pad 1)) \<le> JOYSTICK_MAX"
    "JOYSTICK_MIN \<le> sint (snd (padGetStickPos pad 1))" "sint (snd (padGetStickPos pad 1)) \<le> JOYSTICK_MAX"
    by (simp_all add: sticks_in_range_def Let_def)
  note stick_axis_range [OF r this(1,2)] stick_axis_range [OF r this(3,4)]
    stick_axis_range [OF r this(5,6)] stick_axis_range [OF r this(7,8)]
  ultimately show ?thesis
    by (elim disjE) (simp_all add: polled_axes_def axis_defs)
qed

lemmas concrete_defs = nx_zero_def nx_started_def CORE_zero_def platform_zero_def
  PadState_zero_def Size_zero_def

lemma sint_m32767: "sint (- 32767 :: 32 word) = - 32767"
  by simp

text \<open>
  C7. For every connected pad whose stick readings lie in the range of libnx
  (\<open>JOYSTICK_MIN\<close> to \<open>JOYSTICK_MAX\<close>), the six axis values that \<open>PollInputEvents\<close>
  writes for it lie in \<open>[-1, 1]\<close>, for every rounding of the \<open>float\<close> operations. The
  call returns whenever it stays inside the arrays (\<open>poll_defined\<close>); and the statements
  that write the axes (lines 516 to 521) write values in \<open>[-1, 1]\<close> from every state,
  whatever the rest of the call does.
\<close>

theorem PollInputEvents_axis_range:
  assumes "rounding rf"
  shows "(poll_defined c s \<longrightarrow> (\<exists>s'. PollInputEvents rf c s = Inr s')) \<and>
    (\<forall>s' p a. PollInputEvents rf c s = Inr s' \<and> p < MAX_GAMEPADS \<and> pad_connected c p \<and>
        sticks_in_range (padUpdate c p) \<and> a < 6 \<longrightarrow>
      - 1 \<le> axisState (Gamepad (CORE s')) p a \<and> axisState (Gamepad (CORE s')) p a \<le> 1) \<and>
    (\<forall>p a. sticks_in_range (nxPad (platform s) p) \<and> a < 6 \<longrightarrow>
      - 1 \<le> axisState (Gamepad (CORE
               (poll_axes rf p (padGetButtons (nxPad (platform s) p)) s))) p a \<and>
      axisState (Gamepad (CORE
               (poll_axes rf p (padGetButtons (nxPad (platform s) p)) s))) p a \<le> 1)"
proof (intro conjI impI allI)
  assume "poll_defined c s"
  then show "\<exists>s'. PollInputEvents rf c s = Inr s'" by (rule PollInputEvents_returns)
next
  fix p a :: nat
  assume h: "sticks_in_range (nxPad (platform s) p) \<and> a < 6"
  with polled_axes_range [OF assms, where pad = "nxPad (platform s) p" and a = a]
  show "- 1 \<le> axisState (Gamepad (CORE
               (poll_axes rf p (padGetButtons (nxPad (platform s) p)) s))) p a"
    by (simp add: poll_axes_eq)
  from h polled_axes_range [OF assms, where pad = "nxPad (platform s) p" and a = a]
  show "axisState (Gamepad (CORE
               (poll_axes rf p (padGetButtons (nxPad (platform s) p)) s))) p a \<le> 1"
    by (simp add: poll_axes_eq)
next
  fix s' :: nx_state and p a :: nat
  assume h: "PollInputEvents rf c s = Inr s' \<and> p < MAX_GAMEPADS \<and> pad_connected c p \<and>
        sticks_in_range (padUpdate c p) \<and> a < 6"
  then obtain s1 where loop: "for_upto_e MAX_GAMEPADS (poll_gamepad rf c) s1 = Inr s'"
    by (auto simp: PollInputEvents_Inr)
  from pad_loop_rows [OF loop, of p] h
  have "axisState (Gamepad (CORE s')) p =
      polled_axes rf (padUpdate c p) (axisState (Gamepad (CORE s1)) p)"
    by blast
  with polled_axes_range [OF assms, where pad = "padUpdate c p" and a = a] h
  show "- 1 \<le> axisState (Gamepad (CORE s')) p a" by simp
  from \<open>axisState (Gamepad (CORE s')) p =
      polled_axes rf (padUpdate c p) (axisState (Gamepad (CORE s1)) p)\<close>
    polled_axes_range [OF assms, where pad = "padUpdate c p" and a = a] h
  show "axisState (Gamepad (CORE s')) p a \<le> 1" by simp
qed


text \<open>
  Pad 0 connected with its left stick at \<open>(JOYSTICK_MAX, JOYSTICK_MIN)\<close>, exact arithmetic.
\<close>

theorem PollInputEvents_axis_range_witness:
  "rounding (\<lambda>x. x) \<and> poll_defined calls_pad0 nx_started \<and> pad_connected calls_pad0 0 \<and>
   sticks_in_range (padUpdate calls_pad0 0) \<and>
   \<not> isl (PollInputEvents (\<lambda>x. x) calls_pad0 nx_started) \<and>
   - 1 \<le> axisState (Gamepad (CORE (projr (PollInputEvents (\<lambda>x. x) calls_pad0 nx_started)))) 0
            GAMEPAD_AXIS_LEFT_Y \<and>
   axisState (Gamepad (CORE (projr (PollInputEvents (\<lambda>x. x) calls_pad0 nx_started)))) 0
            GAMEPAD_AXIS_LEFT_Y \<le> 1"
proof -
  have dfd: "poll_defined calls_pad0 nx_started"
    by (simp add: poll_defined_def calls_pad0_def concrete_defs KEY_ESCAPE_def
        MAX_KEYBOARD_KEYS_def)
  have con: "pad_connected calls_pad0 0"
    by (simp add: pad_connected_def calls_pad0_def pad_full_tilt_def)
  have rng: "sticks_in_range (padUpdate calls_pad0 0)"
    by (simp add: sticks_in_range_def calls_pad0_def pad_full_tilt_def JOYSTICK_MIN_def
        JOYSTICK_MAX_def)
  note main = PollInputEvents_axis_range [OF rounding_id, of calls_pad0 nx_started]
  from main dfd obtain s' where s': "PollInputEvents (\<lambda>x. x) calls_pad0 nx_started = Inr s'"
    by blast
  from main s' con rng have "- 1 \<le> axisState (Gamepad (CORE s')) 0 GAMEPAD_AXIS_LEFT_Y \<and>
      axisState (Gamepad (CORE s')) 0 GAMEPAD_AXIS_LEFT_Y \<le> 1"
    by (simp add: MAX_GAMEPADS_def GAMEPAD_AXIS_LEFT_Y_def)
  with dfd con rng rounding_id show ?thesis by (simp add: s')
qed


subsection \<open>The touch points\<close>

text \<open>
  C10. With a touch count of 9, which the touch screen state of libnx can hold (it has
  room for 16 touches), the touch loop reaches index 8, past the \<open>MAX_TOUCH_POINTS\<close>
  cells of \<open>position\<close>, \<open>pointId\<close> and \<open>touchDeltaTime\<close>: the code does not compare the
  count with the size of the arrays, and the call writes outside them, from every state.
\<close>

theorem PollInputEvents_touch_count_overflow:
  "PollInputEvents rf calls_nine_touches s = Inl IndexOutOfBounds"
  by (simp add: PollInputEvents_def poll_touch_eq calls_nine_touches_def MAX_TOUCH_POINTS_def)

text \<open>
  With a count \<open>n\<close> of at most \<open>MAX_TOUCH_POINTS\<close> the call sets \<open>pointCount\<close> to \<open>n\<close>,
  overwrites the position, \<open>pointId\<close> and delta-time entries at the indices below \<open>n\<close>, and
  leaves the entries from \<open>n\<close> to \<open>MAX_TOUCH_POINTS - 1\<close> as they were before the call:
  stale positions are not cleared.
\<close>

theorem PollInputEvents_touch_points:
  "(poll_defined c s \<longrightarrow> (\<exists>s'. PollInputEvents rf c s = Inr s')) \<and>
   (\<forall>s' st. PollInputEvents rf c s = Inr s' \<and> hidGetTouchScreenStates c = Some st \<longrightarrow>
      pointCount (Touch (CORE s')) = count st \<and>
      (\<forall>i. i < nat (count st) \<longrightarrow>
         position (Touch (CORE s')) i =
           (rf (real (unat (touch_x (touches st i)))), rf (real (unat (touch_y (touches st i))))) \<and>
         pointId (Touch (CORE s')) i = sint (finger_id (touches st i)) \<and>
         touchDeltaTime (platform s') i = sint (delta_time (touches st i))) \<and>
      (\<forall>i. nat (count st) \<le> i \<and> i < MAX_TOUCH_POINTS \<longrightarrow>
         position (Touch (CORE s')) i = position (Touch (CORE s)) i \<and>
         pointId (Touch (CORE s')) i = pointId (Touch (CORE s)) i \<and>
         touchDeltaTime (platform s') i = touchDeltaTime (platform s) i))"
proof (rule conjI)
  show "poll_defined c s \<longrightarrow> (\<exists>s'. PollInputEvents rf c s = Inr s')"
    by (simp add: PollInputEvents_returns)
next
  show "\<forall>s' st. PollInputEvents rf c s = Inr s' \<and> hidGetTouchScreenStates c = Some st \<longrightarrow>
      pointCount (Touch (CORE s')) = count st \<and>
      (\<forall>i. i < nat (count st) \<longrightarrow>
         position (Touch (CORE s')) i =
           (rf (real (unat (touch_x (touches st i)))), rf (real (unat (touch_y (touches st i))))) \<and>
         pointId (Touch (CORE s')) i = sint (finger_id (touches st i)) \<and>
         touchDeltaTime (platform s') i = sint (delta_time (touches st i))) \<and>
      (\<forall>i. nat (count st) \<le> i \<and> i < MAX_TOUCH_POINTS \<longrightarrow>
         position (Touch (CORE s')) i = position (Touch (CORE s)) i \<and>
         pointId (Touch (CORE s')) i = pointId (Touch (CORE s)) i \<and>
         touchDeltaTime (platform s') i = touchDeltaTime (platform s) i)"
  proof (intro allI impI)
    fix s' st
    assume h: "PollInputEvents rf c s = Inr s' \<and> hidGetTouchScreenStates c = Some st"
    then obtain s1 where touch: "poll_touch rf c (poll_reset s) = Inr s1"
      and loop: "for_upto_e MAX_GAMEPADS (poll_gamepad rf c) s1 = Inr s'"
      by (auto simp: PollInputEvents_Inr)
    from h have st: "hidGetTouchScreenStates c = Some st" by simp
    note t = poll_touch_Some [OF touch st]
    note f = pad_loop_frame(1,2) [OF loop]
    show "pointCount (Touch (CORE s')) = count st \<and>
      (\<forall>i. i < nat (count st) \<longrightarrow>
         position (Touch (CORE s')) i =
           (rf (real (unat (touch_x (touches st i)))), rf (real (unat (touch_y (touches st i))))) \<and>
         pointId (Touch (CORE s')) i = sint (finger_id (touches st i)) \<and>
         touchDeltaTime (platform s') i = sint (delta_time (touches st i))) \<and>
      (\<forall>i. nat (count st) \<le> i \<and> i < MAX_TOUCH_POINTS \<longrightarrow>
         position (Touch (CORE s')) i = position (Touch (CORE s)) i \<and>
         pointId (Touch (CORE s')) i = pointId (Touch (CORE s)) i \<and>
         touchDeltaTime (platform s') i = touchDeltaTime (platform s) i)"
      by (simp add: f t)
  qed
qed

text \<open>
  One finger reported where two had been recorded: the first entry is overwritten, the
  second keeps the position, id and delta time of the earlier frame.
\<close>

theorem PollInputEvents_touch_points_witness:
  "poll_defined calls_one_touch nx_two_fingers \<and>
   \<not> isl (PollInputEvents (\<lambda>x. x) calls_one_touch nx_two_fingers) \<and>
   pointCount (Touch (CORE (projr (PollInputEvents (\<lambda>x. x) calls_one_touch nx_two_fingers)))) = 1 \<and>
   position (Touch (CORE (projr (PollInputEvents (\<lambda>x. x) calls_one_touch nx_two_fingers)))) 0
     = (100, 200) \<and>
   position (Touch (CORE (projr (PollInputEvents (\<lambda>x. x) calls_one_touch nx_two_fingers)))) 1
     = (7, 9) \<and>
   pointId (Touch (CORE (projr (PollInputEvents (\<lambda>x. x) calls_one_touch nx_two_fingers)))) 1 = 4 \<and>
   touchDeltaTime (platform (projr (PollInputEvents (\<lambda>x. x) calls_one_touch nx_two_fingers))) 1 = 8"
proof -
  have dfd: "poll_defined calls_one_touch nx_two_fingers"
    by (simp add: poll_defined_def calls_one_touch_def nx_two_fingers_def concrete_defs
        KEY_ESCAPE_def MAX_KEYBOARD_KEYS_def MAX_TOUCH_POINTS_def)
  note main = PollInputEvents_touch_points [of calls_one_touch nx_two_fingers "\<lambda>x. x"]
  from main dfd obtain s' where
    s': "PollInputEvents (\<lambda>x. x) calls_one_touch nx_two_fingers = Inr s'"
    by blast
  have st: "hidGetTouchScreenStates calls_one_touch =
      Some \<lparr>count = 1,
            touches = (\<lambda>_. \<lparr>delta_time = 5, finger_id = 3, touch_x = 100, touch_y = 200\<rparr>)\<rparr>"
    by (simp add: calls_one_touch_def)
  from main s' st have facts:
    "pointCount (Touch (CORE s')) = 1"
    "position (Touch (CORE s')) 0 = (100, 200)"
    "position (Touch (CORE s')) 1 = position (Touch (CORE nx_two_fingers)) 1"
    "pointId (Touch (CORE s')) 1 = pointId (Touch (CORE nx_two_fingers)) 1"
    "touchDeltaTime (platform s') 1 = touchDeltaTime (platform nx_two_fingers) 1"
    by (simp_all add: MAX_TOUCH_POINTS_def)
  have vals: "position (Touch (CORE nx_two_fingers)) 1 = (7, 9)"
    "pointId (Touch (CORE nx_two_fingers)) 1 = 4"
    "touchDeltaTime (platform nx_two_fingers) 1 = 8"
    by (simp_all add: nx_two_fingers_def concrete_defs)
  show ?thesis
    using dfd facts vals by (simp add: s')
qed


subsection \<open>The previous input states\<close>

text \<open>
  C1, as the code has it. A call of \<open>PollInputEvents\<close> returns whenever the touch count is
  within the arrays and the exit key is a key index (\<open>poll_defined\<close>), and when it
  returns: every previous touch state equals the current touch state before the call; so does the previous state of every key below 260 that the gamepad
  emulation does not drive, and every previous button state of a connected pad. When no
  pad is connected this holds of every key below 260; when exactly one pad is connected
  it holds of the emulated keys and of the left and middle mouse buttons.
\<close>

theorem PollInputEvents_previous_states:
  "(poll_defined c s \<longrightarrow> (\<exists>s'. PollInputEvents rf c s = Inr s')) \<and>
   (\<forall>s'. PollInputEvents rf c s = Inr s' \<longrightarrow>
      (\<forall>i<MAX_TOUCH_POINTS.
         previousTouchState (Touch (CORE s')) i = currentTouchState (Touch (CORE s)) i) \<and>
      (\<forall>k<260. k \<notin> emulated_keys \<longrightarrow>
         previousKeyState (Keyboard (CORE s')) k = currentKeyState (Keyboard (CORE s)) k) \<and>
      (\<forall>p<MAX_GAMEPADS. pad_connected c p \<longrightarrow>
         (\<forall>b<MAX_GAMEPAD_BUTTONS.
            padPreviousButtonState (Gamepad (CORE s')) p b =
              padCurrentButtonState (Gamepad (CORE s)) p b)) \<and>
      ((\<forall>p<MAX_GAMEPADS. \<not> pad_connected c p) \<longrightarrow>
         (\<forall>k<260. previousKeyState (Keyboard (CORE s')) k =
            currentKeyState (Keyboard (CORE s)) k)) \<and>
      (\<forall>p<MAX_GAMEPADS.
         pad_connected c p \<and> (\<forall>q<MAX_GAMEPADS. q \<noteq> p \<longrightarrow> \<not> pad_connected c q) \<longrightarrow>
         (\<forall>k\<in>emulated_keys. previousKeyState (Keyboard (CORE s')) k =
            currentKeyState (Keyboard (CORE s)) k) \<and>
         previousButtonState (Mouse (CORE s')) MOUSE_BUTTON_LEFT =
           currentButtonState (Mouse (CORE s)) MOUSE_BUTTON_LEFT \<and>
         previousButtonState (Mouse (CORE s')) MOUSE_BUTTON_MIDDLE =
           currentButtonState (Mouse (CORE s)) MOUSE_BUTTON_MIDDLE))"
proof (rule conjI)
  show "poll_defined c s \<longrightarrow> (\<exists>s'. PollInputEvents rf c s = Inr s')"
    by (simp add: PollInputEvents_returns)
next
  have "(\<forall>i<MAX_TOUCH_POINTS.
         previousTouchState (Touch (CORE s')) i = currentTouchState (Touch (CORE s)) i) \<and>
      (\<forall>k<260. k \<notin> emulated_keys \<longrightarrow>
         previousKeyState (Keyboard (CORE s')) k = currentKeyState (Keyboard (CORE s)) k) \<and>
      (\<forall>p<MAX_GAMEPADS. pad_connected c p \<longrightarrow>
         (\<forall>b<MAX_GAMEPAD_BUTTONS.
            padPreviousButtonState (Gamepad (CORE s')) p b =
              padCurrentButtonState (Gamepad (CORE s)) p b)) \<and>
      ((\<forall>p<MAX_GAMEPADS. \<not> pad_connected c p) \<longrightarrow>
         (\<forall>k<260. previousKeyState (Keyboard (CORE s')) k =
            currentKeyState (Keyboard (CORE s)) k)) \<and>
      (\<forall>p<MAX_GAMEPADS.
         pad_connected c p \<and> (\<forall>q<MAX_GAMEPADS. q \<noteq> p \<longrightarrow> \<not> pad_connected c q) \<longrightarrow>
         (\<forall>k\<in>emulated_keys. previousKeyState (Keyboard (CORE s')) k =
            currentKeyState (Keyboard (CORE s)) k) \<and>
         previousButtonState (Mouse (CORE s')) MOUSE_BUTTON_LEFT =
           currentButtonState (Mouse (CORE s)) MOUSE_BUTTON_LEFT \<and>
         previousButtonState (Mouse (CORE s')) MOUSE_BUTTON_MIDDLE =
           currentButtonState (Mouse (CORE s)) MOUSE_BUTTON_MIDDLE)"
    if poll: "PollInputEvents rf c s = Inr s'" for s'
  proof -
    from poll obtain s1 where touch: "poll_touch rf c (poll_reset s) = Inr s1"
      and loop: "for_upto_e MAX_GAMEPADS (poll_gamepad rf c) s1 = Inr s'"
      by (auto simp: PollInputEvents_Inr)
    note t = poll_touch_props [OF touch]
    note f = pad_loop_frame [OF loop]
    have touch_states: "\<forall>i<MAX_TOUCH_POINTS.
        previousTouchState (Touch (CORE s')) i = currentTouchState (Touch (CORE s)) i"
      by (simp add: f(1) t)
    have plain_keys: "\<forall>k<260. k \<notin> emulated_keys \<longrightarrow>
        previousKeyState (Keyboard (CORE s')) k = currentKeyState (Keyboard (CORE s)) k"
      by (simp add: f(5) t)
    have buttons: "\<forall>p<MAX_GAMEPADS. pad_connected c p \<longrightarrow>
         (\<forall>b<MAX_GAMEPAD_BUTTONS.
            padPreviousButtonState (Gamepad (CORE s')) p b =
              padCurrentButtonState (Gamepad (CORE s)) p b)"
    proof (intro allI impI)
      fix p b
      assume "p < MAX_GAMEPADS" "pad_connected c p" "b < MAX_GAMEPAD_BUTTONS"
      with pad_loop_rows [OF loop, of p]
      have "padPreviousButtonState (Gamepad (CORE s')) p b =
          padCurrentButtonState (Gamepad (CORE s1)) p b"
        by blast
      then show "padPreviousButtonState (Gamepad (CORE s')) p b =
          padCurrentButtonState (Gamepad (CORE s)) p b"
        by (simp add: t)
    qed
    have no_pad: "(\<forall>p<MAX_GAMEPADS. \<not> pad_connected c p) \<longrightarrow>
         (\<forall>k<260. previousKeyState (Keyboard (CORE s')) k =
            currentKeyState (Keyboard (CORE s)) k)"
    proof (intro allI impI)
      fix k :: nat
      assume none: "\<forall>p<MAX_GAMEPADS. \<not> pad_connected c p" and k: "k < 260"
      from none have "\<forall>q<MAX_GAMEPADS. q \<noteq> MAX_GAMEPADS \<longrightarrow> \<not> pad_connected c q"
        by simp
      from pad_loop_keyboard_mouse [OF loop this]
      have "Keyboard (CORE s') = Keyboard (CORE s1)" by simp
      with k show "previousKeyState (Keyboard (CORE s')) k =
          currentKeyState (Keyboard (CORE s)) k"
        by (simp add: t)
    qed
    have one_pad: "\<forall>p<MAX_GAMEPADS.
         pad_connected c p \<and> (\<forall>q<MAX_GAMEPADS. q \<noteq> p \<longrightarrow> \<not> pad_connected c q) \<longrightarrow>
         (\<forall>k\<in>emulated_keys. previousKeyState (Keyboard (CORE s')) k =
            currentKeyState (Keyboard (CORE s)) k) \<and>
         previousButtonState (Mouse (CORE s')) MOUSE_BUTTON_LEFT =
           currentButtonState (Mouse (CORE s)) MOUSE_BUTTON_LEFT \<and>
         previousButtonState (Mouse (CORE s')) MOUSE_BUTTON_MIDDLE =
           currentButtonState (Mouse (CORE s)) MOUSE_BUTTON_MIDDLE"
    proof (intro allI impI)
      fix p
      assume p: "p < MAX_GAMEPADS"
        and only: "pad_connected c p \<and> (\<forall>q<MAX_GAMEPADS. q \<noteq> p \<longrightarrow> \<not> pad_connected c q)"
      then have others: "\<forall>q<MAX_GAMEPADS. q \<noteq> p \<longrightarrow> \<not> pad_connected c q" by simp
      from pad_loop_keyboard_mouse [OF loop others] p only
      have keys: "\<forall>k\<in>emulated_keys. previousKeyState (Keyboard (CORE s')) k =
            currentKeyState (Keyboard (CORE s1)) k"
        and mouse: "previousButtonState (Mouse (CORE s')) =
          (previousButtonState (Mouse (CORE s1)))
            (MOUSE_BUTTON_LEFT := currentButtonState (Mouse (CORE s1)) MOUSE_BUTTON_LEFT,
             MOUSE_BUTTON_MIDDLE := currentButtonState (Mouse (CORE s1)) MOUSE_BUTTON_MIDDLE,
             MOUSE_BUTTON_RIGHT :=
               (if held (padGetButtons (padUpdate c p)) HidNpadButton_ZL then 1 else 0))"
        by blast+
      from keys have "\<forall>k\<in>emulated_keys. previousKeyState (Keyboard (CORE s')) k =
            currentKeyState (Keyboard (CORE s)) k"
        by (simp add: t)
      moreover from mouse have "previousButtonState (Mouse (CORE s')) MOUSE_BUTTON_LEFT =
           currentButtonState (Mouse (CORE s)) MOUSE_BUTTON_LEFT"
        "previousButtonState (Mouse (CORE s')) MOUSE_BUTTON_MIDDLE =
           currentButtonState (Mouse (CORE s)) MOUSE_BUTTON_MIDDLE"
        by (simp_all add: t mouse_button_defs)
      ultimately show "(\<forall>k\<in>emulated_keys. previousKeyState (Keyboard (CORE s')) k =
            currentKeyState (Keyboard (CORE s)) k) \<and>
         previousButtonState (Mouse (CORE s')) MOUSE_BUTTON_LEFT =
           currentButtonState (Mouse (CORE s)) MOUSE_BUTTON_LEFT \<and>
         previousButtonState (Mouse (CORE s')) MOUSE_BUTTON_MIDDLE =
           currentButtonState (Mouse (CORE s)) MOUSE_BUTTON_MIDDLE"
        by blast
    qed
    from touch_states plain_keys buttons no_pad one_pad show ?thesis by blast
  qed
  then show "\<forall>s'. PollInputEvents rf c s = Inr s' \<longrightarrow>
      (\<forall>i<MAX_TOUCH_POINTS.
         previousTouchState (Touch (CORE s')) i = currentTouchState (Touch (CORE s)) i) \<and>
      (\<forall>k<260. k \<notin> emulated_keys \<longrightarrow>
         previousKeyState (Keyboard (CORE s')) k = currentKeyState (Keyboard (CORE s)) k) \<and>
      (\<forall>p<MAX_GAMEPADS. pad_connected c p \<longrightarrow>
         (\<forall>b<MAX_GAMEPAD_BUTTONS.
            padPreviousButtonState (Gamepad (CORE s')) p b =
              padCurrentButtonState (Gamepad (CORE s)) p b)) \<and>
      ((\<forall>p<MAX_GAMEPADS. \<not> pad_connected c p) \<longrightarrow>
         (\<forall>k<260. previousKeyState (Keyboard (CORE s')) k =
            currentKeyState (Keyboard (CORE s)) k)) \<and>
      (\<forall>p<MAX_GAMEPADS.
         pad_connected c p \<and> (\<forall>q<MAX_GAMEPADS. q \<noteq> p \<longrightarrow> \<not> pad_connected c q) \<longrightarrow>
         (\<forall>k\<in>emulated_keys. previousKeyState (Keyboard (CORE s')) k =
            currentKeyState (Keyboard (CORE s)) k) \<and>
         previousButtonState (Mouse (CORE s')) MOUSE_BUTTON_LEFT =
           currentButtonState (Mouse (CORE s)) MOUSE_BUTTON_LEFT \<and>
         previousButtonState (Mouse (CORE s')) MOUSE_BUTTON_MIDDLE =
           currentButtonState (Mouse (CORE s)) MOUSE_BUTTON_MIDDLE)"
    by blast
qed


lemma calls_pad0_connected: "pad_connected calls_pad0 q \<longleftrightarrow> q = 0"
  by (simp add: pad_connected_def calls_pad0_def pad_full_tilt_def PadState_zero_def)

lemma calls_one_touch_connected: "\<not> pad_connected calls_one_touch q"
  by (simp add: pad_connected_def calls_one_touch_def PadState_zero_def)

lemma nx_pressed_defined:
  "poll_defined calls_pad0 nx_pressed" "poll_defined calls_one_touch nx_pressed"
  by (simp_all add: poll_defined_def calls_pad0_def calls_one_touch_def nx_pressed_def
      concrete_defs KEY_ESCAPE_def MAX_KEYBOARD_KEYS_def MAX_TOUCH_POINTS_def)

lemma nx_pressed_values:
  "currentTouchState (Touch (CORE nx_pressed)) 0 = 1"
  "currentKeyState (Keyboard (CORE nx_pressed)) 48 = 1"
  "currentKeyState (Keyboard (CORE nx_pressed)) KEY_E = 1"
  "currentKeyState (Keyboard (CORE nx_pressed)) KEY_RIGHT = 1"
  "previousKeyState (Keyboard (CORE nx_pressed)) KEY_RIGHT = 0"
  "padCurrentButtonState (Gamepad (CORE nx_pressed)) 0 5 = 1"
  "padCurrentButtonState (Gamepad (CORE nx_pressed)) 1 5 = 1"
  "padPreviousButtonState (Gamepad (CORE nx_pressed)) 1 5 = 0"
  "currentButtonState (Mouse (CORE nx_pressed)) MOUSE_BUTTON_LEFT = 1"
  "currentButtonState (Mouse (CORE nx_pressed)) MOUSE_BUTTON_RIGHT = 0"
  by (simp_all add: nx_pressed_def concrete_defs upd2_def key_defs mouse_button_defs)

text \<open>
  A state with a touch, three keys, a pad button and the left mouse button down, polled
  once with pad 0 connected and once with no pad.
\<close>

theorem PollInputEvents_previous_states_witness:
  "poll_defined calls_pad0 nx_pressed \<and> pad_connected calls_pad0 0 \<and>
   \<not> isl (PollInputEvents (\<lambda>x. x) calls_pad0 nx_pressed) \<and>
   previousTouchState (Touch (CORE (projr (PollInputEvents (\<lambda>x. x) calls_pad0 nx_pressed)))) 0 = 1 \<and>
   previousKeyState (Keyboard (CORE (projr (PollInputEvents (\<lambda>x. x) calls_pad0 nx_pressed)))) 48 = 1 \<and>
   previousKeyState (Keyboard (CORE (projr (PollInputEvents (\<lambda>x. x) calls_pad0 nx_pressed)))) KEY_E = 1 \<and>
   previousKeyState (Keyboard (CORE (projr (PollInputEvents (\<lambda>x. x) calls_pad0 nx_pressed)))) KEY_RIGHT
     = 1 \<and>
   padPreviousButtonState (Gamepad (CORE (projr (PollInputEvents (\<lambda>x. x) calls_pad0 nx_pressed)))) 0 5
     = 1 \<and>
   previousButtonState (Mouse (CORE (projr (PollInputEvents (\<lambda>x. x) calls_pad0 nx_pressed))))
     MOUSE_BUTTON_LEFT = 1 \<and>
   poll_defined calls_one_touch nx_pressed \<and>
   \<not> isl (PollInputEvents (\<lambda>x. x) calls_one_touch nx_pressed) \<and>
   previousKeyState (Keyboard (CORE (projr (PollInputEvents (\<lambda>x. x) calls_one_touch nx_pressed)))) KEY_E
     = 1"
proof -
  note main0 = PollInputEvents_previous_states [of calls_pad0 nx_pressed "\<lambda>x. x"]
  note main1 = PollInputEvents_previous_states [of calls_one_touch nx_pressed "\<lambda>x. x"]
  from main0 nx_pressed_defined(1) obtain s0 where
    s0: "PollInputEvents (\<lambda>x. x) calls_pad0 nx_pressed = Inr s0"
    by blast
  from main1 nx_pressed_defined(2) obtain s1 where
    s1: "PollInputEvents (\<lambda>x. x) calls_one_touch nx_pressed = Inr s1"
    by blast
  note body0 = main0 [THEN conjunct2, rule_format, OF s0]
  note body1 = main1 [THEN conjunct2, rule_format, OF s1]
  note touch0 = body0 [THEN conjunct1, rule_format]
  note plain0 = body0 [THEN conjunct2, THEN conjunct1, rule_format]
  note buttons0 = body0 [THEN conjunct2, THEN conjunct2, THEN conjunct1, rule_format]
  note one0 = body0 [THEN conjunct2, THEN conjunct2, THEN conjunct2, THEN conjunct2,
      rule_format]
  note none1 = body1 [THEN conjunct2, THEN conjunct2, THEN conjunct2, THEN conjunct1,
      rule_format]
  have plain: "(48::nat) < 260" "48 \<notin> emulated_keys"
    by (simp_all add: emulated_keys_def key_defs)
  have emu: "KEY_E \<in> emulated_keys" "KEY_RIGHT \<in> emulated_keys" "KEY_E < 260"
    by (simp_all add: emulated_keys_def key_defs)
  have ranges: "0 < MAX_TOUCH_POINTS" "0 < MAX_GAMEPADS" "5 < MAX_GAMEPAD_BUTTONS"
    by (simp_all add: MAX_TOUCH_POINTS_def MAX_GAMEPADS_def MAX_GAMEPAD_BUTTONS_def)
  have con: "pad_connected calls_pad0 0"
    by (simp add: calls_pad0_connected)
  have only: "pad_connected calls_pad0 0 \<and>
      (\<forall>q<MAX_GAMEPADS. q \<noteq> 0 \<longrightarrow> \<not> pad_connected calls_pad0 q)"
    by (simp add: calls_pad0_connected)
  have none: "\<And>p. p < MAX_GAMEPADS \<Longrightarrow> \<not> pad_connected calls_one_touch p"
    by (simp add: calls_one_touch_connected)
  note keys0 = one0 [OF ranges(2) only, THEN conjunct1, THEN bspec]
  note facts =
    touch0 [OF ranges(1)] plain0 [OF plain] keys0 [OF emu(1)] keys0 [OF emu(2)]
    buttons0 [OF ranges(2) con ranges(3)]
    one0 [OF ranges(2) only, THEN conjunct2, THEN conjunct1]
    none1 [OF none emu(3)]
  show ?thesis
    using nx_pressed_defined con facts nx_pressed_values by (simp add: s0 s1)
qed

text \<open>
  C1 as stated, for each previous entry, fails. The row of a pad that is not connected is
  not refreshed: its previous state stays at the value of two frames ago. The previous
  state of the right mouse button is read after the current one has been written in the
  same call. With no pad connected the loop over the keys stops at 260, and the arrow key
  above it keeps its old previous state.
\<close>

theorem PollInputEvents_previous_states_counterexample:
  "\<not> isl (PollInputEvents (\<lambda>x. x) calls_pad0 nx_pressed) \<and>
   padCurrentButtonState (Gamepad (CORE nx_pressed)) 1 5 = 1 \<and>
   padPreviousButtonState (Gamepad (CORE (projr (PollInputEvents (\<lambda>x. x) calls_pad0 nx_pressed)))) 1 5
     = 0 \<and>
   currentButtonState (Mouse (CORE nx_pressed)) MOUSE_BUTTON_RIGHT = 0 \<and>
   previousButtonState (Mouse (CORE (projr (PollInputEvents (\<lambda>x. x) calls_pad0 nx_pressed))))
     MOUSE_BUTTON_RIGHT = 1 \<and>
   currentButtonState (Mouse (CORE (projr (PollInputEvents (\<lambda>x. x) calls_pad0 nx_pressed))))
     MOUSE_BUTTON_RIGHT = 1 \<and>
   \<not> isl (PollInputEvents (\<lambda>x. x) calls_one_touch nx_pressed) \<and>
   currentKeyState (Keyboard (CORE nx_pressed)) KEY_RIGHT = 1 \<and>
   previousKeyState (Keyboard (CORE (projr (PollInputEvents (\<lambda>x. x) calls_one_touch nx_pressed))))
     KEY_RIGHT = 0"
proof -
  obtain s0 where s0: "PollInputEvents (\<lambda>x. x) calls_pad0 nx_pressed = Inr s0"
    using PollInputEvents_returns [OF nx_pressed_defined(1)] by blast
  obtain s1 where s1: "PollInputEvents (\<lambda>x. x) calls_one_touch nx_pressed = Inr s1"
    using PollInputEvents_returns [OF nx_pressed_defined(2)] by blast
  from s0 obtain t0 where touch0: "poll_touch (\<lambda>x. x) calls_pad0 (poll_reset nx_pressed) = Inr t0"
    and loop0: "for_upto_e MAX_GAMEPADS (poll_gamepad (\<lambda>x. x) calls_pad0) t0 = Inr s0"
    by (auto simp: PollInputEvents_Inr)
  from s1 obtain t1 where
    touch1: "poll_touch (\<lambda>x. x) calls_one_touch (poll_reset nx_pressed) = Inr t1"
    and loop1: "for_upto_e MAX_GAMEPADS (poll_gamepad (\<lambda>x. x) calls_one_touch) t1 = Inr s1"
    by (auto simp: PollInputEvents_Inr)
  note p0 = poll_touch_props [OF touch0]
  note p1 = poll_touch_props [OF touch1]
  have stale: "padPreviousButtonState (Gamepad (CORE s0)) 1 5 = 0"
    using pad_loop_rows [OF loop0, of 1] nx_pressed_values(8)
    by (simp add: calls_pad0_connected p0)
  have "\<forall>q<MAX_GAMEPADS. q \<noteq> 0 \<longrightarrow> \<not> pad_connected calls_pad0 q"
    by (simp add: calls_pad0_connected)
  moreover have "0 < MAX_GAMEPADS \<and> pad_connected calls_pad0 0"
    by (simp add: calls_pad0_connected MAX_GAMEPADS_def)
  ultimately have pm: "previousButtonState (Mouse (CORE s0)) =
      (previousButtonState (Mouse (CORE t0)))
        (MOUSE_BUTTON_LEFT := currentButtonState (Mouse (CORE t0)) MOUSE_BUTTON_LEFT,
         MOUSE_BUTTON_MIDDLE := currentButtonState (Mouse (CORE t0)) MOUSE_BUTTON_MIDDLE,
         MOUSE_BUTTON_RIGHT :=
           (if held (padGetButtons (padUpdate calls_pad0 0)) HidNpadButton_ZL then 1 else 0))"
    and cm: "currentButtonState (Mouse (CORE s0)) =
      (currentButtonState (Mouse (CORE t0)))
        (MOUSE_BUTTON_RIGHT :=
           (if held (padGetButtons (padUpdate calls_pad0 0)) HidNpadButton_ZL then 1 else 0),
         MOUSE_BUTTON_MIDDLE :=
           (if held (padGetButtons (padUpdate calls_pad0 0)) (of_nat GAMEPAD_BUTTON_RIGHT_THUMB)
            then 1 else 0),
         MOUSE_BUTTON_LEFT :=
           (if held (padGetButtons (padUpdate calls_pad0 0)) HidNpadButton_ZR then 1 else 0))"
    using pad_loop_keyboard_mouse [OF loop0, of 0] by blast+
  have zl: "held (padGetButtons (padUpdate calls_pad0 0)) HidNpadButton_ZL"
    by (simp add: calls_pad0_def pad_full_tilt_def held_def HidNpadButton_ZL_def)
  have mouse: "previousButtonState (Mouse (CORE s0)) MOUSE_BUTTON_RIGHT = 1"
    "currentButtonState (Mouse (CORE s0)) MOUSE_BUTTON_RIGHT = 1"
    unfolding pm cm by (simp_all add: zl mouse_button_defs split del: if_split)
  have "\<forall>q<MAX_GAMEPADS. q \<noteq> MAX_GAMEPADS \<longrightarrow> \<not> pad_connected calls_one_touch q"
    by (simp add: calls_one_touch_connected)
  from pad_loop_keyboard_mouse [OF loop1 this]
  have "Keyboard (CORE s1) = Keyboard (CORE t1)" by simp
  then have key: "previousKeyState (Keyboard (CORE s1)) KEY_RIGHT = 0"
    using nx_pressed_values(5) by (simp add: p1 KEY_RIGHT_def)
  show ?thesis
    using stale mouse key nx_pressed_values by (simp add: s0 s1)
qed


subsection \<open>The elapsed time\<close>

lemma nanoSeconds_reading:
  assumes "reading_in_nanoseconds ts < 2 ^ 64"
  shows "unat (tv_sec ts * 1000000000 + tv_nsec ts) = reading_in_nanoseconds ts"
proof -
  from assms have sec: "unat (tv_sec ts) * 1000000000 < 2 ^ 64"
    by (simp add: reading_in_nanoseconds_def)
  have "unat (tv_sec ts * 1000000000) = unat (tv_sec ts) * 1000000000 mod 2 ^ 64"
    by (simp add: unat_word_ariths)
  with sec have mult: "unat (tv_sec ts * 1000000000) = unat (tv_sec ts) * 1000000000"
    by simp
  have "unat (tv_sec ts * 1000000000 + tv_nsec ts) =
      (unat (tv_sec ts * 1000000000) + unat (tv_nsec ts)) mod 2 ^ 64"
    by (simp add: unat_word_ariths)
  with assms show ?thesis
    by (simp add: mult reading_in_nanoseconds_def)
qed

lemma GetTime_eq:
  assumes fit: "reading_in_nanoseconds ts < 2 ^ 64"
    and base: "unat (Time_base (CORE s)) \<le> reading_in_nanoseconds ts"
  shows "GetTime rd ts s =
    rd (rd (real (reading_in_nanoseconds ts - unat (Time_base (CORE s)))) *
        rd (1 / 1000000000))"
proof -
  from base have "Time_base (CORE s) \<le> tv_sec ts * 1000000000 + tv_nsec ts"
    by (simp add: word_le_nat_alt nanoSeconds_reading [OF fit])
  then have "unat (tv_sec ts * 1000000000 + tv_nsec ts - Time_base (CORE s)) =
      reading_in_nanoseconds ts - unat (Time_base (CORE s))"
    by (simp add: unat_sub nanoSeconds_reading [OF fit])
  then show ?thesis
    unfolding GetTime_def Let_def by (simp only:)
qed

lemma rounding_nonneg: "rounding r \<Longrightarrow> 0 \<le> x \<Longrightarrow> 0 \<le> r x"
  using rounding_mono [of r 0 x] by (simp add: rounding_0)

text \<open>
  C8. For clock readings that fit the \<open>unsigned long long\<close> in which the code computes
  them, taken at or after the time base, \<open>GetTime\<close> returns the elapsed nanoseconds
  times \<open>1e-9\<close> (in \<open>double\<close> arithmetic, for every monotone rounding that is exact on
  small integers), a value that is not negative, and a later reading gives a value that
  is not smaller.
\<close>

theorem GetTime_elapsed:
  assumes r: "rounding rd"
    and fit1: "reading_in_nanoseconds ts1 < 2 ^ 64"
    and fit2: "reading_in_nanoseconds ts2 < 2 ^ 64"
    and base: "unat (Time_base (CORE s)) \<le> reading_in_nanoseconds ts1"
    and later: "reading_in_nanoseconds ts1 \<le> reading_in_nanoseconds ts2"
  shows "GetTime rd ts1 s =
      rd (rd (real (reading_in_nanoseconds ts1 - unat (Time_base (CORE s)))) *
          rd (1 / 1000000000)) \<and>
    0 \<le> GetTime rd ts1 s \<and> GetTime rd ts1 s \<le> GetTime rd ts2 s"
proof -
  define c where "c = rd (1 / 1000000000)"
  define e1 where "e1 = rd (real (reading_in_nanoseconds ts1 - unat (Time_base (CORE s))))"
  define e2 where "e2 = rd (real (reading_in_nanoseconds ts2 - unat (Time_base (CORE s))))"
  from base later have base2: "unat (Time_base (CORE s)) \<le> reading_in_nanoseconds ts2"
    by simp
  have g1: "GetTime rd ts1 s = rd (e1 * c)"
    unfolding e1_def c_def by (rule GetTime_eq [OF fit1 base])
  have g2: "GetTime rd ts2 s = rd (e2 * c)"
    unfolding e2_def c_def by (rule GetTime_eq [OF fit2 base2])
  have c0: "0 \<le> c"
    unfolding c_def by (rule rounding_nonneg [OF r]) simp
  have e0: "0 \<le> e1"
    unfolding e1_def by (rule rounding_nonneg [OF r]) simp
  from later have e12: "e1 \<le> e2"
    unfolding e1_def e2_def by (intro rounding_mono [OF r]) simp
  from c0 e0 have "0 \<le> rd (e1 * c)"
    by (intro rounding_nonneg [OF r]) simp
  moreover from e12 c0 have "rd (e1 * c) \<le> rd (e2 * c)"
    by (intro rounding_mono [OF r] mult_right_mono)
  ultimately show ?thesis
    by (simp add: g1 g2 e1_def c_def)
qed

text \<open>
  The time base at one second; readings at 2.5 and at 3 seconds give 1.5 and 2 seconds.
\<close>

theorem GetTime_elapsed_witness:
  "rounding (\<lambda>x. x) \<and> reading_in_nanoseconds ts_2500ms < 2 ^ 64 \<and>
   reading_in_nanoseconds ts_3000ms < 2 ^ 64 \<and>
   unat (Time_base (CORE nx_timed)) \<le> reading_in_nanoseconds ts_2500ms \<and>
   reading_in_nanoseconds ts_2500ms \<le> reading_in_nanoseconds ts_3000ms \<and>
   GetTime (\<lambda>x. x) ts_2500ms nx_timed = 3 / 2 \<and>
   0 \<le> GetTime (\<lambda>x. x) ts_2500ms nx_timed \<and>
   GetTime (\<lambda>x. x) ts_2500ms nx_timed \<le> GetTime (\<lambda>x. x) ts_3000ms nx_timed"
proof -
  have rdg: "reading_in_nanoseconds ts_2500ms = 2500000000"
    "reading_in_nanoseconds ts_3000ms = 3000000000"
    "unat (Time_base (CORE nx_timed)) = 1000000000"
    by (simp_all add: reading_in_nanoseconds_def ts_2500ms_def ts_3000ms_def nx_timed_def
        InitTimer_def)
  from GetTime_elapsed [of "\<lambda>x. x" ts_2500ms ts_3000ms nx_timed] rounding_id
  show ?thesis
    by (simp add: rdg)
qed


end
